theory Spec2Isabelle
  imports Complex_Main
begin

section \<open>Conventions of the embedding\<close>

text \<open>
  The C sources \<^verbatim>\<open>vplanet.c\<close>, \<^verbatim>\<open>evolve.c\<close>, \<^verbatim>\<open>atmesc.c\<close> and \<^verbatim>\<open>stellar.c\<close> are
  translated function by function.

  \<^item> A \<^verbatim>\<open>double\<close> is a real number: rounding, overflow and the infinities are outside
    the model, and a division by zero has HOL's value \<open>0\<close>. Where the source itself tests
    \<^verbatim>\<open>isnan\<close> (the stellar track lookups) the possibly-NaN double is a \<open>real option\<close>
    with \<open>None\<close> for NaN.
  \<^item> \<^verbatim>\<open>pow(x, n)\<close> with an integer literal \<open>n\<close> is the power \<open>x ^ n\<close>; with any other
    exponent it is \<open>x powr y\<close>, which is \<^verbatim>\<open>pow\<close> on positive bases. \<^verbatim>\<open>log10\<close> is \<open>log 10\<close>.
  \<^item> The \<^verbatim>\<open>BODY *body\<close> array is a list of records, \<^verbatim>\<open>body[i]\<close> is \<open>body ! i\<close> and a
    write \<^verbatim>\<open>body[i].f = e\<close> is \<open>body[i := (body ! i)\<lparr>f := e\<rparr>]\<close>. An index beyond the
    array is undefined behaviour in C; the theorems state the bounds they need.
  \<^item> An \<^verbatim>\<open>int\<close> used as a truth value is a \<open>bool\<close>; the \<^verbatim>\<open>#define\<close>d tags of a family
    (\<^verbatim>\<open>ATMESC_*\<close>, \<^verbatim>\<open>STELLAR_MODEL_*\<close>, \<^verbatim>\<open>STELLAR_ERR_*\<close>) are the constructors of a
    datatype.
  \<^item> The numeric macros of \<^verbatim>\<open>vplanet.h\<close> and the functions of other translation units are
    not part of these four files; they are parameters (the records \<open>vplanet_h\<close> and
    \<open>externs\<close>).
  \<^item> Text written to \<^verbatim>\<open>stderr\<close> is returned as a list of lines; \<^verbatim>\<open>exit\<close> is a value
    \<open>Inl\<close> of a sum type.
\<close>

section \<open>vplanet.c: the global constants\<close>

text \<open>\<^verbatim>\<open>DBL_MAX\<close> of \<^verbatim>\<open>float.h\<close> for IEEE 754 binary64.\<close>

definition DBL_MAX :: real where
  "DBL_MAX = (2 ^ 53 - 1) * 2 ^ 971"

definition dHUGE :: real where
  "dHUGE = DBL_MAX"

definition dTINY :: real where
  "dTINY = 1 / DBL_MAX"

section \<open>vplanet.h: macros and the body record\<close>

record vplanet_h =
  ATOMMASS :: real
  BIGG :: real
  KBOLTZ :: real
  PI :: real
  QOH :: real
  MEARTH :: real
  LSUN :: real
  AUM :: real
  VERBINPUT :: int

datatype atmesc_tag =
    ATMESC_LB15 | ATMESC_LBEXACT | ATMESC_TIAN
  | ATMESC_ELIM | ATMESC_DIFFLIM | ATMESC_NONE
  | ATMESC_LOP12 | ATMESC_PROXCENB | ATMESC_LEHMER17
  | ATMESC_BOL16

datatype stellar_model =
    STELLAR_MODEL_CONST | STELLAR_MODEL_BARAFFE | STELLAR_MODEL_REINERS
  | STELLAR_MODEL_RIBAS | STELLAR_MODEL_PROXIMACEN | STELLAR_MODEL_NONE

text \<open>
  The fields of \<^verbatim>\<open>IO\<close> and \<^verbatim>\<open>BODY\<close> that the translated functions read or write. A
  parameter of a C function that has the name of a field is written with a prime.
\<close>

record IO =
  iVerbose :: int
  dOutputTime :: real

record BODY =
  cName :: string
  dAge :: real
  dMass :: real
  dRadius :: real
  dSemi :: real
  dEcc :: real
  dObliquity :: real
  dMeanMotion :: real
  dPositionX :: real
  dPositionY :: real
  dPositionZ :: real
  dVelX :: real
  dVelY :: real
  dVelZ :: real
  bBinary :: bool
  iBodyType :: int
  iPlanetRadiusModel :: atmesc_tag
  dRadSolid :: real
  dEnvelopeMass :: real
  dGravAccel :: real
  dScaleHeight :: real
  dAtmGasConst :: real
  dThermTemp :: real
  dPresSurf :: real
  dRadXUV :: real
  dPresXUV :: real
  dXFrac :: real
  dKTide :: real
  bRocheMessage :: bool
  bCalcFXUV :: bool
  dFXUV :: real
  iAtmXAbsEffH2OModel :: atmesc_tag
  dAtmXAbsEffH2O :: real
  dAtmXAbsEffH :: real
  dFHRef :: real
  dSurfaceWaterMass :: real
  dOxygenMass :: real
  dOxygenMantleMass :: real
  dFlowTemp :: real
  dFHDiffLim :: real
  dOxygenEta :: real
  dCrossoverMass :: real
  bRunaway :: bool
  iWaterEscapeRegime :: atmesc_tag
  dMDotWater :: real
  iWaterLossModel :: atmesc_tag
  dRGDuration :: real
  dJeansTime :: real
  bInstantO2Sink :: bool
  iStellarModel :: stellar_model
  dLuminosity :: real
  dTemperature :: real
  dRadGyra :: real
  bEvolveRG :: bool
  dRotRate :: real
  dLostAngMom :: real
  dLostEng :: real

text \<open>
  Functions that \<^verbatim>\<open>atmesc.c\<close> calls and that live in other translation units.
\<close>

record externs =
  fdLehmerPres :: "real \<Rightarrow> real \<Rightarrow> real \<Rightarrow> real"
  fdLehmerRadius :: "real \<Rightarrow> real \<Rightarrow> real \<Rightarrow> real \<Rightarrow> real"
  fdXUVFlux :: "BODY list \<Rightarrow> nat \<Rightarrow> real"
  fdInstellation :: "BODY list \<Rightarrow> nat \<Rightarrow> real"

section \<open>atmesc.c: helper functions\<close>

definition fdAtomicOxygenMixingRatio :: "vplanet_h \<Rightarrow> real \<Rightarrow> real \<Rightarrow> real" where
  "fdAtomicOxygenMixingRatio K dSurfaceWaterMass' dOxygenMass' =
     (let NO2 = dOxygenMass' / (32 * ATOMMASS K);
          NH2O = dSurfaceWaterMass' / (18 * ATOMMASS K)
      in if NH2O > 0 then 1 / (1 + 1 / (0.5 + NO2 / NH2O))
         else if NO2 > 0 then 1
         else 0)"

text \<open>
  \<^verbatim>\<open>fvLinearFit\<close>: the two loops are sums over the first \<open>iLen\<close> entries; the result is
  the pair \<^verbatim>\<open>(daCoeffs[0], daCoeffs[1])\<close>.
\<close>

definition fvLinearFit :: "real list \<Rightarrow> real list \<Rightarrow> nat \<Rightarrow> real \<times> real" where
  "fvLinearFit x y iLen =
     (let xavg = fold (\<lambda>i s. s + x ! i) [0..<iLen] 0;
          yavg = fold (\<lambda>i s. s + y ! i) [0..<iLen] 0;
          xavg = xavg / real iLen;
          yavg = yavg / real iLen;
          num = fold (\<lambda>i s. s + (x ! i - xavg) * (y ! i - yavg)) [0..<iLen] 0;
          den = fold (\<lambda>i s. s + (x ! i - xavg) * (x ! i - xavg)) [0..<iLen] 0;
          m = num / den
      in (m, yavg - m * xavg))"

definition fdHZRG14 :: "vplanet_h \<Rightarrow> BODY list \<Rightarrow> nat \<Rightarrow> real" where
  "fdHZRG14 K body iBody =
     (let tstar = dTemperature (body ! 0) - 5780;
          daLogMP = [-1.0, 0, 0.69897];
          seffsun = [0.99, 1.107, 1.188];
          a = [1.209 / 10 ^ 4, 1.332 / 10 ^ 4, 1.433 / 10 ^ 4];
          b = [1.404 / 10 ^ 8, 1.58 / 10 ^ 8, 1.707 / 10 ^ 8];
          c = [-7.418 / 10 ^ 12, -8.308 / 10 ^ 12, -8.968 / 10 ^ 12];
          d = [-1.713 / 10 ^ 15, -1.931 / 10 ^ 15, -2.084 / 10 ^ 15];
          seff = map (\<lambda>i. seffsun ! i + a ! i * tstar + b ! i * tstar * tstar
                           + c ! i * tstar ^ 3 + d ! i * tstar ^ 4) [0..<3];
          daCoeffs = fvLinearFit daLogMP seff 3
      in (fst daCoeffs * log 10 (dMass (body ! iBody) / MEARTH K) + snd daCoeffs)
           * LSUN K / (4 * PI K * AUM K * AUM K))"

text \<open>
  \<^verbatim>\<open>fbDoesWaterEscape\<close> returns its \<^verbatim>\<open>int\<close> as a \<open>bool\<close>, together with the body array,
  whose \<^verbatim>\<open>dRGDuration\<close> it may set.
\<close>

definition fbDoesWaterEscape :: "vplanet_h \<Rightarrow> externs \<Rightarrow> BODY list \<Rightarrow> nat \<Rightarrow> bool \<times> BODY list" where
  "fbDoesWaterEscape K X body iBody =
     (if dEnvelopeMass (body ! iBody) > 0 then
        (if dRGDuration (body ! iBody) = 0 \<and> fdInstellation X body iBody < fdHZRG14 K body iBody
         then (False, body[iBody := (body ! iBody)\<lparr>dRGDuration := dAge (body ! iBody)\<rparr>])
         else (False, body))
      else if fdInstellation X body iBody < fdHZRG14 K body iBody then
        (if dRGDuration (body ! iBody) = 0
         then (False, body[iBody := (body ! iBody)\<lparr>dRGDuration := dAge (body ! iBody)\<rparr>])
         else (False, body))
      else if dSurfaceWaterMass (body ! iBody) \<le> 0 then (False, body)
      else if dAge (body ! iBody) > dJeansTime (body ! iBody) then (False, body)
      else (True, body))"

section \<open>atmesc.c: the derivative functions\<close>

text \<open>
  A derivative function has the C type \<^verbatim>\<open>double f(BODY *body, SYSTEM *system, int *iaBody)\<close>.
  None of the ones below reads \<^verbatim>\<open>system\<close>, so the parameter is dropped; \<^verbatim>\<open>iaBody\<close> is a
  list of body indices.
\<close>

definition fdDSurfaceWaterMassDt :: "BODY list \<Rightarrow> nat list \<Rightarrow> real" where
  "fdDSurfaceWaterMassDt body iaBody =
     (let b = body ! (iaBody ! 0)
      in if bRunaway b \<and> dSurfaceWaterMass b > 0
         then - (9 / (1 + 8 * dOxygenEta b)) * dMDotWater b
         else 0)"

definition fdDOxygenMassDt :: "vplanet_h \<Rightarrow> BODY list \<Rightarrow> nat list \<Rightarrow> real" where
  "fdDOxygenMassDt K body iaBody =
     (let b = body ! (iaBody ! 0)
      in if bRunaway b \<and> \<not> bInstantO2Sink b \<and> dSurfaceWaterMass b > 0 then
           (if iWaterLossModel b = ATMESC_LB15 then
              (if dCrossoverMass b \<ge> 16 * ATOMMASS K then
                 (let BDIFF = 4.8 * 10 ^ 19 * dFlowTemp b powr 0.75
                  in (320 * PI K * BIGG K * ATOMMASS K * ATOMMASS K * BDIFF * dMass b)
                       / (KBOLTZ K * dFlowTemp b))
               else (8 - 8 * dOxygenEta b) / (1 + 8 * dOxygenEta b) * dMDotWater b)
            else (8 - 8 * dOxygenEta b) / (1 + 8 * dOxygenEta b) * dMDotWater b)
         else 0)"

definition fdDOxygenMantleMassDt :: "vplanet_h \<Rightarrow> BODY list \<Rightarrow> nat list \<Rightarrow> real" where
  "fdDOxygenMantleMassDt K body iaBody =
     (let b = body ! (iaBody ! 0)
      in if bRunaway b \<and> bInstantO2Sink b \<and> dSurfaceWaterMass b > 0 then
           (if iWaterLossModel b = ATMESC_LB15 then
              (if dCrossoverMass b \<ge> 16 * ATOMMASS K then
                 (let BDIFF = 4.8 * 10 ^ 19 * dFlowTemp b powr 0.75
                  in (320 * PI K * BIGG K * ATOMMASS K * ATOMMASS K * BDIFF * dMass b)
                       / (KBOLTZ K * dFlowTemp b))
               else (8 - 8 * dOxygenEta b) / (1 + 8 * dOxygenEta b) * dMDotWater b)
            else (8 - 8 * dOxygenEta b) / (1 + 8 * dOxygenEta b) * dMDotWater b)
         else 0)"

definition fdDEnvelopeMassDt :: "vplanet_h \<Rightarrow> BODY list \<Rightarrow> nat list \<Rightarrow> real" where
  "fdDEnvelopeMassDt K body iaBody =
     (let b = body ! (iaBody ! 0)
      in if dEnvelopeMass b \<le> 0 \<or> dAge b > dJeansTime b then dTINY
         else if iPlanetRadiusModel b = ATMESC_LEHMER17 then
           - dAtmXAbsEffH b * PI K * dFXUV b * dRadXUV b ^ 3
               / (BIGG K * (dMass b - dEnvelopeMass b))
         else
           - dFHRef b * (dAtmXAbsEffH b / dAtmXAbsEffH2O b)
               * (4 * ATOMMASS K * PI K * dRadius b * dRadius b * dXFrac b * dXFrac b))"

section \<open>atmesc.c: auxiliary properties\<close>

definition fdXUVEfficiencyBolmont2016 :: "real \<Rightarrow> real" where
  "fdXUVEfficiencyBolmont2016 dFXUV' =
     (let a0 = 1.49202; a1 = 5.57875; a2 = 2.27482;
          b0 = 0.59182134; b1 = -0.36140798; b2 = -0.04011933; b3 = -0.8988;
          c0 = -0.00441536; c1 = -0.03068399; c2 = 0.04946948; c3 = -0.89880083;
          x = log 10 (dFXUV' * 1000)
      in if x \<ge> -2 \<and> x < -1 then 10 powr (a0 * x * x + a1 * x + a2)
         else if x \<ge> -1 \<and> x < 0 then 10 powr (b0 * x * x * x + b1 * x * x + b2 * x + b3)
         else if x \<ge> 0 \<and> x \<le> 5 then 10 powr (c0 * x * x * x + c1 * x * x + c2 * x + c3)
         else 0)"

text \<open>
  \<^verbatim>\<open>fnPropsAuxAtmEsc(body, evolve, io, update, iBody)\<close> does not use \<^verbatim>\<open>evolve\<close> and
  \<^verbatim>\<open>update\<close>, which are dropped. The statements are
  kept in the order of the source, each one on the body array as the previous one left
  it, so that the reads of \<^verbatim>\<open>body[0]\<close> see the writes to \<^verbatim>\<open>body[iBody]\<close> when \<open>iBody = 0\<close>.
  The result is the array and the lines written to \<^verbatim>\<open>stderr\<close>.
\<close>

definition fnPropsAuxAtmEsc ::
  "vplanet_h \<Rightarrow> externs \<Rightarrow> BODY list \<Rightarrow> IO \<Rightarrow> nat \<Rightarrow> BODY list \<times> string list" where
  "fnPropsAuxAtmEsc K X body io iBody =
     (let body = body[iBody := (body ! iBody)\<lparr>dAge := dAge (body ! 0)\<rparr>];
          body =
            (if iPlanetRadiusModel (body ! iBody) = ATMESC_LEHMER17 then
               (let body = body[iBody := (body ! iBody)\<lparr>dRadSolid :=
                             1.3 * (dMass (body ! iBody) - dEnvelopeMass (body ! iBody)) powr 0.27\<rparr>];
                    body = body[iBody := (body ! iBody)\<lparr>dGravAccel :=
                             BIGG K * (dMass (body ! iBody) - dEnvelopeMass (body ! iBody))
                               / (dRadSolid (body ! iBody) * dRadSolid (body ! iBody))\<rparr>];
                    body = body[iBody := (body ! iBody)\<lparr>dScaleHeight :=
                             dAtmGasConst (body ! iBody) * dThermTemp (body ! iBody)
                               / dGravAccel (body ! iBody)\<rparr>];
                    body = body[iBody := (body ! iBody)\<lparr>dPresSurf :=
                             fdLehmerPres X (dEnvelopeMass (body ! iBody)) (dGravAccel (body ! iBody))
                               (dRadSolid (body ! iBody))\<rparr>];
                    body = body[iBody := (body ! iBody)\<lparr>dRadXUV :=
                             fdLehmerRadius X (dRadSolid (body ! iBody)) (dPresXUV (body ! iBody))
                               (dScaleHeight (body ! iBody)) (dPresSurf (body ! iBody))\<rparr>]
                in body)
             else body);
          xi = ((dMass (body ! iBody) / (3 * dMass (body ! 0))) powr (1 / 3) * dSemi (body ! iBody))
                 / (dRadius (body ! iBody) * dXFrac (body ! iBody));
          (body, err) =
            (if bBinary (body ! iBody) \<and> iBodyType (body ! iBody) = 0 then
               (body[iBody := (body ! iBody)\<lparr>dKTide := 1.0\<rparr>], [])
             else
               (let (body, err) =
                      (if xi > 1 then
                         (body[iBody := (body ! iBody)\<lparr>dKTide :=
                             1 - 3 / (2 * xi) + 1 / (2 * xi ^ 3)\<rparr>], [])
                       else if \<not> bRocheMessage (body ! iBody) \<and> iVerbose io \<ge> VERBINPUT K then
                         (body[iBody := (body ! iBody)\<lparr>bRocheMessage := True\<rparr>],
                          [''WARNING: Roche lobe radius is larger than XUV radius for ''
                             @ cName (body ! iBody) @ '', evolution may not be accurate.''])
                       else (body, []))
                in (body[iBody := (body ! iBody)\<lparr>dKTide := 1.0\<rparr>], err)));
          body =
            (if bCalcFXUV (body ! iBody)
             then body[iBody := (body ! iBody)\<lparr>dFXUV := fdXUVFlux X body iBody\<rparr>]
             else body);
          body =
            (if iAtmXAbsEffH2OModel (body ! iBody) = ATMESC_BOL16
             then body[iBody := (body ! iBody)\<lparr>dAtmXAbsEffH2O :=
                         fdXUVEfficiencyBolmont2016 (dFXUV (body ! iBody))\<rparr>]
             else body);
          body = body[iBody := (body ! iBody)\<lparr>dFHRef :=
                   (dAtmXAbsEffH2O (body ! iBody) * dFXUV (body ! iBody) * dRadius (body ! iBody))
                     / (4 * BIGG K * dMass (body ! iBody) * dKTide (body ! iBody) * ATOMMASS K)\<rparr>];
          g = (BIGG K * dMass (body ! iBody)) / (dRadius (body ! iBody) * dRadius (body ! iBody));
          XO = fdAtomicOxygenMixingRatio K (dSurfaceWaterMass (body ! iBody)) (dOxygenMass (body ! iBody));
          BDIFF = 4.8 * 10 ^ 19 * dFlowTemp (body ! iBody) powr 0.75;
          body = body[iBody := (body ! iBody)\<lparr>dFHDiffLim :=
                   BDIFF * g * ATOMMASS K * (QOH K - 1)
                     / (KBOLTZ K * dFlowTemp (body ! iBody) * (1 + XO / (1 - XO)))\<rparr>];
          (bEscape, body) = fbDoesWaterEscape K X body iBody
      in if \<not> bEscape then
           (let body = body[iBody := (body ! iBody)\<lparr>dOxygenEta := 0\<rparr>];
                body = body[iBody := (body ! iBody)\<lparr>dCrossoverMass := 0\<rparr>];
                body = body[iBody := (body ! iBody)\<lparr>bRunaway := False\<rparr>];
                body = body[iBody := (body ! iBody)\<lparr>iWaterEscapeRegime := ATMESC_NONE\<rparr>];
                body = body[iBody := (body ! iBody)\<lparr>dMDotWater := 0\<rparr>]
            in (body, err))
         else
           (let body = body[iBody := (body ! iBody)\<lparr>bRunaway := True\<rparr>];
                body =
                  (if iWaterLossModel (body ! iBody) = ATMESC_LB15 then
                     (let x = (KBOLTZ K * dFlowTemp (body ! iBody) * dFHRef (body ! iBody))
                                / (10 * BDIFF * g * ATOMMASS K)
                      in if x < 1 then
                           (let body = body[iBody := (body ! iBody)\<lparr>dOxygenEta := 0\<rparr>]
                            in body[iBody := (body ! iBody)\<lparr>dCrossoverMass :=
                                 ATOMMASS K + 1.5 * KBOLTZ K * dFlowTemp (body ! iBody)
                                   * dFHRef (body ! iBody) / (BDIFF * g)\<rparr>])
                         else
                           (let body = body[iBody := (body ! iBody)\<lparr>dOxygenEta := (x - 1) / (x + 8)\<rparr>]
                            in body[iBody := (body ! iBody)\<lparr>dCrossoverMass :=
                                 43 / 3 * ATOMMASS K + KBOLTZ K * dFlowTemp (body ! iBody)
                                   * dFHRef (body ! iBody) / (6 * BDIFF * g)\<rparr>]))
                   else if iWaterLossModel (body ! iBody) = ATMESC_LBEXACT
                           \<or> iWaterLossModel (body ! iBody) = ATMESC_TIAN then
                     (let x = (QOH K - 1) * (1 - XO) * (BDIFF * g * ATOMMASS K)
                                / (KBOLTZ K * dFlowTemp (body ! iBody))
                      in if dFHRef (body ! iBody) < x then
                           (let body = body[iBody := (body ! iBody)\<lparr>dCrossoverMass :=
                                  ATOMMASS K + (1 / (1 - XO))
                                    * (KBOLTZ K * dFlowTemp (body ! iBody) * dFHRef (body ! iBody))
                                    / (BDIFF * g)\<rparr>];
                                FH = dFHRef (body ! iBody);
                                rat = (dCrossoverMass (body ! iBody) / ATOMMASS K - QOH K)
                                        / (dCrossoverMass (body ! iBody) / ATOMMASS K - 1)
                            in body[iBody := (body ! iBody)\<lparr>dOxygenEta := 0\<rparr>])
                         else
                           (let num = 1 + (XO / (1 - XO)) * QOH K * QOH K;
                                den = 1 + (XO / (1 - XO)) * QOH K;
                                body = body[iBody := (body ! iBody)\<lparr>dCrossoverMass :=
                                  ATOMMASS K * num / den
                                    + (KBOLTZ K * dFlowTemp (body ! iBody) * dFHRef (body ! iBody))
                                        / ((1 + XO * (QOH K - 1)) * BDIFF * g)\<rparr>];
                                rat = (dCrossoverMass (body ! iBody) / ATOMMASS K - QOH K)
                                        / (dCrossoverMass (body ! iBody) / ATOMMASS K - 1);
                                FH = dFHRef (body ! iBody) * inverse (1 + (XO / (1 - XO)) * QOH K * rat)
                            in body[iBody := (body ! iBody)\<lparr>dOxygenEta := 2 * XO / (1 - XO) * rat\<rparr>]))
                   else body)
            in if XO > 0.6 \<and> iWaterLossModel (body ! iBody) = ATMESC_LBEXACT then
                 (let body = body[iBody := (body ! iBody)\<lparr>iWaterEscapeRegime := ATMESC_DIFFLIM\<rparr>];
                      body = body[iBody := (body ! iBody)\<lparr>dOxygenEta := 0\<rparr>];
                      body = body[iBody := (body ! iBody)\<lparr>dMDotWater :=
                               dFHDiffLim (body ! iBody)
                                 * (4 * ATOMMASS K * PI K * dRadius (body ! iBody) * dRadius (body ! iBody)
                                      * dXFrac (body ! iBody) * dXFrac (body ! iBody))\<rparr>]
                  in (body, err))
               else
                 (let body = body[iBody := (body ! iBody)\<lparr>iWaterEscapeRegime := ATMESC_ELIM\<rparr>];
                      body = body[iBody := (body ! iBody)\<lparr>dMDotWater :=
                               dFHRef (body ! iBody)
                                 * (4 * ATOMMASS K * PI K * dRadius (body ! iBody) * dRadius (body ! iBody)
                                      * dXFrac (body ! iBody) * dXFrac (body ! iBody))\<rparr>]
                  in (body, err))))"

section \<open>stellar.c: the tabulated tracks\<close>

datatype stellar_err =
    STELLAR_ERR_NONE | STELLAR_ERR_LINEAR
  | STELLAR_ERR_OUTOFBOUNDS_HI | STELLAR_ERR_OUTOFBOUNDS_LO
  | STELLAR_ERR_ISNAN | STELLAR_ERR_FILE | STELLAR_ERR_BADORDER
  | STELLAR_ERR_OTHER int

datatype stellar_param = STELLAR_L | STELLAR_R | STELLAR_RG | STELLAR_T

datatype proximacen_param = PROXIMACEN_L | PROXIMACEN_T | PROXIMACEN_R

datatype exit_code = EXIT_INT

text \<open>
  A call of \<^verbatim>\<open>exit\<close>: the line written to \<^verbatim>\<open>stderr\<close> before it and the exit status.
\<close>

type_synonym fatal = "string \<times> exit_code"

text \<open>
  The interpolation routines \<^verbatim>\<open>fdBaraffe\<close> and \<^verbatim>\<open>fdProximaCenStellar\<close> are defined in
  other translation units. Each returns the interpolated value (\<open>None\<close> for NaN) and
  the error code it stores through its last argument.
\<close>

record stellar_externs =
  fdBaraffe :: "stellar_param \<Rightarrow> real \<Rightarrow> real \<Rightarrow> int \<Rightarrow> real option \<times> stellar_err"
  fdProximaCenStellar :: "proximacen_param \<Rightarrow> real \<Rightarrow> real \<Rightarrow> real option \<times> int"
  PROXIMACEN_ERROR :: int

definition fdLuminosityFunctionBaraffe :: "stellar_externs \<Rightarrow> real \<Rightarrow> real \<Rightarrow> fatal + real option" where
  "fdLuminosityFunctionBaraffe S dAge' dMass' =
     (let (L, iError) = fdBaraffe S STELLAR_L dAge' dMass' 3
      in if iError = STELLAR_ERR_NONE \<or> iError = STELLAR_ERR_LINEAR then Inr L
         else if iError = STELLAR_ERR_OUTOFBOUNDS_HI \<or> iError = STELLAR_ERR_ISNAN then Inr None
         else Inl
           (if iError = STELLAR_ERR_OUTOFBOUNDS_LO then ''ERROR: Out of bounds (low) in fdBaraffe().''
            else if iError = STELLAR_ERR_FILE then ''ERROR: File access error in routine fdBaraffe().''
            else if iError = STELLAR_ERR_BADORDER
              then ''ERROR: Bad interpolation order in routine fdBaraffe().''
            else ''ERROR: Undefined error in fdBaraffe().'',
            EXIT_INT))"

definition fdRadiusFunctionBaraffe :: "stellar_externs \<Rightarrow> real \<Rightarrow> real \<Rightarrow> fatal + real option" where
  "fdRadiusFunctionBaraffe S dAge' dMass' =
     (let (R, iError) = fdBaraffe S STELLAR_R dAge' dMass' 3
      in if iError = STELLAR_ERR_NONE \<or> iError = STELLAR_ERR_LINEAR then Inr R
         else if iError = STELLAR_ERR_OUTOFBOUNDS_HI \<or> iError = STELLAR_ERR_ISNAN then Inr None
         else Inl
           (if iError = STELLAR_ERR_OUTOFBOUNDS_LO then ''ERROR: Out of bounds (low) in fdBaraffe().''
            else if iError = STELLAR_ERR_FILE then ''ERROR: File access error in routine fdBaraffe().''
            else if iError = STELLAR_ERR_BADORDER
              then ''ERROR: Bad interpolation order in routine fdBaraffe().''
            else ''ERROR: Undefined error in fdBaraffe().'',
            EXIT_INT))"

definition fdRadGyraFunctionBaraffe :: "stellar_externs \<Rightarrow> real \<Rightarrow> real \<Rightarrow> fatal + real option" where
  "fdRadGyraFunctionBaraffe S dAge' dMass' =
     (let (rg, iError) = fdBaraffe S STELLAR_RG dAge' dMass' 3
      in if iError = STELLAR_ERR_NONE \<or> iError = STELLAR_ERR_LINEAR then Inr rg
         else if iError = STELLAR_ERR_OUTOFBOUNDS_HI \<or> iError = STELLAR_ERR_ISNAN then Inr None
         else Inl
           (if iError = STELLAR_ERR_OUTOFBOUNDS_LO then ''ERROR: Out of bounds (low) in fdBaraffe().''
            else if iError = STELLAR_ERR_FILE then ''ERROR: File access error in routine fdBaraffe().''
            else if iError = STELLAR_ERR_BADORDER
              then ''ERROR: Bad interpolation order in routine fdBaraffe().''
            else ''ERROR: Undefined error in fdBaraffe().'',
            EXIT_INT))"

definition fdTemperatureFunctionBaraffe :: "stellar_externs \<Rightarrow> real \<Rightarrow> real \<Rightarrow> fatal + real option" where
  "fdTemperatureFunctionBaraffe S dAge' dMass' =
     (let (T, iError) = fdBaraffe S STELLAR_T dAge' dMass' 3
      in if iError = STELLAR_ERR_NONE \<or> iError = STELLAR_ERR_LINEAR then Inr T
         else if iError = STELLAR_ERR_OUTOFBOUNDS_HI \<or> iError = STELLAR_ERR_ISNAN then Inr None
         else Inl
           (if iError = STELLAR_ERR_OUTOFBOUNDS_LO then ''ERROR: Out of bounds (low) in fdBaraffe().''
            else if iError = STELLAR_ERR_FILE then ''ERROR: File access error in routine fdBaraffe().''
            else if iError = STELLAR_ERR_BADORDER
              then ''ERROR: Bad interpolation order in routine fdBaraffe().''
            else ''ERROR: Undefined error in fdBaraffe().'',
            EXIT_INT))"

definition fdLuminosityFunctionProximaCen :: "stellar_externs \<Rightarrow> real \<Rightarrow> real \<Rightarrow> real option" where
  "fdLuminosityFunctionProximaCen S dAge' dMass' =
     (let (L, iError) = fdProximaCenStellar S PROXIMACEN_L dAge' dMass'
      in if iError = PROXIMACEN_ERROR S then None else L)"

definition fdTemperatureFunctionProximaCen :: "stellar_externs \<Rightarrow> real \<Rightarrow> real \<Rightarrow> real option" where
  "fdTemperatureFunctionProximaCen S dAge' dMass' =
     (let (L, iError) = fdProximaCenStellar S PROXIMACEN_T dAge' dMass'
      in if iError = PROXIMACEN_ERROR S then None else L)"

definition fdRadiusFunctionProximaCen :: "stellar_externs \<Rightarrow> real \<Rightarrow> real \<Rightarrow> real option" where
  "fdRadiusFunctionProximaCen S dAge' dMass' =
     (let (L, iError) = fdProximaCenStellar S PROXIMACEN_R dAge' dMass'
      in if iError = PROXIMACEN_ERROR S then None else L)"

text \<open>
  \<^verbatim>\<open>fdLuminosity\<close>, \<^verbatim>\<open>fdRadius\<close>, \<^verbatim>\<open>fdTemperature\<close> and \<^verbatim>\<open>fdRadGyra\<close> return a value
  and may set \<^verbatim>\<open>iStellarModel\<close>, so the result is the value and the body array, or the
  \<^verbatim>\<open>exit\<close> of the lookup. The first \<open>case\<close> is the \<^verbatim>\<open>if\<close>/\<^verbatim>\<open>else if\<close> on the model, with
  \<open>Some foo\<close> for the early \<^verbatim>\<open>return foo\<close>; the second is the final \<^verbatim>\<open>if\<close>.
\<close>

definition fdLuminosity :: "stellar_externs \<Rightarrow> BODY list \<Rightarrow> nat list \<Rightarrow> fatal + real \<times> BODY list" where
  "fdLuminosity S body iaBody =
     (let i = iaBody ! 0
      in case
           (if iStellarModel (body ! i) = STELLAR_MODEL_BARAFFE then
              (case fdLuminosityFunctionBaraffe S (dAge (body ! i)) (dMass (body ! i)) of
                 Inl e \<Rightarrow> Inl e
               | Inr (Some foo) \<Rightarrow> Inr (Some foo, body)
               | Inr None \<Rightarrow> Inr (None, body[i := (body ! i)\<lparr>iStellarModel := STELLAR_MODEL_CONST\<rparr>]))
            else if iStellarModel (body ! i) = STELLAR_MODEL_PROXIMACEN then
              (case fdLuminosityFunctionProximaCen S (dAge (body ! i)) (dMass (body ! i)) of
                 Some foo \<Rightarrow> Inr (Some foo, body)
               | None \<Rightarrow> Inr (None, body[i := (body ! i)\<lparr>iStellarModel := STELLAR_MODEL_CONST\<rparr>]))
            else Inr (None, body))
         of
           Inl e \<Rightarrow> Inl e
         | Inr (Some foo, body) \<Rightarrow> Inr (foo, body)
         | Inr (None, body) \<Rightarrow>
             if iStellarModel (body ! i) = STELLAR_MODEL_NONE
                \<or> iStellarModel (body ! i) = STELLAR_MODEL_CONST
             then Inr (dLuminosity (body ! i), body)
             else Inr (0, body))"

definition fdRadius :: "stellar_externs \<Rightarrow> BODY list \<Rightarrow> nat list \<Rightarrow> fatal + real \<times> BODY list" where
  "fdRadius S body iaBody =
     (let i = iaBody ! 0
      in case
           (if iStellarModel (body ! i) = STELLAR_MODEL_BARAFFE then
              (case fdRadiusFunctionBaraffe S (dAge (body ! i)) (dMass (body ! i)) of
                 Inl e \<Rightarrow> Inl e
               | Inr (Some foo) \<Rightarrow> Inr (Some foo, body)
               | Inr None \<Rightarrow> Inr (None, body[i := (body ! i)\<lparr>iStellarModel := STELLAR_MODEL_CONST\<rparr>]))
            else if iStellarModel (body ! i) = STELLAR_MODEL_PROXIMACEN then
              (case fdRadiusFunctionProximaCen S (dAge (body ! i)) (dMass (body ! i)) of
                 Some foo \<Rightarrow> Inr (Some foo, body)
               | None \<Rightarrow> Inr (None, body[i := (body ! i)\<lparr>iStellarModel := STELLAR_MODEL_CONST\<rparr>]))
            else Inr (None, body))
         of
           Inl e \<Rightarrow> Inl e
         | Inr (Some foo, body) \<Rightarrow> Inr (foo, body)
         | Inr (None, body) \<Rightarrow>
             if iStellarModel (body ! i) = STELLAR_MODEL_NONE
                \<or> iStellarModel (body ! i) = STELLAR_MODEL_CONST
             then Inr (dRadius (body ! i), body)
             else Inr (0, body))"

definition fdTemperature :: "stellar_externs \<Rightarrow> BODY list \<Rightarrow> nat list \<Rightarrow> fatal + real \<times> BODY list" where
  "fdTemperature S body iaBody =
     (let i = iaBody ! 0
      in case
           (if iStellarModel (body ! i) = STELLAR_MODEL_BARAFFE then
              (case fdTemperatureFunctionBaraffe S (dAge (body ! i)) (dMass (body ! i)) of
                 Inl e \<Rightarrow> Inl e
               | Inr (Some foo) \<Rightarrow> Inr (Some foo, body)
               | Inr None \<Rightarrow> Inr (None, body[i := (body ! i)\<lparr>iStellarModel := STELLAR_MODEL_CONST\<rparr>]))
            else if iStellarModel (body ! i) = STELLAR_MODEL_PROXIMACEN then
              (case fdTemperatureFunctionProximaCen S (dAge (body ! i)) (dMass (body ! i)) of
                 Some foo \<Rightarrow> Inr (Some foo, body)
               | None \<Rightarrow> Inr (None, body[i := (body ! i)\<lparr>iStellarModel := STELLAR_MODEL_CONST\<rparr>]))
            else Inr (None, body))
         of
           Inl e \<Rightarrow> Inl e
         | Inr (Some foo, body) \<Rightarrow> Inr (foo, body)
         | Inr (None, body) \<Rightarrow>
             if iStellarModel (body ! i) = STELLAR_MODEL_NONE
                \<or> iStellarModel (body ! i) = STELLAR_MODEL_CONST
             then Inr (dTemperature (body ! i), body)
             else Inr (0, body))"

definition fdRadGyra :: "stellar_externs \<Rightarrow> BODY list \<Rightarrow> nat list \<Rightarrow> fatal + real \<times> BODY list" where
  "fdRadGyra S body iaBody =
     (let i = iaBody ! 0
      in if \<not> bEvolveRG (body ! i) then Inr (dRadGyra (body ! i), body)
         else case
           (if iStellarModel (body ! i) = STELLAR_MODEL_BARAFFE then
              (case fdRadGyraFunctionBaraffe S (dAge (body ! i)) (dMass (body ! i)) of
                 Inl e \<Rightarrow> Inl e
               | Inr (Some foo) \<Rightarrow> Inr (Some foo, body)
               | Inr None \<Rightarrow> Inr (None, body[i := (body ! i)\<lparr>iStellarModel := STELLAR_MODEL_CONST\<rparr>]))
            else if iStellarModel (body ! i) = STELLAR_MODEL_PROXIMACEN then
              (case Some (dRadGyra (body ! i)) of
                 Some foo \<Rightarrow> Inr (Some foo, body)
               | None \<Rightarrow> Inr (None, body[i := (body ! i)\<lparr>iStellarModel := STELLAR_MODEL_CONST\<rparr>]))
            else Inr (None, body))
         of
           Inl e \<Rightarrow> Inl e
         | Inr (Some foo, body) \<Rightarrow> Inr (foo, body)
         | Inr (None, body) \<Rightarrow>
             if iStellarModel (body ! i) = STELLAR_MODEL_NONE
                \<or> iStellarModel (body ! i) = STELLAR_MODEL_CONST
             then Inr (dRadGyra (body ! i), body)
             else Inr (0, body))"

section \<open>evolve.c: the data of the integrator\<close>

text \<open>
  \<^verbatim>\<open>update[iBody].pdVar[iVar]\<close> is a \<^verbatim>\<open>double *\<close> to the primary variable \<open>iVar\<close> of
  body \<open>iBody\<close>. The pointers are set outside these four files.

  Modelled from the spec: the pointer table \<^verbatim>\<open>pdVar\<close>. The update matrix of a body lists
  the primary variables belonging to this body with a pointer-to-primary each; the
  primary variables are the ones of sections 4.9 and 4.10 (and the orbital elements the
  modules name). So a pointer is the name of a \<^verbatim>\<open>double\<close> field, read and written in the
  record of the body that owns the matrix: \<^verbatim>\<open>update\<close> points into \<^verbatim>\<open>body\<close>, and
  \<^verbatim>\<open>evolve->tmpUpdate\<close> points to the same fields of \<^verbatim>\<open>evolve->tmpBody\<close>.
\<close>

datatype double_ptr =
    PTR_dSurfaceWaterMass | PTR_dOxygenMass | PTR_dOxygenMantleMass | PTR_dEnvelopeMass
  | PTR_dMass | PTR_dRadius | PTR_dLuminosity | PTR_dTemperature | PTR_dRadGyra
  | PTR_dRotRate | PTR_dLostAngMom | PTR_dLostEng | PTR_dSemi | PTR_dEcc

fun deref :: "double_ptr \<Rightarrow> BODY \<Rightarrow> real" where
  "deref PTR_dSurfaceWaterMass b = dSurfaceWaterMass b"
| "deref PTR_dOxygenMass b = dOxygenMass b"
| "deref PTR_dOxygenMantleMass b = dOxygenMantleMass b"
| "deref PTR_dEnvelopeMass b = dEnvelopeMass b"
| "deref PTR_dMass b = dMass b"
| "deref PTR_dRadius b = dRadius b"
| "deref PTR_dLuminosity b = dLuminosity b"
| "deref PTR_dTemperature b = dTemperature b"
| "deref PTR_dRadGyra b = dRadGyra b"
| "deref PTR_dRotRate b = dRotRate b"
| "deref PTR_dLostAngMom b = dLostAngMom b"
| "deref PTR_dLostEng b = dLostEng b"
| "deref PTR_dSemi b = dSemi b"
| "deref PTR_dEcc b = dEcc b"

fun assign :: "double_ptr \<Rightarrow> real \<Rightarrow> BODY \<Rightarrow> BODY" where
  "assign PTR_dSurfaceWaterMass x b = b\<lparr>dSurfaceWaterMass := x\<rparr>"
| "assign PTR_dOxygenMass x b = b\<lparr>dOxygenMass := x\<rparr>"
| "assign PTR_dOxygenMantleMass x b = b\<lparr>dOxygenMantleMass := x\<rparr>"
| "assign PTR_dEnvelopeMass x b = b\<lparr>dEnvelopeMass := x\<rparr>"
| "assign PTR_dMass x b = b\<lparr>dMass := x\<rparr>"
| "assign PTR_dRadius x b = b\<lparr>dRadius := x\<rparr>"
| "assign PTR_dLuminosity x b = b\<lparr>dLuminosity := x\<rparr>"
| "assign PTR_dTemperature x b = b\<lparr>dTemperature := x\<rparr>"
| "assign PTR_dRadGyra x b = b\<lparr>dRadGyra := x\<rparr>"
| "assign PTR_dRotRate x b = b\<lparr>dRotRate := x\<rparr>"
| "assign PTR_dLostAngMom x b = b\<lparr>dLostAngMom := x\<rparr>"
| "assign PTR_dLostEng x b = b\<lparr>dLostEng := x\<rparr>"
| "assign PTR_dSemi x b = b\<lparr>dSemi := x\<rparr>"
| "assign PTR_dEcc x b = b\<lparr>dEcc := x\<rparr>"

text \<open>
  The arrays of \<^verbatim>\<open>double\<close> that the integrator writes (\<^verbatim>\<open>daDerivProc\<close>, \<^verbatim>\<open>daDeriv\<close>) are
  maps from indices to values; the tables it only reads are lists.
\<close>

record UPDATE =
  iNumVars :: nat
  iNumEqns :: "nat list"
  iaType :: "int list list"
  pdVar :: "double_ptr list"
  daDerivProc :: "nat \<Rightarrow> nat \<Rightarrow> real"
  daDeriv :: "nat \<Rightarrow> real"
  iXobl :: int
  iYobl :: int
  iZobl :: int
  iHecc :: int
  iKecc :: int

record EVOLVE =
  iNumBodies :: nat
  iNumModules :: "nat list"
  bVarDt :: bool
  bFirstStep :: bool
  dTime :: real
  dTimeStep :: real
  dEta :: real
  dCurrentDt :: real
  bSpiNBodyDistOrb :: int
  bUsingSpiNBody :: int
  tmpBody :: "BODY list"
  tmpUpdate :: "UPDATE list"
  daDeriv :: "nat \<Rightarrow> nat \<Rightarrow> nat \<Rightarrow> real"

record HALT =
  iMinIceDt :: int

text \<open>
  The hooks \<^verbatim>\<open>fnPropsAux[iBody][iModule](body, &control->Evolve, &control->Io, update, iBody)\<close>
  are taken as functions of the body array and the body index that return the body array.
\<close>

record CONTROL =
  Evolve :: EVOLVE
  Io :: IO
  Halt :: "HALT list"
  fnPropsAux :: "(BODY list \<Rightarrow> nat \<Rightarrow> BODY list) list list"
  iNumMultiProps :: "nat list"
  fnPropsAuxMulti :: "(BODY list \<Rightarrow> nat \<Rightarrow> BODY list) list list"

text \<open>
  \<^verbatim>\<open>fnUpdate[iBody][iVar][iEqn](body, system, update[iBody].iaBody[iVar][iEqn])\<close> is written
  \<open>fnUpdate iBody iVar iEqn body\<close>. A contributor has the C type
  \<^verbatim>\<open>double f(BODY *body, SYSTEM *system, int *iaBody)\<close>: it returns a \<^verbatim>\<open>double\<close>, it may write
  the body array (\<^verbatim>\<open>fdLuminosity\<close> sets \<^verbatim>\<open>iStellarModel\<close>), and it may exit. So its result is
  the value and the body array, or the \<^verbatim>\<open>exit\<close>.
\<close>

type_synonym fnUpdateVariable = "BODY list \<Rightarrow> fatal + real \<times> BODY list"

text \<open>Functions that \<^verbatim>\<open>evolve.c\<close> calls and that live in other translation units.\<close>

record evolve_externs =
  fdSemiToMeanMotion :: "real \<Rightarrow> real \<Rightarrow> real"
  bFloatComparison :: "real \<Rightarrow> real \<Rightarrow> bool"

text \<open>
  A \<^verbatim>\<open>for\<close> loop whose body may exit: the state is passed from one round to the next, and
  after an \<^verbatim>\<open>exit\<close> no further round is run.
\<close>

fun for_loop :: "('i \<Rightarrow> 's \<Rightarrow> fatal + 's) \<Rightarrow> 'i list \<Rightarrow> 's \<Rightarrow> fatal + 's" where
  "for_loop f [] s = Inr s"
| "for_loop f (x # xs) s = (case f x s of Inl e \<Rightarrow> Inl e | Inr s \<Rightarrow> for_loop f xs s)"

section \<open>evolve.c: auxiliary properties\<close>

definition PropsAuxGeneral :: "evolve_externs \<Rightarrow> BODY list \<Rightarrow> CONTROL \<Rightarrow> BODY list" where
  "PropsAuxGeneral E body control =
     fold (\<lambda>iBody body.
             if iBody \<noteq> 0 \<and> \<not> bBinary (body ! iBody)
             then body[iBody := (body ! iBody)\<lparr>dMeanMotion :=
                    fdSemiToMeanMotion E (dSemi (body ! iBody))
                      (dMass (body ! 0) + dMass (body ! iBody))\<rparr>]
             else body)
          [0..<iNumBodies (Evolve control)] body"

definition PropertiesAuxiliary :: "evolve_externs \<Rightarrow> BODY list \<Rightarrow> CONTROL \<Rightarrow> BODY list" where
  "PropertiesAuxiliary E body control =
     (let body = PropsAuxGeneral E body control
      in fold (\<lambda>iBody body.
                 let body = fold (\<lambda>iModule body. (fnPropsAux control ! iBody ! iModule) body iBody)
                              [0..<iNumModules (Evolve control) ! iBody] body
                 in fold (\<lambda>iModule body. (fnPropsAuxMulti control ! iBody ! iModule) body iBody)
                      [0..<iNumMultiProps control ! iBody] body)
              [0..<iNumBodies (Evolve control)] body)"

section \<open>evolve.c: integration control\<close>

definition AssignDt :: "real \<Rightarrow> real \<Rightarrow> real \<Rightarrow> real" where
  "AssignDt dMin dNextOutput dEta' =
     (let dMin = dEta' * dMin
      in if dNextOutput < dMin then dNextOutput else dMin)"

text \<open>
  The cast \<^verbatim>\<open>(int) x\<close> of a \<^verbatim>\<open>double\<close> to the 32-bit \<^verbatim>\<open>int\<close> truncates towards zero. When
  the truncated value is not an \<^verbatim>\<open>int\<close>, that is unless \<open>-2\<^sup>3\<^sup>1 - 1 < x < 2\<^sup>3\<^sup>1\<close>, the C standard
  leaves the conversion undefined; the value taken here is the one that the conversion
  instruction of x86-64 (\<^verbatim>\<open>cvttsd2si\<close>) gives, \<^verbatim>\<open>INT_MIN\<close>.
\<close>

definition int_of_double :: "real \<Rightarrow> int" where
  "int_of_double x =
     (if - (2 ^ 31) - 1 < x \<and> x < 2 ^ 31 then (if 0 \<le> x then \<lfloor>x\<rfloor> else \<lceil>x\<rceil>)
      else - (2 ^ 31))"

text \<open>
  \<^verbatim>\<open>fdNextOutput\<close>: \<^verbatim>\<open>nSteps\<close> is an \<^verbatim>\<open>int\<close>, and \<^verbatim>\<open>nSteps+1.0\<close> is computed in \<^verbatim>\<open>double\<close>.
\<close>

definition fdNextOutput :: "real \<Rightarrow> real \<Rightarrow> real" where
  "fdNextOutput dTime' dOutputInterval =
     (let nSteps = int_of_double (dTime' / dOutputInterval)
      in (real_of_int nSteps + 1.0) * dOutputInterval)"

text \<open>The assignment \<^verbatim>\<open>update[iBody].daDerivProc[iVar][iEqn] = x\<close>.\<close>

definition set_daDerivProc :: "UPDATE list \<Rightarrow> nat \<Rightarrow> nat \<Rightarrow> nat \<Rightarrow> real \<Rightarrow> UPDATE list" where
  "set_daDerivProc update iBody iVar iEqn x =
     update[iBody := (update ! iBody)\<lparr>daDerivProc :=
       (daDerivProc (update ! iBody))(iVar := (daDerivProc (update ! iBody) iVar)(iEqn := x))\<rparr>]"

text \<open>
  The statement
  \<^verbatim>\<open>update[iBody].daDerivProc[iVar][iEqn] = fnUpdate[iBody][iVar][iEqn](body,system,...)\<close>,
  on the update array and the body array that is passed to the contributor.
\<close>

definition call_fnUpdate ::
  "(nat \<Rightarrow> nat \<Rightarrow> nat \<Rightarrow> fnUpdateVariable) \<Rightarrow> nat \<Rightarrow> nat \<Rightarrow> nat
     \<Rightarrow> UPDATE list \<times> BODY list \<Rightarrow> fatal + UPDATE list \<times> BODY list" where
  "call_fnUpdate fnUpdate iBody iVar iEqn =
     (\<lambda>(update, body).
        case fnUpdate iBody iVar iEqn body of
          Inl e \<Rightarrow> Inl e
        | Inr (x, body) \<Rightarrow> Inr (set_daDerivProc update iBody iVar iEqn x, body))"

text \<open>
  \<^verbatim>\<open>fdGetTimeStep(body, control, system, update, fnUpdate)\<close>. The contributors are called on
  \<^verbatim>\<open>body\<close>; the array that the pointers of \<^verbatim>\<open>update\<close> point into is the parameter \<open>pointee\<close>
  (in \<^verbatim>\<open>RungeKutta4Step\<close> the update array is \<^verbatim>\<open>evolve->tmpUpdate\<close>, which points into
  \<^verbatim>\<open>evolve->tmpBody\<close>, an array that no contributor is called on here). The state of the loops
  is the running minimum \<^verbatim>\<open>dMin\<close>, the update array, \<^verbatim>\<open>control\<close> (for \<^verbatim>\<open>bFirstStep\<close>) and
  the body array; \<open>integr\<close> is the copy of \<^verbatim>\<open>control->Evolve\<close> taken on entry. The body of the
  loop over \<^verbatim>\<open>iEqn\<close> of the last branch is \<open>fdGetTimeStep_iEqn\<close>, the body of the loop over
  \<^verbatim>\<open>iVar\<close> is \<open>fdGetTimeStep_iVar\<close>.
\<close>

definition fdGetTimeStep_iEqn ::
  "vplanet_h \<Rightarrow> evolve_externs \<Rightarrow> (nat \<Rightarrow> nat \<Rightarrow> nat \<Rightarrow> fnUpdateVariable) \<Rightarrow> BODY list
     \<Rightarrow> nat \<Rightarrow> nat \<Rightarrow> nat \<Rightarrow> real \<times> UPDATE list \<times> CONTROL \<times> BODY list
     \<Rightarrow> fatal + real \<times> UPDATE list \<times> CONTROL \<times> BODY list" where
  "fdGetTimeStep_iEqn K E fnUpdate pointee iBody iVar iEqn =
     (\<lambda>(dMin, update, control, body).
        if iaType (update ! iBody) ! iVar ! iEqn = 2 then
          (case call_fnUpdate fnUpdate iBody iVar iEqn (update, body) of
             Inl e \<Rightarrow> Inl e
           | Inr (update, body) \<Rightarrow> Inr
              (if daDerivProc (update ! iBody) iVar iEqn \<noteq> 0 then
                (let dMinNow =
                       (if int iVar = iXobl (update ! iBody) \<or> int iVar = iYobl (update ! iBody)
                           \<or> int iVar = iZobl (update ! iBody) then
                          (if dObliquity (body ! iBody) \<noteq> 0
                           then \<bar>sin (dObliquity (body ! iBody)) / daDerivProc (update ! iBody) iVar iEqn\<bar>
                           else dHUGE)
                        else if int iVar = iHecc (update ! iBody) \<or> int iVar = iKecc (update ! iBody) then
                          (if dEcc (body ! iBody) \<noteq> 0
                           then \<bar>dEcc (body ! iBody) / daDerivProc (update ! iBody) iVar iEqn\<bar>
                           else dHUGE)
                        else \<bar>1.0 / daDerivProc (update ! iBody) iVar iEqn\<bar>)
                 in (if dMinNow < dMin then dMinNow else dMin, update, control, body))
              else (dMin, update, control, body)))
        else if iaType (update ! iBody) ! iVar ! iEqn = 9 then
          (case call_fnUpdate fnUpdate iBody iVar iEqn (update, body) of
             Inl e \<Rightarrow> Inl e
           | Inr (update, body) \<Rightarrow> Inr
              (if daDerivProc (update ! iBody) iVar iEqn \<noteq> 0
                 \<and> deref (pdVar (update ! iBody) ! iVar) (pointee ! iBody) \<noteq> 0 then
                (let dMinNow = \<bar>deref (pdVar (update ! iBody) ! iVar) (pointee ! iBody)
                                  / daDerivProc (update ! iBody) iVar iEqn\<bar>
                 in if dMinNow < dMin then
                      (if dMinNow < real_of_int (iMinIceDt (Halt control ! iBody))
                                      * (2 * PI K / dMeanMotion (body ! iBody)) / dEta (Evolve control)
                       then (real_of_int (iMinIceDt (Halt control ! iBody))
                               * (2 * PI K / dMeanMotion (body ! iBody)) / dEta (Evolve control),
                             update, control, body)
                       else (dMinNow, update, control, body))
                    else (dMin, update, control, body))
              else (dMin, update, control, body)))
        else if iaType (update ! iBody) ! iVar ! iEqn = 7 then
          (if bSpiNBodyDistOrb (Evolve control) = 0 \<or> bUsingSpiNBody (Evolve control) = 1 then
             (case call_fnUpdate fnUpdate iBody iVar iEqn (update, body) of
                Inl e \<Rightarrow> Inl e
              | Inr (update, body) \<Rightarrow> Inr
                 (let dMinNow = sqrt ((dPositionX (body ! iBody) * dPositionX (body ! iBody)
                                   + dPositionY (body ! iBody) * dPositionY (body ! iBody)
                                   + dPositionZ (body ! iBody) * dPositionZ (body ! iBody))
                                  / (dVelX (body ! iBody) * dVelX (body ! iBody)
                                     + dVelY (body ! iBody) * dVelY (body ! iBody)
                                     + dVelZ (body ! iBody) * dVelZ (body ! iBody)))
                  in (if dMinNow < dMin then dMinNow else dMin, update, control, body)))
           else Inr (dMin, update, control, body))
        else
          (case call_fnUpdate fnUpdate iBody iVar iEqn (update, body) of
             Inl e \<Rightarrow> Inl e
           | Inr (update, body) \<Rightarrow> Inr
              (if \<not> bFloatComparison E (daDerivProc (update ! iBody) iVar iEqn) 0.0
                 \<and> \<not> bFloatComparison E (deref (pdVar (update ! iBody) ! iVar) (pointee ! iBody)) 0.0 then
                (let dMinNow = \<bar>deref (pdVar (update ! iBody) ! iVar) (pointee ! iBody)
                                  / daDerivProc (update ! iBody) iVar iEqn\<bar>
                 in (if dMinNow < dMin then dMinNow else dMin, update, control, body))
              else (dMin, update, control, body))))"

definition fdGetTimeStep_iVar ::
  "vplanet_h \<Rightarrow> evolve_externs \<Rightarrow> (nat \<Rightarrow> nat \<Rightarrow> nat \<Rightarrow> fnUpdateVariable) \<Rightarrow> EVOLVE \<Rightarrow> BODY list
     \<Rightarrow> nat \<Rightarrow> nat \<Rightarrow> real \<times> UPDATE list \<times> CONTROL \<times> BODY list
     \<Rightarrow> fatal + real \<times> UPDATE list \<times> CONTROL \<times> BODY list" where
  "fdGetTimeStep_iVar K E fnUpdate integr pointee iBody iVar =
     (\<lambda>(dMin, update, control, body).
        if iaType (update ! iBody) ! iVar ! 0 = 0 then
          (let dVarNow = deref (pdVar (update ! iBody) ! iVar) (pointee ! iBody)
           in case for_loop (call_fnUpdate fnUpdate iBody iVar)
                     [0..<iNumEqns (update ! iBody) ! iVar] (update, body) of
                Inl e \<Rightarrow> Inl e
              | Inr (update, body) \<Rightarrow> Inr
                 (if bFirstStep (Evolve control) then
                    (dTimeStep integr, update,
                     control\<lparr>Evolve := (Evolve control)\<lparr>bFirstStep := False\<rparr>\<rparr>, body)
                  else
                    (let dVarTotal = fold (\<lambda>iEqn dVarTotal. dVarTotal + daDerivProc (update ! iBody) iVar iEqn)
                                       [0..<iNumEqns (update ! iBody) ! iVar] 0
                     in if dVarNow \<noteq> dVarTotal then
                          (let dMinNow = \<bar>dVarNow / ((dVarNow - dVarTotal) / dTimeStep integr)\<bar>
                           in (if dMinNow < dMin then dMinNow else dMin, update, control, body))
                        else (dMin, update, control, body))))
        else if iaType (update ! iBody) ! iVar ! 0 = 5 then
          (case for_loop (call_fnUpdate fnUpdate iBody iVar)
                  [0..<iNumEqns (update ! iBody) ! iVar] (update, body) of
             Inl e \<Rightarrow> Inl e
           | Inr (update, body) \<Rightarrow> Inr (dMin, update, control, body))
        else if iaType (update ! iBody) ! iVar ! 0 = 10 then
          Inr (let dMinNow = fdNextOutput (dTime (Evolve control)) (dOutputTime (Io control))
               in (if dMinNow < dMin then dMinNow else dMin, update, control, body))
        else if iaType (update ! iBody) ! iVar ! 0 = 3 then
          (let dVarNow = deref (pdVar (update ! iBody) ! iVar) (pointee ! iBody)
           in case for_loop (call_fnUpdate fnUpdate iBody iVar)
                     [0..<iNumEqns (update ! iBody) ! iVar] (update, body) of
                Inl e \<Rightarrow> Inl e
              | Inr (update, body) \<Rightarrow> Inr
                 (if bFirstStep (Evolve control) then
                    (dTimeStep integr, update,
                     control\<lparr>Evolve := (Evolve control)\<lparr>bFirstStep := False\<rparr>\<rparr>, body)
                  else
                    (let dVarTotal = fold (\<lambda>iEqn dVarTotal. dVarTotal + daDerivProc (update ! iBody) iVar iEqn)
                                       [0..<iNumEqns (update ! iBody) ! iVar] 0
                     in if dVarNow \<noteq> dVarTotal then
                          (let dMinNow = \<bar>1.0 / ((dVarNow - dVarTotal) / dTimeStep integr)\<bar>
                           in (if dMinNow < dMin then dMinNow else dMin, update, control, body))
                        else (dMin, update, control, body))))
        else
          for_loop (fdGetTimeStep_iEqn K E fnUpdate pointee iBody iVar)
            [0..<iNumEqns (update ! iBody) ! iVar] (dMin, update, control, body))"

definition fdGetTimeStep ::
  "vplanet_h \<Rightarrow> evolve_externs \<Rightarrow> (nat \<Rightarrow> nat \<Rightarrow> nat \<Rightarrow> fnUpdateVariable) \<Rightarrow> BODY list \<Rightarrow> BODY list
     \<Rightarrow> CONTROL \<Rightarrow> UPDATE list \<Rightarrow> fatal + real \<times> UPDATE list \<times> CONTROL \<times> BODY list" where
  "fdGetTimeStep K E fnUpdate body pointee control update =
     (let integr = Evolve control;
          dMin = dHUGE
      in for_loop (\<lambda>iBody (dMin, update, control, body).
                 if iNumVars (update ! iBody) > 0 then
                   for_loop (fdGetTimeStep_iVar K E fnUpdate integr pointee iBody)
                     [0..<iNumVars (update ! iBody)] (dMin, update, control, body)
                 else Inr (dMin, update, control, body))
           [0..<iNumBodies (Evolve control)] (dMin, update, control, body))"

text \<open>
  \<^verbatim>\<open>fdGetUpdateInfo(body, control, system, update, fnUpdate)\<close>: the result is the update
  array and the body array as the contributors leave it.
\<close>

definition fdGetUpdateInfo ::
  "(nat \<Rightarrow> nat \<Rightarrow> nat \<Rightarrow> fnUpdateVariable) \<Rightarrow> BODY list \<Rightarrow> CONTROL \<Rightarrow> UPDATE list
     \<Rightarrow> fatal + UPDATE list \<times> BODY list" where
  "fdGetUpdateInfo fnUpdate body control update =
     (let iNumBodies' = iNumBodies (Evolve control)
      in for_loop (\<lambda>iBody (update, body).
                 if iNumVars (update ! iBody) > 0 then
                   (let iNumVars' = iNumVars (update ! iBody)
                    in for_loop (\<lambda>iVar (update, body).
                               let iNumEqns' = iNumEqns (update ! iBody) ! iVar
                               in for_loop (call_fnUpdate fnUpdate iBody iVar)
                                    [0..<iNumEqns'] (update, body))
                         [0..<iNumVars'] (update, body))
                 else Inr (update, body))
           [0..<iNumBodies'] (update, body))"

section \<open>evolve.c: the Runge-Kutta step\<close>

text \<open>
  Modelled from the spec: \<^verbatim>\<open>BodyCopy\<close>, which is defined in another translation unit. The
  scratch body is a full deep copy of the body array, refreshed at the top of each step.
\<close>

definition BodyCopy :: "BODY list \<Rightarrow> BODY list" where
  "BodyCopy src = src"

text \<open>
  The first three loops over \<^verbatim>\<open>iBody\<close> and \<^verbatim>\<open>iVar\<close> in \<^verbatim>\<open>RungeKutta4Step\<close> have the same
  text up to the index \<open>k\<close> of \<^verbatim>\<open>evolve->daDeriv[k]\<close> and the factor \<open>c\<close> of
  \<^verbatim>\<open>c*(*dDt)*evolve->daDeriv[k][iBody][iVar]\<close> (\<open>0.5\<close>, \<open>0.5\<close>, and no factor in the third).
  They are the one function \<open>RungeKutta4Step_substep\<close>, on the state
  (\<^verbatim>\<open>evolve->daDeriv\<close>, \<^verbatim>\<open>evolve->tmpBody\<close>). The sum over \<^verbatim>\<open>iEqn\<close>, which the source
  accumulates in \<^verbatim>\<open>evolve->daDeriv[k][iBody][iVar]\<close>, is stored when the loop is done. No
  contributor is called in these loops.
\<close>

definition RungeKutta4Step_substep ::
  "nat \<Rightarrow> real \<Rightarrow> int \<Rightarrow> real \<Rightarrow> nat \<Rightarrow> BODY list \<Rightarrow> UPDATE list \<Rightarrow> UPDATE list
     \<Rightarrow> (nat \<Rightarrow> nat \<Rightarrow> nat \<Rightarrow> real) \<times> BODY list \<Rightarrow> (nat \<Rightarrow> nat \<Rightarrow> nat \<Rightarrow> real) \<times> BODY list" where
  "RungeKutta4Step_substep k c iDir dDt iNumBodies' body update tmpUpdate' =
     fold (\<lambda>iBody.
        fold (\<lambda>iVar (daDeriv', tmpBody').
           let daDeriv' = daDeriv'(k := (daDeriv' k)(iBody := (daDeriv' k iBody)(iVar :=
                 fold (\<lambda>iEqn s. s + real_of_int iDir * daDerivProc (tmpUpdate' ! iBody) iVar iEqn)
                   [0..<iNumEqns (update ! iBody) ! iVar] 0)))
           in if iaType (update ! iBody) ! iVar ! 0 = 0 \<or> iaType (update ! iBody) ! iVar ! 0 = 3
                 \<or> iaType (update ! iBody) ! iVar ! 0 = 10
              then (daDeriv',
                    tmpBody'[iBody := assign (pdVar (tmpUpdate' ! iBody) ! iVar)
                                        (daDeriv' k iBody iVar) (tmpBody' ! iBody)])
              else (daDeriv',
                    tmpBody'[iBody := assign (pdVar (tmpUpdate' ! iBody) ! iVar)
                                        (deref (pdVar (update ! iBody) ! iVar) (body ! iBody)
                                           + c * dDt * daDeriv' k iBody iVar)
                                        (tmpBody' ! iBody)]))
          [0..<iNumVars (update ! iBody)])
       [0..<iNumBodies']"

text \<open>The fourth loop: the sum is taken for the other kinds only.\<close>

definition RungeKutta4Step_fourth ::
  "int \<Rightarrow> nat \<Rightarrow> UPDATE list \<Rightarrow> UPDATE list \<Rightarrow> (nat \<Rightarrow> nat \<Rightarrow> nat \<Rightarrow> real) \<Rightarrow> (nat \<Rightarrow> nat \<Rightarrow> nat \<Rightarrow> real)" where
  "RungeKutta4Step_fourth iDir iNumBodies' update tmpUpdate' =
     fold (\<lambda>iBody.
        fold (\<lambda>iVar daDeriv'.
           if iaType (update ! iBody) ! iVar ! 0 = 0 \<or> iaType (update ! iBody) ! iVar ! 0 = 3
              \<or> iaType (update ! iBody) ! iVar ! 0 = 10
           then daDeriv'
           else daDeriv'(3 := (daDeriv' 3)(iBody := (daDeriv' 3 iBody)(iVar :=
                  fold (\<lambda>iEqn s. s + real_of_int iDir * daDerivProc (tmpUpdate' ! iBody) iVar iEqn)
                    [0..<iNumEqns (update ! iBody) ! iVar] 0))))
          [0..<iNumVars (update ! iBody)])
       [0..<iNumBodies']"

text \<open>The last loop, which writes the step to \<^verbatim>\<open>update[iBody].daDeriv\<close> and to \<^verbatim>\<open>body\<close>.\<close>

definition RungeKutta4Step_update ::
  "real \<Rightarrow> nat \<Rightarrow> (nat \<Rightarrow> nat \<Rightarrow> nat \<Rightarrow> real) \<Rightarrow> BODY list \<times> UPDATE list \<Rightarrow> BODY list \<times> UPDATE list" where
  "RungeKutta4Step_update dDt iNumBodies' daDeriv' =
     fold (\<lambda>iBody (body, update).
        fold (\<lambda>iVar (body, update).
           let update = update[iBody := (update ! iBody)\<lparr>UPDATE.daDeriv :=
                 (UPDATE.daDeriv (update ! iBody))(iVar :=
                    1 / 6 * (daDeriv' 0 iBody iVar + 2 * daDeriv' 1 iBody iVar
                             + 2 * daDeriv' 2 iBody iVar + daDeriv' 3 iBody iVar))\<rparr>]
           in if iaType (update ! iBody) ! iVar ! 0 = 0 \<or> iaType (update ! iBody) ! iVar ! 0 = 3
                 \<or> iaType (update ! iBody) ! iVar ! 0 = 10
              then (body[iBody := assign (pdVar (update ! iBody) ! iVar)
                                    (daDeriv' 0 iBody iVar) (body ! iBody)],
                    update)
              else (body[iBody := assign (pdVar (update ! iBody) ! iVar)
                                    (deref (pdVar (update ! iBody) ! iVar) (body ! iBody)
                                       + UPDATE.daDeriv (update ! iBody) iVar * dDt)
                                    (body ! iBody)],
                    update))
          [0..<iNumVars (update ! iBody)] (body, update))
       [0..<iNumBodies']"

text \<open>
  \<^verbatim>\<open>RungeKutta4Step(body, control, system, update, fnUpdate, dDt, iDir)\<close>. The value that
  \<^verbatim>\<open>*dDt\<close> has on entry is not read. During the step \<^verbatim>\<open>evolve->tmpBody\<close>,
  \<^verbatim>\<open>evolve->tmpUpdate\<close> and \<^verbatim>\<open>evolve->daDeriv\<close> are the variables \<open>tmpBody'\<close>, \<open>tmpUpdate'\<close>
  and \<open>daDeriv'\<close>, stored in \<^verbatim>\<open>control\<close> at the end; \<open>PropertiesAuxiliary\<close> and
  \<open>fdGetUpdateInfo\<close> read none of the three from \<^verbatim>\<open>control\<close>. \<^verbatim>\<open>fdGetTimeStep\<close> calls the
  contributors on \<^verbatim>\<open>body\<close>, after the copy to \<^verbatim>\<open>evolve->tmpBody\<close> was taken, and
  \<^verbatim>\<open>fdGetUpdateInfo\<close> calls them on \<^verbatim>\<open>evolve->tmpBody\<close>; what they write stays in the
  array. The result is the body array, \<^verbatim>\<open>control\<close>, the update array and \<^verbatim>\<open>*dDt\<close>, or the
  \<^verbatim>\<open>exit\<close> of a contributor.
\<close>

definition RungeKutta4Step ::
  "vplanet_h \<Rightarrow> evolve_externs \<Rightarrow> (nat \<Rightarrow> nat \<Rightarrow> nat \<Rightarrow> fnUpdateVariable) \<Rightarrow> BODY list \<Rightarrow> CONTROL
     \<Rightarrow> UPDATE list \<Rightarrow> int \<Rightarrow> fatal + BODY list \<times> CONTROL \<times> UPDATE list \<times> real" where
  "RungeKutta4Step K E fnUpdate body control update iDir =
     (let tmpBody' = BodyCopy body;
          daDeriv' = EVOLVE.daDeriv (Evolve control)
      in case fdGetTimeStep K E fnUpdate body tmpBody' control (tmpUpdate (Evolve control)) of
           Inl e \<Rightarrow> Inl e
         | Inr (dDt, tmpUpdate', control, body) \<Rightarrow>
      (let dDt = (if bVarDt (Evolve control) then
                   (let dTimeOut = fdNextOutput (dTime (Evolve control)) (dOutputTime (Io control))
                    in AssignDt dDt (dTimeOut - dTime (Evolve control)) (dEta (Evolve control)))
                 else dTimeStep (Evolve control));
          control = control\<lparr>Evolve := (Evolve control)\<lparr>dCurrentDt := dDt\<rparr>\<rparr>;
          iNumBodies' = iNumBodies (Evolve control);
          (daDeriv', tmpBody') =
             RungeKutta4Step_substep 0 0.5 iDir dDt iNumBodies' body update tmpUpdate'
               (daDeriv', tmpBody');
          tmpBody' = PropertiesAuxiliary E tmpBody' control
       in case fdGetUpdateInfo fnUpdate tmpBody' control tmpUpdate' of
            Inl e \<Rightarrow> Inl e
          | Inr (tmpUpdate', tmpBody') \<Rightarrow>
      (let (daDeriv', tmpBody') =
             RungeKutta4Step_substep 1 0.5 iDir dDt iNumBodies' body update tmpUpdate'
               (daDeriv', tmpBody');
           tmpBody' = PropertiesAuxiliary E tmpBody' control
       in case fdGetUpdateInfo fnUpdate tmpBody' control tmpUpdate' of
            Inl e \<Rightarrow> Inl e
          | Inr (tmpUpdate', tmpBody') \<Rightarrow>
      (let (daDeriv', tmpBody') =
             RungeKutta4Step_substep 2 1 iDir dDt iNumBodies' body update tmpUpdate'
               (daDeriv', tmpBody');
           tmpBody' = PropertiesAuxiliary E tmpBody' control
       in case fdGetUpdateInfo fnUpdate tmpBody' control tmpUpdate' of
            Inl e \<Rightarrow> Inl e
          | Inr (tmpUpdate', tmpBody') \<Rightarrow>
      (let daDeriv' = RungeKutta4Step_fourth iDir iNumBodies' update tmpUpdate' daDeriv';
           (body, update) = RungeKutta4Step_update dDt iNumBodies' daDeriv' (body, update)
       in Inr (body,
               control\<lparr>Evolve := (Evolve control)\<lparr>tmpBody := tmpBody', tmpUpdate := tmpUpdate',
                                                   EVOLVE.daDeriv := daDeriv'\<rparr>\<rparr>,
               update, dDt))))))"

section \<open>Notions used in the proofs\<close>

text \<open>
  The tables of an update record that the integrator reads and never writes, the scratch
  entry \<^verbatim>\<open>update[iBody].daDerivProc[iVar][iEqn]\<close>, and an update array \<open>u'\<close> that is \<open>u\<close>
  with some scratch entries written: the same length and the same tables.
\<close>

definition same_meta :: "UPDATE \<Rightarrow> UPDATE \<Rightarrow> bool" where
  "same_meta u u' \<longleftrightarrow>
     iNumVars u' = iNumVars u \<and> iNumEqns u' = iNumEqns u \<and> iaType u' = iaType u
     \<and> pdVar u' = pdVar u \<and> iXobl u' = iXobl u \<and> iYobl u' = iYobl u \<and> iZobl u' = iZobl u
     \<and> iHecc u' = iHecc u \<and> iKecc u' = iKecc u"

definition scratch :: "UPDATE list \<Rightarrow> nat \<Rightarrow> nat \<Rightarrow> nat \<Rightarrow> real" where
  "scratch update iBody iVar iEqn = daDerivProc (update ! iBody) iVar iEqn"

definition rewritten :: "UPDATE list \<Rightarrow> UPDATE list \<Rightarrow> bool" where
  "rewritten u u' \<longleftrightarrow> length u' = length u \<and> (\<forall>j. same_meta (u ! j) (u' ! j))"

text \<open>\<^verbatim>\<open>control\<close> as \<^verbatim>\<open>fdGetTimeStep\<close> leaves it: the same, or with \<^verbatim>\<open>bFirstStep\<close> cleared.\<close>

definition kept :: "CONTROL \<Rightarrow> CONTROL \<Rightarrow> bool" where
  "kept c c' \<longleftrightarrow> c' = c \<or> c' = c\<lparr>Evolve := (Evolve c)\<lparr>bFirstStep := False\<rparr>\<rparr>"

text \<open>
  The values that the contributors \<open>f iEqn\<close> of a variable return when they are called one
  after the other, each on the body array that the one before left, and the array that the
  last one leaves; or the first \<^verbatim>\<open>exit\<close>.
\<close>

fun contribs :: "(nat \<Rightarrow> fnUpdateVariable) \<Rightarrow> nat list \<Rightarrow> BODY list \<Rightarrow> fatal + real list \<times> BODY list" where
  "contribs f [] body = Inr ([], body)"
| "contribs f (iEqn # es) body =
     (case f iEqn body of
        Inl e \<Rightarrow> Inl e
      | Inr (x, body) \<Rightarrow>
          (case contribs f es body of
             Inl e \<Rightarrow> Inl e
           | Inr (xs, body) \<Rightarrow> Inr (x # xs, body)))"

text \<open>
  Contributors that keep the number of bodies (the array is passed by a pointer and cannot
  grow or shrink), and contributors none of which exits.
\<close>

definition keeps_length :: "(nat \<Rightarrow> nat \<Rightarrow> nat \<Rightarrow> fnUpdateVariable) \<Rightarrow> bool" where
  "keeps_length fnUpdate \<longleftrightarrow>
     (\<forall>iBody iVar iEqn body x body'.
        fnUpdate iBody iVar iEqn body = Inr (x, body') \<longrightarrow> length body' = length body)"

definition never_exits :: "(nat \<Rightarrow> nat \<Rightarrow> nat \<Rightarrow> fnUpdateVariable) \<Rightarrow> bool" where
  "never_exits fnUpdate \<longleftrightarrow>
     (\<forall>iBody iVar iEqn body. \<exists>x body'. fnUpdate iBody iVar iEqn body = Inr (x, body'))"

text \<open>
  The kinds that \<^verbatim>\<open>RungeKutta4Step\<close> assigns and does not increment: the first type tag of
  the variable is 0, 3 or 10.
\<close>

definition value_kind :: "UPDATE list \<Rightarrow> nat \<Rightarrow> nat \<Rightarrow> bool" where
  "value_kind update iBody iVar \<longleftrightarrow>
     iaType (update ! iBody) ! iVar ! 0 = 0 \<or> iaType (update ! iBody) ! iVar ! 0 = 3
     \<or> iaType (update ! iBody) ! iVar ! 0 = 10"

text \<open>
  The sum over the equations of a variable of the contributions \<open>contrib\<close>, each with the sign
  \<^verbatim>\<open>iDir\<close> of the direction of the integration; and the scratch body array \<open>tmp\<close> after every
  variable of the first \<open>nB\<close> bodies was set: to \<open>f\<close> for the assigned kinds, to the value in
  the original body array plus \<open>h \<cdot> f\<close> for the others.
\<close>

definition deriv_sum :: "int \<Rightarrow> UPDATE list \<Rightarrow> (nat \<Rightarrow> nat \<Rightarrow> nat \<Rightarrow> real) \<Rightarrow> nat \<Rightarrow> nat \<Rightarrow> real" where
  "deriv_sum iDir update contrib iBody iVar =
     (\<Sum>iEqn<iNumEqns (update ! iBody) ! iVar. real_of_int iDir * contrib iBody iVar iEqn)"

definition tmp_advance ::
  "UPDATE list \<Rightarrow> nat \<Rightarrow> BODY list \<Rightarrow> real \<Rightarrow> (nat \<Rightarrow> nat \<Rightarrow> real) \<Rightarrow> BODY list \<Rightarrow> BODY list" where
  "tmp_advance update nB body h f =
     fold (\<lambda>iBody.
        fold (\<lambda>iVar tmp.
           tmp[iBody := assign (pdVar (update ! iBody) ! iVar)
                          (if value_kind update iBody iVar then f iBody iVar
                           else deref (pdVar (update ! iBody) ! iVar) (body ! iBody) + h * f iBody iVar)
                          (tmp ! iBody)])
          [0..<iNumVars (update ! iBody)])
       [0..<nB]"

text \<open>
  Every variable of an update record has a home of its own: the first \<^verbatim>\<open>iNumVars\<close> pointers
  exist and no two of them are the same.
\<close>

definition own_home :: "UPDATE \<Rightarrow> bool" where
  "own_home u \<longleftrightarrow> iNumVars u \<le> length (pdVar u) \<and> distinct (take (iNumVars u) (pdVar u))"

text \<open>
  The hook \<^verbatim>\<open>fnPropsAuxAtmEsc\<close> as the entry of \<^verbatim>\<open>control->fnPropsAux\<close> that
  \<^verbatim>\<open>AddModuleAtmEsc\<close> registers (the lines written to \<^verbatim>\<open>stderr\<close> are dropped), and a hook
  that leaves the length of the array and the age of every body as they are.
\<close>

definition hook_AtmEsc :: "vplanet_h \<Rightarrow> externs \<Rightarrow> IO \<Rightarrow> BODY list \<Rightarrow> nat \<Rightarrow> BODY list" where
  "hook_AtmEsc K X io body iBody = fst (fnPropsAuxAtmEsc K X body io iBody)"

definition keeps_dAge :: "(BODY list \<Rightarrow> nat \<Rightarrow> BODY list) \<Rightarrow> bool" where
  "keeps_dAge h \<longleftrightarrow>
     (\<forall>body i j. length (h body i) = length body \<and> dAge (h body i ! j) = dAge (body ! j))"

section \<open>Example inputs\<close>

text \<open>
  Concrete values at which the functions are evaluated below: SI values for the macros,
  constant stand-ins for the external functions, a Sun-like star and an Earth-like planet.
\<close>

definition K_example :: vplanet_h where
  "K_example = \<lparr>ATOMMASS = 1.660538921 / 10 ^ 27, BIGG = 6.67428 / 10 ^ 11,
     KBOLTZ = 1.38064852 / 10 ^ 23, PI = 3.1415926535, QOH = 16,
     MEARTH = 5.972186 * 10 ^ 24, LSUN = 3.846 * 10 ^ 26, AUM = 1.49597870700 * 10 ^ 11,
     VERBINPUT = 3\<rparr>"

definition X_example :: externs where
  "X_example = \<lparr>fdLehmerPres = (\<lambda>_ _ _. 0), fdLehmerRadius = (\<lambda>_ _ _ _. 0),
     fdXUVFlux = (\<lambda>_ _. 1), fdInstellation = (\<lambda>_ _. 1361)\<rparr>"

definition io_example :: IO where
  "io_example = \<lparr>iVerbose = 3, dOutputTime = 100\<rparr>"

definition body_example :: BODY where
  "body_example = \<lparr>cName = ''body'', dAge = 0, dMass = 0, dRadius = 0, dSemi = 0, dEcc = 0,
     dObliquity = 0, dMeanMotion = 0, dPositionX = 0, dPositionY = 0, dPositionZ = 0,
     dVelX = 0, dVelY = 0, dVelZ = 0, bBinary = False, iBodyType = 0,
     iPlanetRadiusModel = ATMESC_NONE, dRadSolid = 0, dEnvelopeMass = 0, dGravAccel = 0,
     dScaleHeight = 0, dAtmGasConst = 0, dThermTemp = 0, dPresSurf = 0, dRadXUV = 0,
     dPresXUV = 0, dXFrac = 1, dKTide = 0, bRocheMessage = False, bCalcFXUV = False,
     dFXUV = 0, iAtmXAbsEffH2OModel = ATMESC_NONE, dAtmXAbsEffH2O = 0, dAtmXAbsEffH = 0,
     dFHRef = 0, dSurfaceWaterMass = 0, dOxygenMass = 0, dOxygenMantleMass = 0,
     dFlowTemp = 0, dFHDiffLim = 0, dOxygenEta = 0, dCrossoverMass = 0, bRunaway = False,
     iWaterEscapeRegime = ATMESC_NONE, dMDotWater = 0, iWaterLossModel = ATMESC_LBEXACT,
     dRGDuration = 0, dJeansTime = 0, bInstantO2Sink = False,
     iStellarModel = STELLAR_MODEL_NONE, dLuminosity = 0, dTemperature = 0, dRadGyra = 0,
     bEvolveRG = False, dRotRate = 0, dLostAngMom = 0, dLostEng = 0\<rparr>"

definition star_example :: BODY where
  "star_example = body_example\<lparr>cName := ''star'', dAge := 10 ^ 9, dMass := 2 * 10 ^ 30,
     dRadius := 7 * 10 ^ 8, dLuminosity := 3.846 * 10 ^ 26, dTemperature := 5780,
     dRadGyra := 0.27, bEvolveRG := True, iStellarModel := STELLAR_MODEL_BARAFFE\<rparr>"

definition planet_example :: BODY where
  "planet_example = body_example\<lparr>cName := ''planet'', dAge := 0, dMass := 6 * 10 ^ 24,
     dRadius := 6.4 * 10 ^ 6, dSemi := 1.5 * 10 ^ 11, dXFrac := 1,
     dSurfaceWaterMass := 1.39 * 10 ^ 21, dFlowTemp := 400, dJeansTime := 10 ^ 17,
     bRunaway := True, bInstantO2Sink := True, dOxygenEta := 0.25, dMDotWater := 1000\<rparr>"

text \<open>A track lookup that reports out of bounds (high), NaN and out of bounds (low).\<close>

definition S_example_hi :: stellar_externs where
  "S_example_hi = \<lparr>fdBaraffe = (\<lambda>_ _ _ _. (None, STELLAR_ERR_OUTOFBOUNDS_HI)),
     fdProximaCenStellar = (\<lambda>_ _ _. (None, 1)), PROXIMACEN_ERROR = 1\<rparr>"

definition S_example_nan :: stellar_externs where
  "S_example_nan = \<lparr>fdBaraffe = (\<lambda>_ _ _ _. (None, STELLAR_ERR_ISNAN)),
     fdProximaCenStellar = (\<lambda>_ _ _. (None, 1)), PROXIMACEN_ERROR = 1\<rparr>"

definition S_example_lo :: stellar_externs where
  "S_example_lo = \<lparr>fdBaraffe = (\<lambda>_ _ _ _. (None, STELLAR_ERR_OUTOFBOUNDS_LO)),
     fdProximaCenStellar = (\<lambda>_ _ _. (None, 1)), PROXIMACEN_ERROR = 1\<rparr>"

text \<open>
  A system of the example star and the example planet for the integrator. The star has a
  luminosity of kind 0 (a value) with the contributor \<^verbatim>\<open>fdLuminosity\<close> on a track lookup
  that reports out of bounds (high), and a temperature of kind 10 (explicit) with a
  contributor that returns \<open>5780\<close>; the planet has the surface water mass of kind 1 (a rate)
  with the contributor \<^verbatim>\<open>fdDSurfaceWaterMassDt\<close>, and a radius of kind 0 with a contributor
  that returns \<open>6 \<cdot> 10\<^sup>6\<close>. No module hook is registered. The scratch arrays start at 0.
\<close>

definition E_example :: evolve_externs where
  "E_example = \<lparr>fdSemiToMeanMotion = (\<lambda>_ _. 2 / 10 ^ 7), bFloatComparison = (\<lambda>x y. x = y)\<rparr>"

definition update_example :: "UPDATE list" where
  "update_example =
     [\<lparr>iNumVars = 2, iNumEqns = [1, 1], iaType = [[0], [10]],
       pdVar = [PTR_dLuminosity, PTR_dTemperature],
       daDerivProc = (\<lambda>_ _. 0), daDeriv = (\<lambda>_. 0),
       iXobl = -1, iYobl = -1, iZobl = -1, iHecc = -1, iKecc = -1\<rparr>,
      \<lparr>iNumVars = 2, iNumEqns = [1, 1], iaType = [[1], [0]],
       pdVar = [PTR_dSurfaceWaterMass, PTR_dRadius],
       daDerivProc = (\<lambda>_ _. 0), daDeriv = (\<lambda>_. 0),
       iXobl = -1, iYobl = -1, iZobl = -1, iHecc = -1, iKecc = -1\<rparr>]"

definition fnUpdate_example :: "nat \<Rightarrow> nat \<Rightarrow> nat \<Rightarrow> fnUpdateVariable" where
  "fnUpdate_example iBody iVar iEqn body =
     (if iBody = 0 then (if iVar = 0 then fdLuminosity S_example_hi body [0] else Inr (5780, body))
      else (if iVar = 0 then Inr (fdDSurfaceWaterMassDt body [1], body)
            else Inr (6 * 10 ^ 6, body)))"

definition control_example :: CONTROL where
  "control_example =
     \<lparr>Evolve = \<lparr>iNumBodies = 2, iNumModules = [0, 0], bVarDt = True, bFirstStep = False,
                 dTime = 0, dTimeStep = 1, dEta = 0.01, dCurrentDt = 0,
                 bSpiNBodyDistOrb = 0, bUsingSpiNBody = 0,
                 tmpBody = [star_example, planet_example], tmpUpdate = update_example,
                 daDeriv = (\<lambda>_ _ _. 0)\<rparr>,
       Io = io_example,
       Halt = [\<lparr>iMinIceDt = 0\<rparr>, \<lparr>iMinIceDt = 0\<rparr>],
       fnPropsAux = [[], []], iNumMultiProps = [0, 0], fnPropsAuxMulti = [[], []]\<rparr>"

text \<open>
  The example system with the hooks of the two modules registered: the hook of the stellar
  module for the star (\<^verbatim>\<open>fnPropsAuxStellar\<close> writes \<^verbatim>\<open>dRotPer\<close> and \<^verbatim>\<open>dLXUV\<close> only, which are
  no fields of the record here, so it leaves the array as it is) and \<^verbatim>\<open>fnPropsAuxAtmEsc\<close>
  for the planet.
\<close>

definition control_hooks_example :: CONTROL where
  "control_hooks_example =
     control_example\<lparr>Evolve := (Evolve control_example)\<lparr>iNumModules := [1, 1]\<rparr>,
       fnPropsAux := [[\<lambda>body iBody. body], [hook_AtmEsc K_example X_example io_example]]\<rparr>"

section \<open>Lemmas about loops\<close>

lemma fold_invariant:
  "P s \<Longrightarrow> (\<And>x s. x \<in> set xs \<Longrightarrow> P s \<Longrightarrow> P (f x s)) \<Longrightarrow> P (fold f xs s)"
  by (induction xs arbitrary: s) simp_all

lemma fold_sum_upt: "fold (\<lambda>i s. s + f i) [0..<n] (a::real) = a + (\<Sum>i<n. f i)"
  by (induction n) simp_all

lemma upt_split: "i < n \<Longrightarrow> [0..<n] = [0..<i] @ i # [Suc i..<n]"
proof -
  assume i: "i < n"
  have "[0..<i + (n - i)] = [0..<i] @ [i..<i + (n - i)]" by (rule upt_add_eq_append) simp
  then have "[0..<n] = [0..<i] @ [i..<n]" using i by simp
  then show ?thesis using i by (simp add: upt_conv_Cons)
qed

lemma upt_0_2: "[0..<2] = [0, Suc 0]"
  by (simp add: upt_rec)

text \<open>Loops that may exit.\<close>

lemma for_loop_append:
  "for_loop f (xs @ ys) s = (case for_loop f xs s of Inl e \<Rightarrow> Inl e | Inr s' \<Rightarrow> for_loop f ys s')"
  by (induction xs arbitrary: s) (simp_all split: sum.splits)

lemma for_loop_Suc:
  "for_loop f [0..<Suc n] s = (case for_loop f [0..<n] s of Inl e \<Rightarrow> Inl e | Inr s' \<Rightarrow> f n s')"
  by (simp add: for_loop_append split: sum.splits)

lemma for_loop_invariant:
  assumes "for_loop f xs s = Inr s'" and "P s"
    and "\<And>x s s'. x \<in> set xs \<Longrightarrow> P s \<Longrightarrow> f x s = Inr s' \<Longrightarrow> P s'"
  shows "P s'"
  using assms
proof (induction xs arbitrary: s)
  case Nil
  then show ?case by simp
next
  case (Cons x xs)
  from Cons.prems(1) obtain t where t: "f x s = Inr t" "for_loop f xs t = Inr s'"
    by (cases "f x s") simp_all
  have p: "P t" using Cons.prems(3) [of x s t] Cons.prems(2) t(1) by simp
  have r: "P b" if "y \<in> set xs" "P a" "f y a = Inr b" for y a b
    using Cons.prems(3) [of y a b] that by simp
  show ?case by (rule Cons.IH [OF t(2) p]) (rule r)
qed

lemma for_loop_returns:
  assumes "\<And>x s. x \<in> set xs \<Longrightarrow> \<exists>s'. f x s = Inr s'"
  shows "\<exists>s'. for_loop f xs s = Inr s'"
  using assms
proof (induction xs arbitrary: s)
  case Nil
  then show ?case by simp
next
  case (Cons x xs)
  obtain t where t: "f x s = Inr t" using Cons.prems [of x s] by auto
  show ?case using Cons.IH [of t] Cons.prems by (simp add: t)
qed

lemma for_loop_exit:
  assumes "for_loop f xs s = Inl e"
  shows "\<exists>x s'. x \<in> set xs \<and> f x s' = Inl e"
  using assms
proof (induction xs arbitrary: s)
  case Nil
  then show ?case by simp
next
  case (Cons x xs)
  show ?case
  proof (cases "f x s")
    case (Inl a)
    then show ?thesis using Cons.prems by auto
  next
    case (Inr t)
    then have "for_loop f xs t = Inl e" using Cons.prems by simp
    then obtain y a where "y \<in> set xs" "f y a = Inl e" using Cons.IH by blast
    then have "y \<in> set (x # xs) \<and> f y a = Inl e" by simp
    then show ?thesis by blast
  qed
qed

section \<open>Properties of the atmospheric escape module\<close>

subsection \<open>The oxygen mixing ratio\<close>

text \<open>
  Claim C9. With \<open>N_O2 = dOxygenMass / (32 m_H)\<close> and \<open>N_H2O = dSurfaceWaterMass / (18 m_H)\<close>,
  \<^verbatim>\<open>fdAtomicOxygenMixingRatio\<close> returns \<open>1 / (1 + 1 / (0.5 + N_O2 / N_H2O))\<close> when
  \<open>N_H2O > 0\<close>, returns 1 when \<open>N_H2O = 0\<close> and \<open>N_O2 > 0\<close>, and returns 0 when both are
  zero; for all non-negative inputs the result lies in \<open>[0, 1]\<close>. This holds for every
  value of the macro \<^verbatim>\<open>ATOMMASS\<close>.
\<close>

theorem fdAtomicOxygenMixingRatio_cases_and_range:
  "let NO2 = dOxygenMass' / (32 * ATOMMASS K);
       NH2O = dSurfaceWaterMass' / (18 * ATOMMASS K);
       XO = fdAtomicOxygenMixingRatio K dSurfaceWaterMass' dOxygenMass'
   in (NH2O > 0 \<longrightarrow> XO = 1 / (1 + 1 / (0.5 + NO2 / NH2O)))
    \<and> (NH2O = 0 \<and> NO2 > 0 \<longrightarrow> XO = 1)
    \<and> (NH2O = 0 \<and> NO2 = 0 \<longrightarrow> XO = 0)
    \<and> (0 \<le> dSurfaceWaterMass' \<and> 0 \<le> dOxygenMass' \<longrightarrow> 0 \<le> XO \<and> XO \<le> 1)"
proof -
  define A where "A = ATOMMASS K"
  define NO2 where "NO2 = dOxygenMass' / (32 * A)"
  define NH2O where "NH2O = dSurfaceWaterMass' / (18 * A)"
  define XO where "XO = fdAtomicOxygenMixingRatio K dSurfaceWaterMass' dOxygenMass'"
  have f: "XO = (if NH2O > 0 then 1 / (1 + 1 / (0.5 + NO2 / NH2O)) else if NO2 > 0 then 1 else 0)"
    by (simp add: XO_def fdAtomicOxygenMixingRatio_def NO2_def NH2O_def A_def Let_def)
  have rng: "0 \<le> XO \<and> XO \<le> 1" if nn: "0 \<le> dSurfaceWaterMass'" "0 \<le> dOxygenMass'"
  proof (cases "NH2O > 0")
    case True
    have Apos: "A > 0"
    proof (rule ccontr)
      assume "\<not> A > 0"
      then have "18 * A \<le> 0" by simp
      with nn(1) have "dSurfaceWaterMass' / (18 * A) \<le> 0" by (rule divide_nonneg_nonpos)
      with True show False by (simp add: NH2O_def)
    qed
    then have "NO2 \<ge> 0" using nn unfolding NO2_def by simp
    then have "NO2 / NH2O \<ge> 0" using True by simp
    then have "0.5 + NO2 / NH2O > 0" by linarith
    then have "1 / (0.5 + NO2 / NH2O) > 0" by simp
    then have t: "1 + 1 / (0.5 + NO2 / NH2O) \<ge> 1" by linarith
    have "\<And>t::real. t \<ge> 1 \<Longrightarrow> 0 \<le> 1 / t \<and> 1 / t \<le> 1"
      by (simp add: divide_le_eq)
    from this [OF t]
    have "0 \<le> 1 / (1 + 1 / (0.5 + NO2 / NH2O)) \<and> 1 / (1 + 1 / (0.5 + NO2 / NH2O)) \<le> 1" .
    with True f show ?thesis by simp
  next
    case False
    with f show ?thesis by simp
  qed
  have "(NH2O > 0 \<longrightarrow> XO = 1 / (1 + 1 / (0.5 + NO2 / NH2O)))
      \<and> (NH2O = 0 \<and> NO2 > 0 \<longrightarrow> XO = 1)
      \<and> (NH2O = 0 \<and> NO2 = 0 \<longrightarrow> XO = 0)
      \<and> (0 \<le> dSurfaceWaterMass' \<and> 0 \<le> dOxygenMass' \<longrightarrow> 0 \<le> XO \<and> XO \<le> 1)"
    using f rng by auto
  then show ?thesis
    unfolding Let_def NO2_def NH2O_def A_def XO_def .
qed

theorem fdAtomicOxygenMixingRatio_cases_and_range_witness:
  "(0::real) < (1.39 * 10 ^ 21) / (18 * ATOMMASS K_example)
   \<and> fdAtomicOxygenMixingRatio K_example (1.39 * 10 ^ 21) 0 = 1 / 3
   \<and> (0::real) < 1 / (32 * ATOMMASS K_example)
   \<and> fdAtomicOxygenMixingRatio K_example 0 1 = 1
   \<and> fdAtomicOxygenMixingRatio K_example 0 0 = 0
   \<and> 0 \<le> fdAtomicOxygenMixingRatio K_example (1.39 * 10 ^ 21) 1
   \<and> fdAtomicOxygenMixingRatio K_example (1.39 * 10 ^ 21) 1 \<le> 1"
proof -
  have A: "(0::real) < ATOMMASS K_example" by (simp add: K_example_def)
  note a = fdAtomicOxygenMixingRatio_cases_and_range [where dSurfaceWaterMass' = "1.39 * 10 ^ 21" and dOxygenMass' = 0
    and K = K_example, unfolded Let_def]
  note b = fdAtomicOxygenMixingRatio_cases_and_range [where dSurfaceWaterMass' = "0" and dOxygenMass' = 1
    and K = K_example, unfolded Let_def]
  note c = fdAtomicOxygenMixingRatio_cases_and_range [where dSurfaceWaterMass' = "0" and dOxygenMass' = 0
    and K = K_example, unfolded Let_def]
  note d = fdAtomicOxygenMixingRatio_cases_and_range [where dSurfaceWaterMass' = "1.39 * 10 ^ 21" and dOxygenMass' = 1
    and K = K_example, unfolded Let_def]
  have 1: "fdAtomicOxygenMixingRatio K_example (1.39 * 10 ^ 21) 0 = 1 / 3" using a A by simp
  have 2: "fdAtomicOxygenMixingRatio K_example 0 1 = 1" using b A by simp
  have 3: "fdAtomicOxygenMixingRatio K_example 0 0 = 0" using c by simp
  have 4: "0 \<le> fdAtomicOxygenMixingRatio K_example (1.39 * 10 ^ 21) 1
         \<and> fdAtomicOxygenMixingRatio K_example (1.39 * 10 ^ 21) 1 \<le> 1" using d by simp
  show ?thesis using A 1 2 3 4 by simp
qed

subsection \<open>Whether water escapes\<close>

text \<open>
  Claim C4. \<^verbatim>\<open>fbDoesWaterEscape(body, iBody)\<close> returns true if and only if the envelope mass
  is not positive, the instellation is at least the runaway-greenhouse limit \<^verbatim>\<open>fdHZRG14\<close>,
  the surface water mass is positive and the age does not exceed \<^verbatim>\<open>dJeansTime\<close>.
\<close>

theorem fbDoesWaterEscape_iff:
  "fst (fbDoesWaterEscape K X body iBody) \<longleftrightarrow>
     (\<not> dEnvelopeMass (body ! iBody) > 0
      \<and> fdInstellation X body iBody \<ge> fdHZRG14 K body iBody
      \<and> dSurfaceWaterMass (body ! iBody) > 0
      \<and> \<not> dAge (body ! iBody) > dJeansTime (body ! iBody))"
  by (simp add: fbDoesWaterEscape_def not_less not_le)

subsection \<open>The envelope mass derivative\<close>

text \<open>
  Claim C5 says that \<^verbatim>\<open>fdDEnvelopeMassDt\<close> returns 0 once the envelope mass is at most 0
  or the age exceeds \<^verbatim>\<open>dJeansTime\<close>. The function returns \<^verbatim>\<open>dTINY\<close> there, which is
  \<open>1 / DBL_MAX\<close> and not 0: for the example planet, which has no envelope, the result
  differs from 0.
\<close>

theorem fdDEnvelopeMassDt_not_zero:
  "dEnvelopeMass ([star_example, planet_example] ! ([1] ! 0)) \<le> 0
   \<and> fdDEnvelopeMassDt K_example [star_example, planet_example] [1] \<noteq> 0"
  by (simp add: fdDEnvelopeMassDt_def planet_example_def body_example_def dTINY_def DBL_MAX_def)

text \<open>
  Claim C5, amended. For every body state in which the envelope mass is at most 0, or the
  age exceeds \<^verbatim>\<open>dJeansTime\<close>, \<^verbatim>\<open>fdDEnvelopeMassDt\<close> returns \<^verbatim>\<open>dTINY\<close>, the positive
  number \<open>1 / DBL_MAX\<close>.
\<close>

theorem fdDEnvelopeMassDt_expired:
  "dEnvelopeMass (body ! (iaBody ! 0)) \<le> 0 \<or> dAge (body ! (iaBody ! 0)) > dJeansTime (body ! (iaBody ! 0))
   \<Longrightarrow> fdDEnvelopeMassDt K body iaBody = dTINY \<and> dTINY = 1 / DBL_MAX \<and> 0 < dTINY"
  by (auto simp add: fdDEnvelopeMassDt_def dTINY_def DBL_MAX_def Let_def)

theorem fdDEnvelopeMassDt_expired_witness:
  "dEnvelopeMass ([star_example, planet_example] ! ([1] ! 0)) \<le> 0
   \<and> fdDEnvelopeMassDt K_example [star_example, planet_example] [1] = dTINY
   \<and> 0 < dTINY"
proof -
  have h: "dEnvelopeMass ([star_example, planet_example] ! ([1] ! 0)) \<le> 0"
    by (simp add: planet_example_def body_example_def)
  then have "dEnvelopeMass ([star_example, planet_example] ! ([1] ! 0)) \<le> 0
      \<or> dAge ([star_example, planet_example] ! ([1] ! 0))
          > dJeansTime ([star_example, planet_example] ! ([1] ! 0))" ..
  from fdDEnvelopeMassDt_expired [OF this, of K_example] h show ?thesis by simp
qed

subsection \<open>Routing of the oxygen production\<close>

text \<open>
  Claim C8. In every body state in which water is escaping (\<^verbatim>\<open>bRunaway\<close> set and the
  surface water mass positive): if \<^verbatim>\<open>bInstantO2Sink\<close> is set, \<^verbatim>\<open>fdDOxygenMassDt\<close> returns 0
  and \<^verbatim>\<open>fdDOxygenMantleMassDt\<close> returns exactly what \<^verbatim>\<open>fdDOxygenMassDt\<close> returns on the
  same state with \<^verbatim>\<open>bInstantO2Sink\<close> cleared; if \<^verbatim>\<open>bInstantO2Sink\<close> is cleared,
  \<^verbatim>\<open>fdDOxygenMantleMassDt\<close> returns 0.
\<close>

theorem oxygen_production_routed:
  assumes "iaBody ! 0 < length body"
    and "bRunaway (body ! (iaBody ! 0))"
    and "dSurfaceWaterMass (body ! (iaBody ! 0)) > 0"
  shows "(bInstantO2Sink (body ! (iaBody ! 0)) \<longrightarrow>
            fdDOxygenMassDt K body iaBody = 0
          \<and> fdDOxygenMantleMassDt K body iaBody =
              fdDOxygenMassDt K
                (body[iaBody ! 0 := (body ! (iaBody ! 0))\<lparr>bInstantO2Sink := False\<rparr>]) iaBody)
       \<and> (\<not> bInstantO2Sink (body ! (iaBody ! 0)) \<longrightarrow> fdDOxygenMantleMassDt K body iaBody = 0)"
  using assms
  by (simp add: fdDOxygenMassDt_def fdDOxygenMantleMassDt_def Let_def)

theorem oxygen_production_routed_witness:
  "fdDOxygenMassDt K_example [star_example, planet_example] [1] = 0
   \<and> fdDOxygenMantleMassDt K_example [star_example, planet_example] [1] = 2000
   \<and> fdDOxygenMassDt K_example
        [star_example, planet_example\<lparr>bInstantO2Sink := False\<rparr>] [1] = 2000
   \<and> fdDOxygenMantleMassDt K_example
        [star_example, planet_example\<lparr>bInstantO2Sink := False\<rparr>] [1] = 0"
proof -
  let ?on = "[star_example, planet_example]"
  let ?off = "[star_example, planet_example\<lparr>bInstantO2Sink := False\<rparr>]"
  have off: "fdDOxygenMassDt K_example ?off [1] = 2000"
    by (simp add: fdDOxygenMassDt_def planet_example_def body_example_def)
  have upd: "?on[[1] ! 0 := (?on ! ([1] ! 0))\<lparr>bInstantO2Sink := False\<rparr>] = ?off"
    by simp
  have on: "fdDOxygenMassDt K_example ?on [1] = 0
          \<and> fdDOxygenMantleMassDt K_example ?on [1] = fdDOxygenMassDt K_example ?off [1]"
    using oxygen_production_routed [of "[1]" ?on K_example]
    unfolding upd by (simp add: planet_example_def body_example_def)
  have off': "fdDOxygenMantleMassDt K_example ?off [1] = 0"
    using oxygen_production_routed [of "[1]" ?off K_example]
    by (simp add: planet_example_def body_example_def)
  show ?thesis using on off off' by simp
qed

subsection \<open>The auxiliary properties\<close>

text \<open>
  \<^verbatim>\<open>fnPropsAuxAtmEsc\<close> is a chain of some thirty assignments to \<^verbatim>\<open>body[iBody]\<close>. A field
  that the tail of the chain does not assign keeps its value; this is shown by carrying an
  invariant \<open>I\<close> over the chain, one \<open>let\<close> and one branch at a time.
\<close>

lemma fbDoesWaterEscape_length:
  "length (snd (fbDoesWaterEscape K X body iBody)) = length body"
  by (simp add: fbDoesWaterEscape_def)

lemma fbDoesWaterEscape_dAge:
  "dAge (snd (fbDoesWaterEscape K X body iBody) ! j) = dAge (body ! j)"
  by (cases "iBody < length body"; cases "j = iBody")
     (simp_all add: fbDoesWaterEscape_def list_update_beyond not_less)

lemma fbDoesWaterEscape_dKTide:
  "dKTide (snd (fbDoesWaterEscape K X body iBody) ! j) = dKTide (body ! j)"
  by (cases "iBody < length body"; cases "j = iBody")
     (simp_all add: fbDoesWaterEscape_def list_update_beyond not_less)

text \<open>One call of the hook: the ages it leaves.\<close>

lemma fnPropsAuxAtmEsc_own_age:
  assumes n: "iBody < length body"
  shows "length (fst (fnPropsAuxAtmEsc K X body io iBody)) = length body
       \<and> dAge (fst (fnPropsAuxAtmEsc K X body io iBody) ! iBody) = dAge (body ! 0)"
proof -
  define I where "I = (\<lambda>b::BODY list. length b = length body
       \<and> dAge (b ! iBody) = dAge (body ! 0))"
  have R1: "\<And>(s::BODY list) f. I s \<Longrightarrow> (\<And>x. I x \<Longrightarrow> I (f x)) \<Longrightarrow> I (Let s f)" by simp
  have R2: "\<And>(s::BODY list) f. I s \<Longrightarrow> (\<And>x. I x \<Longrightarrow> I (fst (f x))) \<Longrightarrow> I (fst (Let s f))"
    by simp
  have R3: "\<And>(s::real) f. (\<And>x. I (f x)) \<Longrightarrow> I (Let s f)" by simp
  have R4: "\<And>(s::real) f. (\<And>x. I (fst (f x))) \<Longrightarrow> I (fst (Let s f))" by simp
  have R5: "\<And>(s::BODY list \<times> string list) f.
      I (fst s) \<Longrightarrow> (\<And>x e. I x \<Longrightarrow> I (fst (f x e))) \<Longrightarrow> I (fst (Let s (case_prod f)))"
    by (simp add: split_beta)
  have R6: "\<And>(s::bool \<times> BODY list) f.
      I (snd s) \<Longrightarrow> (\<And>e x. I x \<Longrightarrow> I (fst (f e x))) \<Longrightarrow> I (fst (Let s (case_prod f)))"
    by (simp add: split_beta)
  have R7: "\<And>c A B. I A \<Longrightarrow> I B \<Longrightarrow> I (if c then A else B)" by simp
  have R8: "\<And>c A B. I (fst A) \<Longrightarrow> I (fst B) \<Longrightarrow> I (fst (if c then A else B))" by simp
  have R9: "\<And>a b. I a \<Longrightarrow> I (fst (a, b))" by simp
  have W: "\<And>x. I x \<Longrightarrow> I (snd (fbDoesWaterEscape K X x iBody))"
    by (simp add: I_def fbDoesWaterEscape_length fbDoesWaterEscape_dAge)
  have I0: "I (body[iBody := (body ! iBody)\<lparr>dAge := dAge (body ! 0)\<rparr>])"
    using n by (auto simp add: I_def nth_list_update)
  have "I (fst (fnPropsAuxAtmEsc K X body io iBody))"
    unfolding fnPropsAuxAtmEsc_def
    by (intro R1 R2 R3 R4 R5 R6 R7 R8 R9 W I0; simp add: I_def n nth_list_update)
  then show ?thesis by (simp add: I_def)
qed

lemma fnPropsAuxAtmEsc_other_age:
  assumes j: "j \<noteq> iBody"
  shows "dAge (fst (fnPropsAuxAtmEsc K X body io iBody) ! j) = dAge (body ! j)"
proof -
  define I where "I = (\<lambda>b::BODY list. dAge (b ! j) = dAge (body ! j))"
  have R1: "\<And>(s::BODY list) f. I s \<Longrightarrow> (\<And>x. I x \<Longrightarrow> I (f x)) \<Longrightarrow> I (Let s f)" by simp
  have R2: "\<And>(s::BODY list) f. I s \<Longrightarrow> (\<And>x. I x \<Longrightarrow> I (fst (f x))) \<Longrightarrow> I (fst (Let s f))"
    by simp
  have R3: "\<And>(s::real) f. (\<And>x. I (f x)) \<Longrightarrow> I (Let s f)" by simp
  have R4: "\<And>(s::real) f. (\<And>x. I (fst (f x))) \<Longrightarrow> I (fst (Let s f))" by simp
  have R5: "\<And>(s::BODY list \<times> string list) f.
      I (fst s) \<Longrightarrow> (\<And>x e. I x \<Longrightarrow> I (fst (f x e))) \<Longrightarrow> I (fst (Let s (case_prod f)))"
    by (simp add: split_beta)
  have R6: "\<And>(s::bool \<times> BODY list) f.
      I (snd s) \<Longrightarrow> (\<And>e x. I x \<Longrightarrow> I (fst (f e x))) \<Longrightarrow> I (fst (Let s (case_prod f)))"
    by (simp add: split_beta)
  have R7: "\<And>c A B. I A \<Longrightarrow> I B \<Longrightarrow> I (if c then A else B)" by simp
  have R8: "\<And>c A B. I (fst A) \<Longrightarrow> I (fst B) \<Longrightarrow> I (fst (if c then A else B))" by simp
  have R9: "\<And>a b. I a \<Longrightarrow> I (fst (a, b))" by simp
  have W: "\<And>x. I x \<Longrightarrow> I (snd (fbDoesWaterEscape K X x iBody))"
    by (simp add: I_def fbDoesWaterEscape_dAge)
  have I0: "I (body[iBody := (body ! iBody)\<lparr>dAge := dAge (body ! 0)\<rparr>])"
    using j by (simp add: I_def j [symmetric])
  have "I (fst (fnPropsAuxAtmEsc K X body io iBody))"
    unfolding fnPropsAuxAtmEsc_def
    by (intro R1 R2 R3 R4 R5 R6 R7 R8 R9 W I0; simp add: I_def j j [symmetric])
  then show ?thesis by (simp add: I_def)
qed

lemma dMeanMotion_dAge:
  "dAge (s[x := (s ! x)\<lparr>dMeanMotion := y\<rparr>] ! j) = dAge (s ! j)"
  by (cases "x < length s"; cases "j = x") (simp_all add: list_update_beyond not_less)

lemma PropsAuxGeneral_ages:
  "length (PropsAuxGeneral E body control) = length body
   \<and> dAge (PropsAuxGeneral E body control ! j) = dAge (body ! j)"
  unfolding PropsAuxGeneral_def
  by (rule fold_invariant [where P = "\<lambda>b. length b = length body \<and> dAge (b ! j) = dAge (body ! j)"])
     (simp_all add: dMeanMotion_dAge)

text \<open>
  A hook that is the one of the module or keeps the ages, called for body \<open>i\<close>: the age of
  body 0 stays, an age that is the one of body 0 stays so, and the hook of the module makes
  the age of body \<open>i\<close> the one of body 0.
\<close>

lemma hook_step:
  assumes h: "h = hook_AtmEsc K X io \<or> keeps_dAge h"
    and i: "i < length b"
  shows "length (h b i) = length b"
    and "dAge (h b i ! 0) = dAge (b ! 0)"
    and "dAge (b ! k) = dAge (b ! 0) \<Longrightarrow> dAge (h b i ! k) = dAge (b ! 0)"
    and "h = hook_AtmEsc K X io \<Longrightarrow> dAge (h b i ! i) = dAge (b ! 0)"
proof -
  have a: "length (h b i) = length b \<and> dAge (h b i ! 0) = dAge (b ! 0)
      \<and> (dAge (b ! k) = dAge (b ! 0) \<longrightarrow> dAge (h b i ! k) = dAge (b ! 0))"
  proof (cases "h = hook_AtmEsc K X io")
    case True
    have o: "dAge (h b i ! j) = (if j = i then dAge (b ! 0) else dAge (b ! j))" for j
      using fnPropsAuxAtmEsc_own_age [OF i, of K X io] fnPropsAuxAtmEsc_other_age [of j i K X b io]
      by (simp add: True hook_AtmEsc_def)
    have "length (h b i) = length b"
      using fnPropsAuxAtmEsc_own_age [OF i, of K X io] by (simp add: True hook_AtmEsc_def)
    then show ?thesis by (simp add: o)
  next
    case False
    then have "keeps_dAge h" using h by simp
    then show ?thesis by (simp add: keeps_dAge_def)
  qed
  show "length (h b i) = length b" "dAge (h b i ! 0) = dAge (b ! 0)"
    "dAge (b ! k) = dAge (b ! 0) \<Longrightarrow> dAge (h b i ! k) = dAge (b ! 0)"
    using a by simp_all
  show "dAge (h b i ! i) = dAge (b ! 0)" if "h = hook_AtmEsc K X io"
    using fnPropsAuxAtmEsc_own_age [OF i, of K X io] by (simp add: that hook_AtmEsc_def)
qed

text \<open>
  Claim C10. Every invocation of \<^verbatim>\<open>fnPropsAuxAtmEsc\<close> on body \<open>i\<close> overwrites
  \<^verbatim>\<open>body[i].dAge\<close> with \<^verbatim>\<open>body[0].dAge\<close>, and nothing later in the function assigns
  \<^verbatim>\<open>dAge\<close>: when it returns, the age of body \<open>i\<close> is the age body 0 had at the call and
  the ages of the other bodies are as they were. So after an auxiliary pass
  (\<^verbatim>\<open>PropertiesAuxiliary\<close>) every body for which the hook of the module is registered has
  the age that body 0 had before the pass, which is still the age of body 0, whatever its age
  was before; this needs that the hooks of the other modules leave the ages as they are, as
  \<^verbatim>\<open>fnPropsAuxStellar\<close> does.
\<close>

theorem PropertiesAuxiliary_dAge:
  assumes n: "iNumBodies (Evolve control) \<le> length body"
    and u: "\<forall>i<iNumBodies (Evolve control). \<forall>m<iNumModules (Evolve control) ! i.
              fnPropsAux control ! i ! m = hook_AtmEsc K X io
              \<or> keeps_dAge (fnPropsAux control ! i ! m)"
    and mu: "\<forall>i<iNumBodies (Evolve control). \<forall>m<iNumMultiProps control ! i.
              keeps_dAge (fnPropsAuxMulti control ! i ! m)"
    and i: "iBody < iNumBodies (Evolve control)"
    and m: "iModule < iNumModules (Evolve control) ! iBody"
    and a: "fnPropsAux control ! iBody ! iModule = hook_AtmEsc K X io"
  shows "dAge (PropertiesAuxiliary E body control ! iBody) = dAge (body ! 0)
       \<and> dAge (PropertiesAuxiliary E body control ! 0) = dAge (body ! 0)
       \<and> (\<forall>b. iBody < length b \<longrightarrow>
            dAge (fst (fnPropsAuxAtmEsc K X b io iBody) ! iBody) = dAge (b ! 0)
            \<and> (\<forall>j. j \<noteq> iBody \<longrightarrow>
                  dAge (fst (fnPropsAuxAtmEsc K X b io iBody) ! j) = dAge (b ! j)))"
proof -
  define J where "J = (\<lambda>k (b::BODY list). length b = length body \<and> dAge (b ! 0) = dAge (body ! 0)
                         \<and> (k \<longrightarrow> dAge (b ! iBody) = dAge (body ! 0)))"
  define modules where "modules = (\<lambda>i. fold (\<lambda>iModule body. (fnPropsAux control ! i ! iModule) body i)
                              [0..<iNumModules (Evolve control) ! i])"
  define multi where "multi = (\<lambda>i. fold (\<lambda>iModule body. (fnPropsAuxMulti control ! i ! iModule) body i)
                      [0..<iNumMultiProps control ! i])"
  have S1: "J k ((fnPropsAux control ! j ! l) b j)"
    if "j < iNumBodies (Evolve control)" "l < iNumModules (Evolve control) ! j" "J k b" for j l k b
  proof -
    have h: "fnPropsAux control ! j ! l = hook_AtmEsc K X io \<or> keeps_dAge (fnPropsAux control ! j ! l)"
      using u that(1,2) by simp
    have jl: "j < length b" using that(1,3) n by (simp add: J_def)
    show ?thesis
      using hook_step(1,2) [OF h jl] hook_step(3) [OF h jl, of iBody] that(3)
      by (simp add: J_def)
  qed
  have S1': "J True ((fnPropsAux control ! iBody ! iModule) b iBody)" if "J k b" for k b
  proof -
    have h: "fnPropsAux control ! iBody ! iModule = hook_AtmEsc K X io
        \<or> keeps_dAge (fnPropsAux control ! iBody ! iModule)"
      using a by simp
    have jl: "iBody < length b" using i that n by (simp add: J_def)
    show ?thesis
      using hook_step(1,2) [OF h jl] hook_step(4) [OF h jl a] that
      by (simp add: J_def)
  qed
  have S2: "J k ((fnPropsAuxMulti control ! j ! l) b j)"
    if "j < iNumBodies (Evolve control)" "l < iNumMultiProps control ! j" "J k b" for j l k b
  proof -
    have "keeps_dAge (fnPropsAuxMulti control ! j ! l)" using mu that(1,2) by simp
    then show ?thesis using that(3) by (simp add: J_def keeps_dAge_def)
  qed
  have M1: "J k (modules j b)" if "j < iNumBodies (Evolve control)" "J k b" for j k b
    unfolding modules_def
    by (rule fold_invariant [where P = "J k"]) (use that S1 in auto)
  have M1': "J True (modules iBody b)" if "J k b" for k b
  proof -
    let ?f = "\<lambda>iModule body. (fnPropsAux control ! iBody ! iModule) body iBody"
    have "J k (fold ?f [0..<iModule] b)"
      by (rule fold_invariant [where P = "J k"]) (use that S1 [OF i] m in auto)
    then have "J True (?f iModule (fold ?f [0..<iModule] b))" by (rule S1')
    then have "J True (fold ?f [Suc iModule..<iNumModules (Evolve control) ! iBody]
                         (?f iModule (fold ?f [0..<iModule] b)))"
      by (rule fold_invariant [where P = "J True"]) (use S1 [OF i] in auto)
    then show ?thesis unfolding modules_def upt_split [OF m] by simp
  qed
  have M2: "J k (multi j b)" if "j < iNumBodies (Evolve control)" "J k b" for j k b
    unfolding multi_def
    by (rule fold_invariant [where P = "J k"]) (use that S2 in auto)
  have B1: "J k (multi j (modules j b))" if "j < iNumBodies (Evolve control)" "J k b" for j k b
    using that M1 M2 by simp
  have B1': "J True (multi iBody (modules iBody b))" if "J k b" for k b
    using that M1' M2 [OF i] by simp
  have P: "PropertiesAuxiliary E body control
      = fold (\<lambda>j b. multi j (modules j b)) [0..<iNumBodies (Evolve control)]
          (PropsAuxGeneral E body control)"
    by (simp add: PropertiesAuxiliary_def Let_def modules_def multi_def)
  have "J False (PropsAuxGeneral E body control)"
    using PropsAuxGeneral_ages [of E body control] by (simp add: J_def)
  then have "J False (fold (\<lambda>j b. multi j (modules j b)) [0..<iBody] (PropsAuxGeneral E body control))"
    by (rule fold_invariant [where P = "J False"]) (use B1 i in auto)
  then have "J True (multi iBody (modules iBody
      (fold (\<lambda>j b. multi j (modules j b)) [0..<iBody] (PropsAuxGeneral E body control))))"
    by (rule B1')
  then have "J True (fold (\<lambda>j b. multi j (modules j b)) [Suc iBody..<iNumBodies (Evolve control)]
      (multi iBody (modules iBody
      (fold (\<lambda>j b. multi j (modules j b)) [0..<iBody] (PropsAuxGeneral E body control)))))"
    by (rule fold_invariant [where P = "J True"]) (use B1 in auto)
  then have "J True (PropertiesAuxiliary E body control)"
    unfolding P upt_split [OF i] by simp
  then show ?thesis
    using fnPropsAuxAtmEsc_own_age [of iBody _ K X io] fnPropsAuxAtmEsc_other_age [of _ iBody K X _ io]
    by (simp add: J_def)
qed

theorem PropertiesAuxiliary_dAge_witness:
  "iNumBodies (Evolve control_hooks_example) \<le> length [star_example, planet_example]
   \<and> iNumModules (Evolve control_hooks_example) = [1, 1]
   \<and> iNumMultiProps control_hooks_example = [0, 0]
   \<and> keeps_dAge (fnPropsAux control_hooks_example ! 0 ! 0)
   \<and> fnPropsAux control_hooks_example ! 1 ! 0 = hook_AtmEsc K_example X_example io_example
   \<and> dAge star_example = 10 ^ 9 \<and> dAge planet_example = 0
   \<and> dAge (PropertiesAuxiliary E_example [star_example, planet_example] control_hooks_example ! 1)
       = 10 ^ 9
   \<and> dAge (PropertiesAuxiliary E_example [star_example, planet_example] control_hooks_example ! 0)
       = 10 ^ 9
   \<and> dAge (fst (fnPropsAuxAtmEsc K_example X_example [star_example, planet_example] io_example 1) ! 1)
       = 10 ^ 9"
proof -
  have c: "iNumBodies (Evolve control_hooks_example) = 2"
    "iNumModules (Evolve control_hooks_example) = [1, 1]"
    "iNumMultiProps control_hooks_example = [0, 0]"
    "fnPropsAux control_hooks_example
       = [[\<lambda>body iBody. body], [hook_AtmEsc K_example X_example io_example]]"
    by (simp_all add: control_hooks_example_def control_example_def)
  have n: "iNumBodies (Evolve control_hooks_example) \<le> length [star_example, planet_example]"
    by (simp add: c)
  have k: "keeps_dAge (\<lambda>body iBody. body)" by (simp add: keeps_dAge_def)
  have u: "\<forall>i<iNumBodies (Evolve control_hooks_example).
        \<forall>m<iNumModules (Evolve control_hooks_example) ! i.
          fnPropsAux control_hooks_example ! i ! m = hook_AtmEsc K_example X_example io_example
          \<or> keeps_dAge (fnPropsAux control_hooks_example ! i ! m)"
    using k by (auto simp add: c less_Suc_eq numeral_2_eq_2)
  have mu: "\<forall>i<iNumBodies (Evolve control_hooks_example). \<forall>m<iNumMultiProps control_hooks_example ! i.
        keeps_dAge (fnPropsAuxMulti control_hooks_example ! i ! m)"
    by (auto simp add: c less_Suc_eq numeral_2_eq_2)
  have i: "1 < iNumBodies (Evolve control_hooks_example)"
    and m: "0 < iNumModules (Evolve control_hooks_example) ! 1"
    and a: "fnPropsAux control_hooks_example ! 1 ! 0 = hook_AtmEsc K_example X_example io_example"
    by (simp_all add: c)
  have g: "dAge star_example = 10 ^ 9" "dAge planet_example = 0"
    by (simp_all add: star_example_def planet_example_def body_example_def)
  from PropertiesAuxiliary_dAge [OF n u mu i m a, of E_example] g
  have "dAge (PropertiesAuxiliary E_example [star_example, planet_example] control_hooks_example ! 1)
       = 10 ^ 9"
    "dAge (PropertiesAuxiliary E_example [star_example, planet_example] control_hooks_example ! 0)
       = 10 ^ 9"
    "dAge (fst (fnPropsAuxAtmEsc K_example X_example [star_example, planet_example] io_example 1) ! 1)
       = 10 ^ 9"
    by simp_all
  then show ?thesis using n k a g by (simp add: c)
qed

text \<open>
  In the branch for a planet that is not circumbinary the assignment \<^verbatim>\<open>dKTide = 1.0\<close> stands
  after the \<^verbatim>\<open>if (xi > 1) ... else ...\<close>, not inside its \<^verbatim>\<open>else\<close>; the function therefore
  leaves \<^verbatim>\<open>dKTide = 1\<close> whatever \<open>xi\<close> is.
\<close>

lemma fnPropsAuxAtmEsc_dKTide:
  assumes n: "iBody < length body"
  shows "dKTide (fst (fnPropsAuxAtmEsc K X body io iBody) ! iBody) = 1"
proof -
  define I where "I = (\<lambda>b::BODY list. length b = length body)"
  define J where "J = (\<lambda>b::BODY list. length b = length body \<and> dKTide (b ! iBody) = 1)"
  have I1: "\<And>(s::BODY list) f. I s \<Longrightarrow> (\<And>x. I x \<Longrightarrow> I (f x)) \<Longrightarrow> I (Let s f)" by simp
  have I7: "\<And>c A B. I A \<Longrightarrow> I B \<Longrightarrow> I (if c then A else B)" by simp
  have T2: "\<And>(s::BODY list) f. I s \<Longrightarrow> (\<And>x. I x \<Longrightarrow> J (fst (f x))) \<Longrightarrow> J (fst (Let s f))"
    by simp
  have R1: "\<And>(s::BODY list) f. J s \<Longrightarrow> (\<And>x. J x \<Longrightarrow> J (f x)) \<Longrightarrow> J (Let s f)" by simp
  have R2: "\<And>(s::BODY list) f. J s \<Longrightarrow> (\<And>x. J x \<Longrightarrow> J (fst (f x))) \<Longrightarrow> J (fst (Let s f))"
    by simp
  have R3: "\<And>(s::real) f. (\<And>x. J (f x)) \<Longrightarrow> J (Let s f)" by simp
  have R4: "\<And>(s::real) f. (\<And>x. J (fst (f x))) \<Longrightarrow> J (fst (Let s f))" by simp
  have R5: "\<And>(s::BODY list \<times> string list) f.
      J (fst s) \<Longrightarrow> (\<And>x e. J x \<Longrightarrow> J (fst (f x e))) \<Longrightarrow> J (fst (Let s (case_prod f)))"
    by (simp add: split_beta)
  have R6: "\<And>(s::bool \<times> BODY list) f.
      J (snd s) \<Longrightarrow> (\<And>e x. J x \<Longrightarrow> J (fst (f e x))) \<Longrightarrow> J (fst (Let s (case_prod f)))"
    by (simp add: split_beta)
  have R7: "\<And>c A B. J A \<Longrightarrow> J B \<Longrightarrow> J (if c then A else B)" by simp
  have R8: "\<And>c A B. J (fst A) \<Longrightarrow> J (fst B) \<Longrightarrow> J (fst (if c then A else B))" by simp
  have R9: "\<And>a b. J a \<Longrightarrow> J (fst (a, b))" by simp
  have W: "\<And>x. J x \<Longrightarrow> J (snd (fbDoesWaterEscape K X x iBody))"
    by (simp add: J_def fbDoesWaterEscape_length fbDoesWaterEscape_dKTide)
  have "J (fst (fnPropsAuxAtmEsc K X body io iBody))"
    unfolding fnPropsAuxAtmEsc_def
    apply (rule T2)
    subgoal by (simp add: I_def)
    apply (rule T2)
    subgoal by (intro I1 I7; simp add: I_def)
    apply (rule R4)
    apply (rule R5)
    subgoal by (simp add: I_def J_def Let_def split_beta n)
    apply (intro R1 R2 R3 R4 R5 R6 R7 R8 R9 W; simp add: J_def n nth_list_update)
    done
  then show ?thesis by (simp add: J_def)
qed

lemma cube_root_powr: "0 < (x::real) \<Longrightarrow> (x ^ 3) powr (1 / 3) = x"
proof -
  assume x: "0 < x"
  then have "x ^ 3 = x powr 3" by simp
  then have "(x ^ 3) powr (1 / 3) = (x powr 3) powr (1 / 3)" by simp
  also have "\<dots> = x powr (3 * (1 / 3))" by (rule powr_powr)
  also have "\<dots> = x" using x by simp
  finally show ?thesis .
qed

lemma xi_example:
  "((dMass planet_example / (3 * dMass star_example)) powr (1 / 3) * dSemi planet_example)
      / (dRadius planet_example * dXFrac planet_example) = 234.375"
proof -
  have "dMass planet_example / (3 * dMass star_example) = (1 / 100) ^ 3"
    by (simp add: planet_example_def star_example_def body_example_def power_divide)
  then have "(dMass planet_example / (3 * dMass star_example)) powr (1 / 3) = 1 / 100"
    using cube_root_powr [of "1 / 100"] by simp
  then show ?thesis
    by (simp add: planet_example_def body_example_def)
qed

text \<open>
  Claim C1 says that for a planet that is not circumbinary \<^verbatim>\<open>fnPropsAuxAtmEsc\<close> sets
  \<^verbatim>\<open>dKTide\<close> to \<open>1 - 3 / (2 \<xi>) + 1 / (2 \<xi>\<^sup>3)\<close> when \<open>\<xi> > 1\<close>. For the example planet around the
  example star \<open>\<xi> = 234.375\<close>, the planet is not circumbinary, and the function leaves
  \<^verbatim>\<open>dKTide = 1\<close>, while the expression of the claim is less than 1.
\<close>

theorem fnPropsAuxAtmEsc_dKTide_overwritten:
  "((dMass planet_example / (3 * dMass star_example)) powr (1 / 3) * dSemi planet_example)
      / (dRadius planet_example * dXFrac planet_example) = 234.375
   \<and> bBinary planet_example = False
   \<and> dKTide (fst (fnPropsAuxAtmEsc K_example X_example [star_example, planet_example] io_example 1) ! 1) = 1
   \<and> 1 - 3 / (2 * 234.375) + 1 / (2 * 234.375 ^ 3) < (1::real)"
proof (intro conjI)
  show "((dMass planet_example / (3 * dMass star_example)) powr (1 / 3) * dSemi planet_example)
      / (dRadius planet_example * dXFrac planet_example) = 234.375"
    by (rule xi_example)
  show "bBinary planet_example = False"
    by (simp add: planet_example_def body_example_def)
  show "dKTide (fst (fnPropsAuxAtmEsc K_example X_example [star_example, planet_example] io_example 1) ! 1) = 1"
    by (rule fnPropsAuxAtmEsc_dKTide) simp
  show "1 - 3 / (2 * 234.375) + 1 / (2 * 234.375 ^ 3) < (1::real)"
    by (simp add: power3_eq_cube)
qed

section \<open>Properties of the stellar module\<close>

lemma Baraffe_hi_nan:
  assumes "snd (fdBaraffe S p a m 3) = STELLAR_ERR_OUTOFBOUNDS_HI
         \<or> snd (fdBaraffe S p a m 3) = STELLAR_ERR_ISNAN"
  shows "p = STELLAR_L \<Longrightarrow> fdLuminosityFunctionBaraffe S a m = Inr None"
    and "p = STELLAR_R \<Longrightarrow> fdRadiusFunctionBaraffe S a m = Inr None"
    and "p = STELLAR_T \<Longrightarrow> fdTemperatureFunctionBaraffe S a m = Inr None"
    and "p = STELLAR_RG \<Longrightarrow> fdRadGyraFunctionBaraffe S a m = Inr None"
  using assms
  by (auto simp add: fdLuminosityFunctionBaraffe_def fdRadiusFunctionBaraffe_def
      fdTemperatureFunctionBaraffe_def fdRadGyraFunctionBaraffe_def split_beta)

lemma Baraffe_lo:
  assumes "snd (fdBaraffe S p a m 3) = STELLAR_ERR_OUTOFBOUNDS_LO"
  shows "p = STELLAR_L \<Longrightarrow> fdLuminosityFunctionBaraffe S a m
           = Inl (''ERROR: Out of bounds (low) in fdBaraffe().'', EXIT_INT)"
    and "p = STELLAR_R \<Longrightarrow> fdRadiusFunctionBaraffe S a m
           = Inl (''ERROR: Out of bounds (low) in fdBaraffe().'', EXIT_INT)"
    and "p = STELLAR_T \<Longrightarrow> fdTemperatureFunctionBaraffe S a m
           = Inl (''ERROR: Out of bounds (low) in fdBaraffe().'', EXIT_INT)"
    and "p = STELLAR_RG \<Longrightarrow> fdRadGyraFunctionBaraffe S a m
           = Inl (''ERROR: Out of bounds (low) in fdBaraffe().'', EXIT_INT)"
  using assms
  by (auto simp add: fdLuminosityFunctionBaraffe_def fdRadiusFunctionBaraffe_def
      fdTemperatureFunctionBaraffe_def fdRadGyraFunctionBaraffe_def split_beta)

lemma stellar_latch:
  assumes "iaBody ! 0 < length body"
    and "iStellarModel (body ! (iaBody ! 0)) = STELLAR_MODEL_BARAFFE"
  shows "fdLuminosityFunctionBaraffe S (dAge (body ! (iaBody ! 0))) (dMass (body ! (iaBody ! 0))) = Inr None
      \<Longrightarrow> fdLuminosity S body iaBody = Inr (dLuminosity (body ! (iaBody ! 0)),
            body[iaBody ! 0 := (body ! (iaBody ! 0))\<lparr>iStellarModel := STELLAR_MODEL_CONST\<rparr>])"
    and "fdRadiusFunctionBaraffe S (dAge (body ! (iaBody ! 0))) (dMass (body ! (iaBody ! 0))) = Inr None
      \<Longrightarrow> fdRadius S body iaBody = Inr (dRadius (body ! (iaBody ! 0)),
            body[iaBody ! 0 := (body ! (iaBody ! 0))\<lparr>iStellarModel := STELLAR_MODEL_CONST\<rparr>])"
    and "fdTemperatureFunctionBaraffe S (dAge (body ! (iaBody ! 0))) (dMass (body ! (iaBody ! 0))) = Inr None
      \<Longrightarrow> fdTemperature S body iaBody = Inr (dTemperature (body ! (iaBody ! 0)),
            body[iaBody ! 0 := (body ! (iaBody ! 0))\<lparr>iStellarModel := STELLAR_MODEL_CONST\<rparr>])"
    and "bEvolveRG (body ! (iaBody ! 0)) \<Longrightarrow>
         fdRadGyraFunctionBaraffe S (dAge (body ! (iaBody ! 0))) (dMass (body ! (iaBody ! 0))) = Inr None
      \<Longrightarrow> fdRadGyra S body iaBody = Inr (dRadGyra (body ! (iaBody ! 0)),
            body[iaBody ! 0 := (body ! (iaBody ! 0))\<lparr>iStellarModel := STELLAR_MODEL_CONST\<rparr>])"
  using assms
  by (simp_all add: fdLuminosity_def fdRadius_def fdTemperature_def fdRadGyra_def Let_def)

lemma stellar_fatal:
  assumes "iStellarModel (body ! (iaBody ! 0)) = STELLAR_MODEL_BARAFFE"
  shows "fdLuminosityFunctionBaraffe S (dAge (body ! (iaBody ! 0))) (dMass (body ! (iaBody ! 0))) = Inl e
      \<Longrightarrow> fdLuminosity S body iaBody = Inl e"
    and "fdRadiusFunctionBaraffe S (dAge (body ! (iaBody ! 0))) (dMass (body ! (iaBody ! 0))) = Inl e
      \<Longrightarrow> fdRadius S body iaBody = Inl e"
    and "fdTemperatureFunctionBaraffe S (dAge (body ! (iaBody ! 0))) (dMass (body ! (iaBody ! 0))) = Inl e
      \<Longrightarrow> fdTemperature S body iaBody = Inl e"
    and "bEvolveRG (body ! (iaBody ! 0)) \<Longrightarrow>
         fdRadGyraFunctionBaraffe S (dAge (body ! (iaBody ! 0))) (dMass (body ! (iaBody ! 0))) = Inl e
      \<Longrightarrow> fdRadGyra S body iaBody = Inl e"
  using assms
  by (simp_all add: fdLuminosity_def fdRadius_def fdTemperature_def fdRadGyra_def Let_def)

lemma stellar_const:
  assumes "iStellarModel (body ! (iaBody ! 0)) = STELLAR_MODEL_CONST"
  shows "fdLuminosity S body iaBody = Inr (dLuminosity (body ! (iaBody ! 0)), body)"
    and "fdRadius S body iaBody = Inr (dRadius (body ! (iaBody ! 0)), body)"
    and "fdTemperature S body iaBody = Inr (dTemperature (body ! (iaBody ! 0)), body)"
    and "fdRadGyra S body iaBody = Inr (dRadGyra (body ! (iaBody ! 0)), body)"
  using assms
  by (simp_all add: fdLuminosity_def fdRadius_def fdTemperature_def fdRadGyra_def Let_def)

text \<open>
  Claim C7 says that a NaN result of the track lookup is a fatal error. With a lookup
  that reports \<^verbatim>\<open>STELLAR_ERR_ISNAN\<close>, \<^verbatim>\<open>fdLuminosity\<close> does not exit: it returns the stored
  luminosity and sets the model of the star to \<^verbatim>\<open>STELLAR_MODEL_CONST\<close>.
\<close>

theorem fdLuminosity_nan_not_fatal:
  "snd (fdBaraffe S_example_nan STELLAR_L (dAge star_example) (dMass star_example) 3)
     = STELLAR_ERR_ISNAN
   \<and> iStellarModel star_example = STELLAR_MODEL_BARAFFE
   \<and> fdLuminosity S_example_nan [star_example, planet_example] [0]
     = Inr (3.846 * 10 ^ 26,
            [star_example\<lparr>iStellarModel := STELLAR_MODEL_CONST\<rparr>, planet_example])"
proof -
  have e: "snd (fdBaraffe S_example_nan STELLAR_L (dAge star_example) (dMass star_example) 3)
     = STELLAR_ERR_ISNAN"
    by (simp add: S_example_nan_def)
  have m: "iStellarModel star_example = STELLAR_MODEL_BARAFFE"
    by (simp add: star_example_def)
  have "fdLuminosityFunctionBaraffe S_example_nan (dAge star_example) (dMass star_example)
      = Inr None"
    by (rule Baraffe_hi_nan(1) [where p = STELLAR_L]) (simp_all add: e)
  then have "fdLuminosity S_example_nan [star_example, planet_example] [0]
      = Inr (dLuminosity star_example,
             [star_example\<lparr>iStellarModel := STELLAR_MODEL_CONST\<rparr>, planet_example])"
    using stellar_latch(1) [of "[0]" "[star_example, planet_example]" S_example_nan] m by simp
  moreover have "dLuminosity star_example = 3.846 * 10 ^ 26"
    by (simp add: star_example_def)
  ultimately show ?thesis using e m by simp
qed

text \<open>
  Claim C7, amended. For a star on the tabulated track (\<^verbatim>\<open>STELLAR_MODEL_BARAFFE\<close>):
  when the lookup reports out of bounds (high) or NaN, \<^verbatim>\<open>fdLuminosity\<close> returns the stored
  luminosity and sets the model to \<^verbatim>\<open>STELLAR_MODEL_CONST\<close>, and likewise \<^verbatim>\<open>fdRadius\<close>,
  \<^verbatim>\<open>fdTemperature\<close> and, when \<^verbatim>\<open>bEvolveRG\<close> is set, \<^verbatim>\<open>fdRadGyra\<close> (when it is not set,
  \<^verbatim>\<open>fdRadGyra\<close> returns the stored value without a lookup and changes nothing); on the array
  so latched every one of the four functions returns the stored value and changes nothing,
  whatever the lookup would report; when the lookup reports out of bounds (low) each
  function (\<^verbatim>\<open>fdRadGyra\<close> when \<^verbatim>\<open>bEvolveRG\<close> is set) exits with status \<^verbatim>\<open>EXIT_INT\<close> after the
  message \<^verbatim>\<open>ERROR: Out of bounds (low) in fdBaraffe().\<close>
\<close>

theorem stellar_track_latch_or_exit:
  assumes i: "iaBody ! 0 = i" "i < length body"
    and m: "iStellarModel (body ! i) = STELLAR_MODEL_BARAFFE"
  shows
    "let b = body ! i;
         latched = body[i := b\<lparr>iStellarModel := STELLAR_MODEL_CONST\<rparr>];
         err = (\<lambda>p. snd (fdBaraffe S p (dAge b) (dMass b) 3));
         high_or_nan = (\<lambda>p. err p = STELLAR_ERR_OUTOFBOUNDS_HI \<or> err p = STELLAR_ERR_ISNAN);
         low = (\<lambda>p. err p = STELLAR_ERR_OUTOFBOUNDS_LO);
         exit = Inl (''ERROR: Out of bounds (low) in fdBaraffe().'', EXIT_INT)
     in (high_or_nan STELLAR_L \<longrightarrow> fdLuminosity S body iaBody = Inr (dLuminosity b, latched))
      \<and> (high_or_nan STELLAR_R \<longrightarrow> fdRadius S body iaBody = Inr (dRadius b, latched))
      \<and> (high_or_nan STELLAR_T \<longrightarrow> fdTemperature S body iaBody = Inr (dTemperature b, latched))
      \<and> (bEvolveRG b \<and> high_or_nan STELLAR_RG \<longrightarrow>
            fdRadGyra S body iaBody = Inr (dRadGyra b, latched))
      \<and> (\<not> bEvolveRG b \<longrightarrow> fdRadGyra S body iaBody = Inr (dRadGyra b, body))
      \<and> fdLuminosity S' latched iaBody = Inr (dLuminosity b, latched)
      \<and> fdRadius S' latched iaBody = Inr (dRadius b, latched)
      \<and> fdTemperature S' latched iaBody = Inr (dTemperature b, latched)
      \<and> fdRadGyra S' latched iaBody = Inr (dRadGyra b, latched)
      \<and> (low STELLAR_L \<longrightarrow> fdLuminosity S body iaBody = exit)
      \<and> (low STELLAR_R \<longrightarrow> fdRadius S body iaBody = exit)
      \<and> (low STELLAR_T \<longrightarrow> fdTemperature S body iaBody = exit)
      \<and> (bEvolveRG b \<and> low STELLAR_RG \<longrightarrow> fdRadGyra S body iaBody = exit)"
proof -
  define b where "b = body ! i"
  define latched where "latched = body[i := b\<lparr>iStellarModel := STELLAR_MODEL_CONST\<rparr>]"
  have i': "iaBody ! 0 < length body" and m': "iStellarModel (body ! (iaBody ! 0)) = STELLAR_MODEL_BARAFFE"
    using i m by simp_all
  have rg': "bEvolveRG (body ! (iaBody ! 0))" if "bEvolveRG b"
    using that i by (simp add: b_def)
  have lb: "latched ! (iaBody ! 0) = b\<lparr>iStellarModel := STELLAR_MODEL_CONST\<rparr>"
    using i by (simp add: latched_def)
  then have c: "iStellarModel (latched ! (iaBody ! 0)) = STELLAR_MODEL_CONST" by simp
  have h1: "fdLuminosity S body iaBody = Inr (dLuminosity b, latched)"
    if "snd (fdBaraffe S STELLAR_L (dAge b) (dMass b) 3) = STELLAR_ERR_OUTOFBOUNDS_HI
      \<or> snd (fdBaraffe S STELLAR_L (dAge b) (dMass b) 3) = STELLAR_ERR_ISNAN"
    using stellar_latch(1) [OF i' m', of S] Baraffe_hi_nan(1) [OF that] i
    by (simp add: b_def latched_def)
  have h2: "fdRadius S body iaBody = Inr (dRadius b, latched)"
    if "snd (fdBaraffe S STELLAR_R (dAge b) (dMass b) 3) = STELLAR_ERR_OUTOFBOUNDS_HI
      \<or> snd (fdBaraffe S STELLAR_R (dAge b) (dMass b) 3) = STELLAR_ERR_ISNAN"
    using stellar_latch(2) [OF i' m', of S] Baraffe_hi_nan(2) [OF that] i
    by (simp add: b_def latched_def)
  have h3: "fdTemperature S body iaBody = Inr (dTemperature b, latched)"
    if "snd (fdBaraffe S STELLAR_T (dAge b) (dMass b) 3) = STELLAR_ERR_OUTOFBOUNDS_HI
      \<or> snd (fdBaraffe S STELLAR_T (dAge b) (dMass b) 3) = STELLAR_ERR_ISNAN"
    using stellar_latch(3) [OF i' m', of S] Baraffe_hi_nan(3) [OF that] i
    by (simp add: b_def latched_def)
  have h4: "fdRadGyra S body iaBody = Inr (dRadGyra b, latched)"
    if "bEvolveRG b" "snd (fdBaraffe S STELLAR_RG (dAge b) (dMass b) 3) = STELLAR_ERR_OUTOFBOUNDS_HI
      \<or> snd (fdBaraffe S STELLAR_RG (dAge b) (dMass b) 3) = STELLAR_ERR_ISNAN"
    using stellar_latch(4) [OF i' m' rg' [OF that(1)], of S] Baraffe_hi_nan(4) [OF that(2)] i
    by (simp add: b_def latched_def)
  have h5: "fdRadGyra S body iaBody = Inr (dRadGyra b, body)" if "\<not> bEvolveRG b"
    using that i by (simp add: fdRadGyra_def Let_def b_def)
  have c1: "fdLuminosity S' latched iaBody = Inr (dLuminosity b, latched)"
    using stellar_const(1) [OF c, of S'] lb by simp
  have c2: "fdRadius S' latched iaBody = Inr (dRadius b, latched)"
    using stellar_const(2) [OF c, of S'] lb by simp
  have c3: "fdTemperature S' latched iaBody = Inr (dTemperature b, latched)"
    using stellar_const(3) [OF c, of S'] lb by simp
  have c4: "fdRadGyra S' latched iaBody = Inr (dRadGyra b, latched)"
    using stellar_const(4) [OF c, of S'] lb by simp
  have l1: "fdLuminosity S body iaBody = Inl (''ERROR: Out of bounds (low) in fdBaraffe().'', EXIT_INT)"
    if "snd (fdBaraffe S STELLAR_L (dAge b) (dMass b) 3) = STELLAR_ERR_OUTOFBOUNDS_LO"
    using stellar_fatal(1) [OF m', of S] Baraffe_lo(1) [OF that] i by (simp add: b_def)
  have l2: "fdRadius S body iaBody = Inl (''ERROR: Out of bounds (low) in fdBaraffe().'', EXIT_INT)"
    if "snd (fdBaraffe S STELLAR_R (dAge b) (dMass b) 3) = STELLAR_ERR_OUTOFBOUNDS_LO"
    using stellar_fatal(2) [OF m', of S] Baraffe_lo(2) [OF that] i by (simp add: b_def)
  have l3: "fdTemperature S body iaBody = Inl (''ERROR: Out of bounds (low) in fdBaraffe().'', EXIT_INT)"
    if "snd (fdBaraffe S STELLAR_T (dAge b) (dMass b) 3) = STELLAR_ERR_OUTOFBOUNDS_LO"
    using stellar_fatal(3) [OF m', of S] Baraffe_lo(3) [OF that] i by (simp add: b_def)
  have l4: "fdRadGyra S body iaBody = Inl (''ERROR: Out of bounds (low) in fdBaraffe().'', EXIT_INT)"
    if "bEvolveRG b" "snd (fdBaraffe S STELLAR_RG (dAge b) (dMass b) 3) = STELLAR_ERR_OUTOFBOUNDS_LO"
    using stellar_fatal(4) [OF m' rg' [OF that(1)], of S] Baraffe_lo(4) [OF that(2)] i
    by (simp add: b_def)
  show ?thesis
    unfolding Let_def b_def [symmetric] latched_def [symmetric]
    using h1 h2 h3 h4 h5 c1 c2 c3 c4 l1 l2 l3 l4 by blast
qed

theorem stellar_track_latch_or_exit_witness:
  "iStellarModel ([star_example, planet_example] ! 0) = STELLAR_MODEL_BARAFFE
   \<and> bEvolveRG ([star_example, planet_example] ! 0)
   \<and> \<not> bEvolveRG ([star_example\<lparr>bEvolveRG := False\<rparr>, planet_example] ! 0)
   \<and> fdLuminosity S_example_hi [star_example, planet_example] [0]
       = Inr (3.846 * 10 ^ 26, [star_example\<lparr>iStellarModel := STELLAR_MODEL_CONST\<rparr>, planet_example])
   \<and> fdRadGyra S_example_hi [star_example, planet_example] [0]
       = Inr (0.27, [star_example\<lparr>iStellarModel := STELLAR_MODEL_CONST\<rparr>, planet_example])
   \<and> fdLuminosity S_example_hi [star_example\<lparr>bEvolveRG := False\<rparr>, planet_example] [0]
       = Inr (3.846 * 10 ^ 26,
              [star_example\<lparr>bEvolveRG := False, iStellarModel := STELLAR_MODEL_CONST\<rparr>, planet_example])
   \<and> fdRadGyra S_example_hi [star_example\<lparr>bEvolveRG := False\<rparr>, planet_example] [0]
       = Inr (0.27, [star_example\<lparr>bEvolveRG := False\<rparr>, planet_example])
   \<and> fdRadius S_example_lo [star_example\<lparr>iStellarModel := STELLAR_MODEL_CONST\<rparr>, planet_example] [0]
       = Inr (7 * 10 ^ 8, [star_example\<lparr>iStellarModel := STELLAR_MODEL_CONST\<rparr>, planet_example])
   \<and> fdLuminosity S_example_lo [star_example, planet_example] [0]
       = Inl (''ERROR: Out of bounds (low) in fdBaraffe().'', EXIT_INT)
   \<and> fdTemperature S_example_lo [star_example, planet_example] [0]
       = Inl (''ERROR: Out of bounds (low) in fdBaraffe().'', EXIT_INT)
   \<and> fdRadGyra S_example_lo [star_example, planet_example] [0]
       = Inl (''ERROR: Out of bounds (low) in fdBaraffe().'', EXIT_INT)"
proof -
  let ?body = "[star_example, planet_example]"
  let ?body' = "[star_example\<lparr>bEvolveRG := False\<rparr>, planet_example]"
  have i: "[0] ! 0 = (0::nat)" "0 < length ?body" by simp_all
  have i': "[0] ! 0 = (0::nat)" "0 < length ?body'" by simp_all
  have m: "iStellarModel (?body ! 0) = STELLAR_MODEL_BARAFFE"
    "iStellarModel (?body' ! 0) = STELLAR_MODEL_BARAFFE"
    by (simp_all add: star_example_def)
  have rg: "bEvolveRG (?body ! 0)" "\<not> bEvolveRG (?body' ! 0)"
    by (simp_all add: star_example_def)
  have v: "dLuminosity star_example = 3.846 * 10 ^ 26" "dRadGyra star_example = 0.27"
     "dRadius (star_example\<lparr>iStellarModel := STELLAR_MODEL_CONST\<rparr>) = 7 * 10 ^ 8"
     "dRadius star_example = 7 * 10 ^ 8"
    by (simp_all add: star_example_def)
  have hi: "\<And>p a m. snd (fdBaraffe S_example_hi p a m 3) = STELLAR_ERR_OUTOFBOUNDS_HI"
    by (simp add: S_example_hi_def)
  have lo: "\<And>p a m. snd (fdBaraffe S_example_lo p a m 3) = STELLAR_ERR_OUTOFBOUNDS_LO"
    by (simp add: S_example_lo_def)
  note a = stellar_track_latch_or_exit [OF i m(1), of S_example_hi S_example_lo, unfolded Let_def]
  note b = stellar_track_latch_or_exit [OF i m(1), of S_example_lo S_example_lo, unfolded Let_def]
  note c = stellar_track_latch_or_exit [OF i' m(2), of S_example_hi S_example_lo, unfolded Let_def]
  show ?thesis using a b c m rg by (simp add: hi lo v)
qed

section \<open>Properties of the integrator\<close>

lemma rewritten_refl: "rewritten u u"
  by (simp add: rewritten_def same_meta_def)

lemma rewritten_trans: "rewritten u u' \<Longrightarrow> rewritten u' u'' \<Longrightarrow> rewritten u u''"
  by (simp add: rewritten_def same_meta_def)

lemma rewritten_set: "rewritten u (set_daDerivProc u iBody iVar iEqn x)"
  by (cases "iBody < length u")
     (auto simp add: rewritten_def same_meta_def set_daDerivProc_def nth_list_update list_update_beyond)

lemma rewritten_nth:
  "rewritten u u' \<Longrightarrow> iNumVars (u' ! j) = iNumVars (u ! j) \<and> iNumEqns (u' ! j) = iNumEqns (u ! j)
     \<and> iaType (u' ! j) = iaType (u ! j) \<and> pdVar (u' ! j) = pdVar (u ! j)
     \<and> iXobl (u' ! j) = iXobl (u ! j) \<and> iYobl (u' ! j) = iYobl (u ! j) \<and> iZobl (u' ! j) = iZobl (u ! j)
     \<and> iHecc (u' ! j) = iHecc (u ! j) \<and> iKecc (u' ! j) = iKecc (u ! j) \<and> length u' = length u"
  by (simp add: rewritten_def same_meta_def)

lemma scratch_set:
  "scratch (set_daDerivProc u iBody iVar iEqn x) i v e
     = (if i = iBody \<and> v = iVar \<and> e = iEqn \<and> iBody < length u then x else scratch u i v e)"
  by (cases "iBody < length u")
     (auto simp add: scratch_def set_daDerivProc_def nth_list_update list_update_beyond)

lemma kept_refl: "kept c c" by (simp add: kept_def)

lemma kept_first: "kept c c' \<Longrightarrow> kept c (c'\<lparr>Evolve := (Evolve c')\<lparr>bFirstStep := False\<rparr>\<rparr>)"
  by (auto simp add: kept_def)

lemma kept_fields:
  "kept c c' \<Longrightarrow> bSpiNBodyDistOrb (Evolve c') = bSpiNBodyDistOrb (Evolve c)
     \<and> bUsingSpiNBody (Evolve c') = bUsingSpiNBody (Evolve c)
     \<and> iNumBodies (Evolve c') = iNumBodies (Evolve c)
     \<and> bVarDt (Evolve c') = bVarDt (Evolve c) \<and> dTime (Evolve c') = dTime (Evolve c)
     \<and> dEta (Evolve c') = dEta (Evolve c) \<and> dTimeStep (Evolve c') = dTimeStep (Evolve c)
     \<and> EVOLVE.daDeriv (Evolve c') = EVOLVE.daDeriv (Evolve c)
     \<and> Io c' = Io c \<and> Halt c' = Halt c"
  by (auto simp add: kept_def)

text \<open>
  One call of a contributor: the tables of the update array stay, one scratch entry is
  written, and the length of the body array stays if the contributor keeps it.
\<close>

lemma call_fnUpdate_Inr:
  assumes "call_fnUpdate fnUpdate iBody iVar iEqn (u, b) = Inr (u', b')"
  shows "\<exists>x. fnUpdate iBody iVar iEqn b = Inr (x, b') \<and> u' = set_daDerivProc u iBody iVar iEqn x"
  using assms by (auto simp add: call_fnUpdate_def split: sum.splits)

lemma call_fnUpdate_effect:
  assumes c: "call_fnUpdate fnUpdate iBody iVar iEqn (u, b) = Inr (u', b')"
  shows "rewritten u u'"
    and "\<And>i v e. (i, v) \<noteq> (iBody, iVar) \<Longrightarrow> scratch u' i v e = scratch u i v e"
    and "keeps_length fnUpdate \<Longrightarrow> length b' = length b"
proof -
  obtain x where x: "fnUpdate iBody iVar iEqn b = Inr (x, b')"
    "u' = set_daDerivProc u iBody iVar iEqn x"
    using call_fnUpdate_Inr [OF c] by blast
  show "rewritten u u'" by (simp add: x(2) rewritten_set)
  show "scratch u' i v e = scratch u i v e" if "(i, v) \<noteq> (iBody, iVar)" for i v e
    using that by (auto simp add: x(2) scratch_set)
  show "length b' = length b" if "keeps_length fnUpdate"
    using that x(1) by (auto simp add: keeps_length_def)
qed

lemma call_fnUpdate_returns:
  "never_exits fnUpdate \<Longrightarrow> \<exists>s'. call_fnUpdate fnUpdate iBody iVar iEqn s = Inr s'"
proof -
  assume n: "never_exits fnUpdate"
  obtain u b where s: "s = (u, b)" by (cases s)
  obtain x b' where "fnUpdate iBody iVar iEqn b = Inr (x, b')"
    using n by (auto simp add: never_exits_def) blast
  then show ?thesis by (simp add: s call_fnUpdate_def)
qed

text \<open>The loop over the equations of a variable that calls the contributors.\<close>

lemma eval_loop_effect:
  assumes c: "for_loop (call_fnUpdate fnUpdate iBody iVar) xs (u, b) = Inr (u', b')"
  shows "rewritten u u'"
    and "\<And>i v e. (i, v) \<noteq> (iBody, iVar) \<Longrightarrow> scratch u' i v e = scratch u i v e"
    and "keeps_length fnUpdate \<Longrightarrow> length b' = length b"
proof -
  define P where "P = (\<lambda>s::UPDATE list \<times> BODY list. rewritten u (fst s)
      \<and> (\<forall>i v e. (i, v) \<noteq> (iBody, iVar) \<longrightarrow> scratch (fst s) i v e = scratch u i v e)
      \<and> (keeps_length fnUpdate \<longrightarrow> length (snd s) = length b))"
  have "P (u', b')"
  proof (rule for_loop_invariant [OF c, where P = P])
    show "P (u, b)" by (simp add: P_def rewritten_refl)
  next
    fix x s s'
    assume p: "P s" and s: "call_fnUpdate fnUpdate iBody iVar x s = Inr s'"
    obtain u1 b1 u2 b2 where e: "s = (u1, b1)" "s' = (u2, b2)" by (cases s; cases s')
    note f = call_fnUpdate_effect [OF s [unfolded e]]
    show "P s'"
      using p f(1) f(2) f(3) rewritten_trans [of u u1 u2]
      by (simp add: P_def e)
  qed
  then show "rewritten u u'"
    and "\<And>i v e. (i, v) \<noteq> (iBody, iVar) \<Longrightarrow> scratch u' i v e = scratch u i v e"
    and "keeps_length fnUpdate \<Longrightarrow> length b' = length b"
    by (simp_all add: P_def)
qed

lemma eval_loop_returns:
  "never_exits fnUpdate \<Longrightarrow> \<exists>s'. for_loop (call_fnUpdate fnUpdate iBody iVar) xs s = Inr s'"
  by (rule for_loop_returns) (rule call_fnUpdate_returns)

text \<open>The evaluation of all contributors.\<close>

lemma fdGetUpdateInfo_effect:
  assumes c: "fdGetUpdateInfo fnUpdate b control u = Inr (u', b')"
  shows "rewritten u u'" and "keeps_length fnUpdate \<Longrightarrow> length b' = length b"
proof -
  define P where "P = (\<lambda>s::UPDATE list \<times> BODY list. rewritten u (fst s)
      \<and> (keeps_length fnUpdate \<longrightarrow> length (snd s) = length b))"
  have eqn: "P s'" if "P s" "for_loop (call_fnUpdate fnUpdate iBody iVar) xs s = Inr s'"
    for s s' iBody iVar xs
  proof -
    obtain u1 b1 u2 b2 where e: "s = (u1, b1)" "s' = (u2, b2)" by (cases s; cases s')
    note f = eval_loop_effect [OF that(2) [unfolded e]]
    show ?thesis using that(1) f(1) f(3) rewritten_trans [of u u1 u2] by (simp add: P_def e)
  qed
  have var: "P s'"
    if p: "P s" and l: "for_loop (\<lambda>iVar (update, body).
                               let iNumEqns' = iNumEqns (update ! iBody) ! iVar
                               in for_loop (call_fnUpdate fnUpdate iBody iVar)
                                    [0..<iNumEqns'] (update, body)) xs s = Inr s'"
    for s s' iBody xs
  proof (rule for_loop_invariant [OF l, where P = P], goal_cases)
    case 1
    show ?case by (rule p)
  next
    case (2 x t t')
    obtain u1 b1 where e: "t = (u1, b1)" by (cases t)
    from 2(3) have "for_loop (call_fnUpdate fnUpdate iBody x) [0..<iNumEqns (u1 ! iBody) ! x] t = Inr t'"
      by (simp add: e Let_def)
    then show ?case by (rule eqn [OF 2(2)])
  qed
  have "P (u', b')"
  proof (rule for_loop_invariant [OF c [unfolded fdGetUpdateInfo_def Let_def], where P = P], goal_cases)
    case 1
    show ?case by (simp add: P_def rewritten_refl)
  next
    case (2 x t t')
    obtain u1 b1 where e: "t = (u1, b1)" by (cases t)
    show ?case
    proof (cases "0 < iNumVars (u1 ! x)")
      case True
      from 2(3) have "for_loop (\<lambda>iVar (update, body).
                               let iNumEqns' = iNumEqns (update ! x) ! iVar
                               in for_loop (call_fnUpdate fnUpdate x iVar)
                                    [0..<iNumEqns'] (update, body)) [0..<iNumVars (u1 ! x)] t = Inr t'"
        by (simp add: e True Let_def)
      then show ?thesis by (rule var [OF 2(2)])
    next
      case False
      then have "t' = t" using 2(3) by (simp add: e)
      then show ?thesis using 2(2) by simp
    qed
  qed
  then show "rewritten u u'" and "keeps_length fnUpdate \<Longrightarrow> length b' = length b"
    by (simp_all add: P_def)
qed

lemma fdGetUpdateInfo_returns:
  assumes n: "never_exits fnUpdate"
  shows "\<exists>r. fdGetUpdateInfo fnUpdate b control u = Inr r"
proof -
  have v: "\<exists>s'. for_loop (\<lambda>iVar (update, body).
                               for_loop (call_fnUpdate fnUpdate iBody iVar)
                                    [0..<iNumEqns (update ! iBody) ! iVar] (update, body)) xs s = Inr s'"
    for iBody xs s
  proof (rule for_loop_returns)
    fix x and t :: "UPDATE list \<times> BODY list"
    obtain u1 b1 where e: "t = (u1, b1)" by (cases t)
    show "\<exists>s'. (case t of (update, body) \<Rightarrow>
                 for_loop (call_fnUpdate fnUpdate iBody x)
                   [0..<iNumEqns (update ! iBody) ! x] (update, body)) = Inr s'"
      unfolding e split_conv by (rule eval_loop_returns [OF n])
  qed
  show ?thesis
    unfolding fdGetUpdateInfo_def Let_def
  proof (rule for_loop_returns)
    fix x and t :: "UPDATE list \<times> BODY list"
    obtain u1 b1 where e: "t = (u1, b1)" by (cases t)
    show "\<exists>s'. (case t of (update, body) \<Rightarrow>
                 if 0 < iNumVars (update ! x)
                 then for_loop (\<lambda>iVar (update, body).
                               for_loop (call_fnUpdate fnUpdate x iVar)
                                    [0..<iNumEqns (update ! x) ! iVar] (update, body))
                        [0..<iNumVars (update ! x)] (update, body)
                 else Inr (update, body)) = Inr s'"
      unfolding e split_conv using v by simp
  qed
qed

text \<open>One equation of a variable of the last branch of the timestep selector.\<close>

lemma fdGetTimeStep_iEqn_Inr:
  assumes "fdGetTimeStep_iEqn K E fnUpdate pointee iBody iVar iEqn (d, u, c, b) = Inr (d', u', c', b')"
  shows "c' = c \<and> ((u', b') = (u, b) \<or> call_fnUpdate fnUpdate iBody iVar iEqn (u, b) = Inr (u', b'))"
  using assms
  by (auto simp add: fdGetTimeStep_iEqn_def Let_def split: if_splits sum.splits)

lemma fdGetTimeStep_iEqn_returns:
  assumes n: "never_exits fnUpdate"
  shows "\<exists>s'. fdGetTimeStep_iEqn K E fnUpdate pointee iBody iVar iEqn s = Inr s'"
proof -
  obtain d u c b where s: "s = (d, u, c, b)" by (cases s)
  obtain u1 b1 where "call_fnUpdate fnUpdate iBody iVar iEqn (u, b) = Inr (u1, b1)"
    using call_fnUpdate_returns [OF n, of iBody iVar iEqn "(u, b)"] by auto
  then show ?thesis by (simp add: s fdGetTimeStep_iEqn_def Let_def)
qed

text \<open>
  What a round of the loops of the selector does to the update array and the body array:
  the tables stay, the scratch entries of the other variables stay, and the length of the
  body array stays if the contributors keep it.
\<close>

lemma fdGetTimeStep_iEqn_effect:
  assumes c: "fdGetTimeStep_iEqn K E fnUpdate pointee iBody iVar iEqn (d, u, c, b) = Inr (d', u', c', b')"
  shows "c' = c" and "rewritten u u'"
    and "\<And>i v e. (i, v) \<noteq> (iBody, iVar) \<Longrightarrow> scratch u' i v e = scratch u i v e"
    and "keeps_length fnUpdate \<Longrightarrow> length b' = length b"
proof -
  note s = fdGetTimeStep_iEqn_Inr [OF c]
  show "c' = c" using s by simp
  from s consider (same) "(u', b') = (u, b)"
    | (call) "call_fnUpdate fnUpdate iBody iVar iEqn (u, b) = Inr (u', b')" by blast
  then have "rewritten u u' \<and> (\<forall>i v e. (i, v) \<noteq> (iBody, iVar) \<longrightarrow> scratch u' i v e = scratch u i v e)
      \<and> (keeps_length fnUpdate \<longrightarrow> length b' = length b)"
  proof cases
    case same
    then show ?thesis by (simp add: rewritten_refl)
  next
    case call
    show ?thesis using call_fnUpdate_effect [OF call] by blast
  qed
  then show "rewritten u u'"
    and "\<And>i v e. (i, v) \<noteq> (iBody, iVar) \<Longrightarrow> scratch u' i v e = scratch u i v e"
    and "keeps_length fnUpdate \<Longrightarrow> length b' = length b"
    by blast+
qed

lemma fdGetTimeStep_iEqn_loop:
  assumes c: "for_loop (fdGetTimeStep_iEqn K E fnUpdate pointee iBody iVar) xs (d, u, c, b)
                = Inr (d', u', c', b')"
  shows "c' = c" and "rewritten u u'"
    and "\<And>i v e. (i, v) \<noteq> (iBody, iVar) \<Longrightarrow> scratch u' i v e = scratch u i v e"
    and "keeps_length fnUpdate \<Longrightarrow> length b' = length b"
proof -
  define P where "P = (\<lambda>s::real \<times> UPDATE list \<times> CONTROL \<times> BODY list.
      fst (snd (snd s)) = c \<and> rewritten u (fst (snd s))
      \<and> (\<forall>i v e. (i, v) \<noteq> (iBody, iVar) \<longrightarrow> scratch (fst (snd s)) i v e = scratch u i v e)
      \<and> (keeps_length fnUpdate \<longrightarrow> length (snd (snd (snd s))) = length b))"
  have "P (d', u', c', b')"
  proof (rule for_loop_invariant [OF c, where P = P], goal_cases)
    case 1
    show ?case by (simp add: P_def rewritten_refl)
  next
    case (2 x t t')
    obtain d1 u1 c1 b1 d2 u2 c2 b2 where e: "t = (d1, u1, c1, b1)" "t' = (d2, u2, c2, b2)"
      by (cases t; cases t')
    note f = fdGetTimeStep_iEqn_effect [OF 2(3) [unfolded e]]
    show ?case
      using 2(2) f(1) f(2) f(3) f(4) rewritten_trans [of u u1 u2]
      by (simp add: P_def e)
  qed
  then show "c' = c" and "rewritten u u'"
    and "\<And>i v e. (i, v) \<noteq> (iBody, iVar) \<Longrightarrow> scratch u' i v e = scratch u i v e"
    and "keeps_length fnUpdate \<Longrightarrow> length b' = length b"
    by (simp_all add: P_def)
qed

text \<open>One variable in the timestep selector.\<close>

lemma fdGetTimeStep_iVar_Inr:
  assumes "fdGetTimeStep_iVar K E fnUpdate integr pointee iBody iVar (d, u, c, b) = Inr (d', u', c', b')"
  shows "kept c c'
       \<and> (if iaType (u ! iBody) ! iVar ! 0 = 10 then u' = u \<and> b' = b
          else for_loop (call_fnUpdate fnUpdate iBody iVar)
                 [0..<iNumEqns (u ! iBody) ! iVar] (u, b) = Inr (u', b')
             \<or> for_loop (fdGetTimeStep_iEqn K E fnUpdate pointee iBody iVar)
                 [0..<iNumEqns (u ! iBody) ! iVar] (d, u, c, b) = Inr (d', u', c', b'))"
  using assms
  by (auto simp add: fdGetTimeStep_iVar_def Let_def kept_def split: if_splits sum.splits
      dest: fdGetTimeStep_iEqn_loop(1))

lemma fdGetTimeStep_iVar_effect:
  assumes c: "fdGetTimeStep_iVar K E fnUpdate integr pointee iBody iVar (d, u, c, b)
                = Inr (d', u', c', b')"
  shows "kept c c'" and "rewritten u u'"
    and "\<And>i v e. (i, v) \<noteq> (iBody, iVar) \<Longrightarrow> scratch u' i v e = scratch u i v e"
    and "keeps_length fnUpdate \<Longrightarrow> length b' = length b"
    and "iaType (u ! iBody) ! iVar ! 0 = 10 \<Longrightarrow> u' = u"
proof -
  note s = fdGetTimeStep_iVar_Inr [OF c]
  show "kept c c'" using s by simp
  show "u' = u" if "iaType (u ! iBody) ! iVar ! 0 = 10" using s that by simp
  from s consider (same) "u' = u" "b' = b"
    | (eval) "for_loop (call_fnUpdate fnUpdate iBody iVar)
                 [0..<iNumEqns (u ! iBody) ! iVar] (u, b) = Inr (u', b')"
    | (eqns) "for_loop (fdGetTimeStep_iEqn K E fnUpdate pointee iBody iVar)
                 [0..<iNumEqns (u ! iBody) ! iVar] (d, u, c, b) = Inr (d', u', c', b')"
    by (auto split: if_splits)
  then have "rewritten u u' \<and> (\<forall>i v e. (i, v) \<noteq> (iBody, iVar) \<longrightarrow> scratch u' i v e = scratch u i v e)
      \<and> (keeps_length fnUpdate \<longrightarrow> length b' = length b)"
  proof cases
    case same
    then show ?thesis by (simp add: rewritten_refl)
  next
    case eval
    show ?thesis using eval_loop_effect [OF eval] by blast
  next
    case eqns
    show ?thesis using fdGetTimeStep_iEqn_loop(2,3,4) [OF eqns] by blast
  qed
  then show "rewritten u u'"
    and "\<And>i v e. (i, v) \<noteq> (iBody, iVar) \<Longrightarrow> scratch u' i v e = scratch u i v e"
    and "keeps_length fnUpdate \<Longrightarrow> length b' = length b"
    by blast+
qed

lemma fdGetTimeStep_iVar_returns:
  assumes n: "never_exits fnUpdate"
  shows "\<exists>s'. fdGetTimeStep_iVar K E fnUpdate integr pointee iBody iVar s = Inr s'"
proof -
  obtain d u c b where s: "s = (d, u, c, b)" by (cases s)
  obtain u1 b1 where e: "for_loop (call_fnUpdate fnUpdate iBody iVar)
                 [0..<iNumEqns (u ! iBody) ! iVar] (u, b) = Inr (u1, b1)"
    using eval_loop_returns [OF n, of iBody iVar "[0..<iNumEqns (u ! iBody) ! iVar]" "(u, b)"]
    by auto
  obtain r where q: "for_loop (fdGetTimeStep_iEqn K E fnUpdate pointee iBody iVar)
                 [0..<iNumEqns (u ! iBody) ! iVar] (d, u, c, b) = Inr r"
    using for_loop_returns [of "[0..<iNumEqns (u ! iBody) ! iVar]"
        "fdGetTimeStep_iEqn K E fnUpdate pointee iBody iVar" "(d, u, c, b)"]
      fdGetTimeStep_iEqn_returns [OF n] by blast
  show ?thesis by (cases r) (simp add: s fdGetTimeStep_iVar_def Let_def e q)
qed

lemma kept_trans: "kept c c' \<Longrightarrow> kept c' c'' \<Longrightarrow> kept c c''"
  by (auto simp add: kept_def)

text \<open>
  The timestep selector as a whole: the tables of the update array stay, \<^verbatim>\<open>control\<close> stays
  up to \<^verbatim>\<open>bFirstStep\<close>, and the scratch entries of the variables of kind 10 stay.
\<close>

lemma fdGetTimeStep_effect:
  assumes c: "fdGetTimeStep K E fnUpdate body pointee control u = Inr (d', u', c', b')"
  shows "rewritten u u'" and "kept control c'"
    and "keeps_length fnUpdate \<Longrightarrow> length b' = length body"
    and "\<And>i v e. iaType (u ! i) ! v ! 0 = 10 \<Longrightarrow> scratch u' i v e = scratch u i v e"
proof -
  define Q where "Q = (\<lambda>s::real \<times> UPDATE list \<times> CONTROL \<times> BODY list.
      rewritten u (fst (snd s)) \<and> kept control (fst (snd (snd s)))
      \<and> (keeps_length fnUpdate \<longrightarrow> length (snd (snd (snd s))) = length body)
      \<and> (\<forall>i v e. iaType (u ! i) ! v ! 0 = 10 \<longrightarrow> scratch (fst (snd s)) i v e = scratch u i v e))"
  have var: "Q t'"
    if q: "Q t" and l: "fdGetTimeStep_iVar K E fnUpdate integr pointee iBody x t = Inr t'"
    for t t' integr iBody x
  proof -
    obtain d1 u1 c1 b1 d2 u2 c2 b2 where e: "t = (d1, u1, c1, b1)" "t' = (d2, u2, c2, b2)"
      by (cases t; cases t')
    note f = fdGetTimeStep_iVar_effect [OF l [unfolded e]]
    have r1: "rewritten u u1" using q by (simp add: Q_def e)
    have "scratch u2 i v n = scratch u i v n" if k: "iaType (u ! i) ! v ! 0 = 10" for i v n
    proof (cases "(i, v) = (iBody, x)")
      case True
      then have "iaType (u1 ! iBody) ! x ! 0 = 10" using k rewritten_nth [OF r1, of iBody] by simp
      then have "u2 = u1" by (rule f(5))
      then show ?thesis using q k by (simp add: Q_def e)
    next
      case False
      then show ?thesis using f(3) [of i v n] q k by (simp add: Q_def e)
    qed
    then show ?thesis
      using q f(1) f(2) f(4) rewritten_trans [of u u1 u2] kept_trans [of control c1 c2]
      by (simp add: Q_def e)
  qed
  have vars: "Q t'"
    if q: "Q t" and l: "for_loop (fdGetTimeStep_iVar K E fnUpdate integr pointee iBody) xs t = Inr t'"
    for t t' integr iBody xs
    by (rule for_loop_invariant [OF l, where P = Q], rule q) (rule var)
  have "Q (d', u', c', b')"
  proof (rule for_loop_invariant [OF c [unfolded fdGetTimeStep_def Let_def], where P = Q], goal_cases)
    case 1
    show ?case by (simp add: Q_def rewritten_refl kept_refl)
  next
    case (2 x t t')
    obtain d1 u1 c1 b1 where e: "t = (d1, u1, c1, b1)" by (cases t)
    show ?case
    proof (cases "0 < iNumVars (u1 ! x)")
      case True
      from 2(3) have "for_loop (fdGetTimeStep_iVar K E fnUpdate (Evolve control) pointee x)
                     [0..<iNumVars (u1 ! x)] t = Inr t'"
        by (simp add: e True)
      then show ?thesis by (rule vars [OF 2(2)])
    next
      case False
      then have "t' = t" using 2(3) by (simp add: e)
      then show ?thesis using 2(2) by simp
    qed
  qed
  then show "rewritten u u'" and "kept control c'"
    and "keeps_length fnUpdate \<Longrightarrow> length b' = length body"
    and "\<And>i v e. iaType (u ! i) ! v ! 0 = 10 \<Longrightarrow> scratch u' i v e = scratch u i v e"
    by (simp_all add: Q_def)
qed

lemma fdGetTimeStep_returns:
  assumes n: "never_exits fnUpdate"
  shows "\<exists>r. fdGetTimeStep K E fnUpdate body pointee control u = Inr r"
  unfolding fdGetTimeStep_def Let_def
proof (rule for_loop_returns)
  fix x and t :: "real \<times> UPDATE list \<times> CONTROL \<times> BODY list"
  obtain d1 u1 c1 b1 where e: "t = (d1, u1, c1, b1)" by (cases t)
  have "\<exists>s'. for_loop (fdGetTimeStep_iVar K E fnUpdate (Evolve control) pointee x)
                     [0..<iNumVars (u1 ! x)] (d1, u1, c1, b1) = Inr s'"
    by (rule for_loop_returns) (rule fdGetTimeStep_iVar_returns [OF n])
  then show "\<exists>s'. (case t of (dMin, update, control', body) \<Rightarrow>
                 if 0 < iNumVars (update ! x)
                 then for_loop (fdGetTimeStep_iVar K E fnUpdate (Evolve control) pointee x)
                        [0..<iNumVars (update ! x)] (dMin, update, control', body)
                 else Inr (dMin, update, control', body)) = Inr s'"
    unfolding e split_conv by simp
qed

text \<open>The loops of the step that call no contributor.\<close>

lemma substep_vars:
  assumes p: "pdVar (tu ! iBody) = pdVar (update ! iBody)"
  shows "fold (\<lambda>iVar (daDeriv', tmpBody').
           let daDeriv' = daDeriv'(k := (daDeriv' k)(iBody := (daDeriv' k iBody)(iVar :=
                 fold (\<lambda>iEqn s. s + real_of_int iDir * daDerivProc (tu ! iBody) iVar iEqn)
                   [0..<iNumEqns (update ! iBody) ! iVar] 0)))
           in if iaType (update ! iBody) ! iVar ! 0 = 0 \<or> iaType (update ! iBody) ! iVar ! 0 = 3
                 \<or> iaType (update ! iBody) ! iVar ! 0 = 10
              then (daDeriv',
                    tmpBody'[iBody := assign (pdVar (tu ! iBody) ! iVar)
                                        (daDeriv' k iBody iVar) (tmpBody' ! iBody)])
              else (daDeriv',
                    tmpBody'[iBody := assign (pdVar (tu ! iBody) ! iVar)
                                        (deref (pdVar (update ! iBody) ! iVar) (body ! iBody)
                                           + c * dDt * daDeriv' k iBody iVar)
                                        (tmpBody' ! iBody)]))
          [0..<m] (D, tb)
     = (\<lambda>k' i v. if k' = k \<and> i = iBody \<and> v < m then deriv_sum iDir update (scratch tu) i v
                   else D k' i v,
        fold (\<lambda>iVar tmp.
           tmp[iBody := assign (pdVar (update ! iBody) ! iVar)
                          (if value_kind update iBody iVar then deriv_sum iDir update (scratch tu) iBody iVar
                           else deref (pdVar (update ! iBody) ! iVar) (body ! iBody)
                                  + (c * dDt) * deriv_sum iDir update (scratch tu) iBody iVar)
                          (tmp ! iBody)])
          [0..<m] tb)"
proof (induction m)
  case 0
  show ?case by simp
next
  case (Suc m)
  have S: "fold (\<lambda>iEqn s. s + real_of_int iDir * daDerivProc (tu ! iBody) m iEqn)
                   [0..<iNumEqns (update ! iBody) ! m] 0 = deriv_sum iDir update (scratch tu) iBody m"
    by (simp add: fold_sum_upt deriv_sum_def scratch_def)
  have F: "(\<lambda>k' i v. if k' = k \<and> i = iBody \<and> v < m then deriv_sum iDir update (scratch tu) i v
                   else D k' i v)(k := ((\<lambda>k' i v. if k' = k \<and> i = iBody \<and> v < m then deriv_sum iDir update (scratch tu) i v
                   else D k' i v) k)(iBody := ((\<lambda>k' i v. if k' = k \<and> i = iBody \<and> v < m then deriv_sum iDir update (scratch tu) i v
                   else D k' i v) k iBody)(m := deriv_sum iDir update (scratch tu) iBody m)))
        = (\<lambda>k' i v. if k' = k \<and> i = iBody \<and> v < Suc m then deriv_sum iDir update (scratch tu) i v
                   else D k' i v)"
    by (intro ext) (auto simp add: less_Suc_eq)
  show ?case
    apply (simp only: upt_Suc_append [OF le0] fold_append comp_apply Suc fold.simps id_apply)
    apply (simp only: split_conv Let_def S F)
    apply (simp add: value_kind_def p)
    done
qed

lemma substep_effect:
  assumes p: "\<And>i. i < nB \<Longrightarrow> pdVar (tu ! i) = pdVar (update ! i)"
  shows "RungeKutta4Step_substep k c iDir dDt nB body update tu (D, tb)
     = (\<lambda>k' i v. if k' = k \<and> i < nB \<and> v < iNumVars (update ! i)
                   then deriv_sum iDir update (scratch tu) i v else D k' i v,
        tmp_advance update nB body (c * dDt) (deriv_sum iDir update (scratch tu)) tb)"
  using p
proof (induction nB)
  case 0
  show ?case by (simp add: RungeKutta4Step_substep_def tmp_advance_def)
next
  case (Suc nB)
  have ih: "RungeKutta4Step_substep k c iDir dDt nB body update tu (D, tb)
     = (\<lambda>k' i v. if k' = k \<and> i < nB \<and> v < iNumVars (update ! i)
                   then deriv_sum iDir update (scratch tu) i v else D k' i v,
        tmp_advance update nB body (c * dDt) (deriv_sum iDir update (scratch tu)) tb)"
    using Suc by simp
  have F: "(\<lambda>k' i v. if k' = k \<and> i = nB \<and> v < iNumVars (update ! nB)
                  then deriv_sum iDir update (scratch tu) i v
                  else (if k' = k \<and> i < nB \<and> v < iNumVars (update ! i)
                        then deriv_sum iDir update (scratch tu) i v else D k' i v))
      = (\<lambda>k' i v. if k' = k \<and> i < Suc nB \<and> v < iNumVars (update ! i)
                   then deriv_sum iDir update (scratch tu) i v else D k' i v)"
    by (intro ext) (auto simp add: less_Suc_eq)
  have A: "tmp_advance update (Suc nB) body h f tb
      = fold (\<lambda>iVar tmp.
           tmp[nB := assign (pdVar (update ! nB) ! iVar)
                          (if value_kind update nB iVar then f nB iVar
                           else deref (pdVar (update ! nB) ! iVar) (body ! nB) + h * f nB iVar)
                          (tmp ! nB)])
          [0..<iNumVars (update ! nB)] (tmp_advance update nB body h f tb)" for h f
    by (simp add: tmp_advance_def)
  have "RungeKutta4Step_substep k c iDir dDt (Suc nB) body update tu (D, tb)
      = fold (\<lambda>iVar (daDeriv', tmpBody').
           let daDeriv' = daDeriv'(k := (daDeriv' k)(nB := (daDeriv' k nB)(iVar :=
                 fold (\<lambda>iEqn s. s + real_of_int iDir * daDerivProc (tu ! nB) iVar iEqn)
                   [0..<iNumEqns (update ! nB) ! iVar] 0)))
           in if iaType (update ! nB) ! iVar ! 0 = 0 \<or> iaType (update ! nB) ! iVar ! 0 = 3
                 \<or> iaType (update ! nB) ! iVar ! 0 = 10
              then (daDeriv',
                    tmpBody'[nB := assign (pdVar (tu ! nB) ! iVar)
                                        (daDeriv' k nB iVar) (tmpBody' ! nB)])
              else (daDeriv',
                    tmpBody'[nB := assign (pdVar (tu ! nB) ! iVar)
                                        (deref (pdVar (update ! nB) ! iVar) (body ! nB)
                                           + c * dDt * daDeriv' k nB iVar)
                                        (tmpBody' ! nB)]))
          [0..<iNumVars (update ! nB)]
          (RungeKutta4Step_substep k c iDir dDt nB body update tu (D, tb))"
    by (simp add: RungeKutta4Step_substep_def)
  also have "\<dots> = (\<lambda>k' i v. if k' = k \<and> i < Suc nB \<and> v < iNumVars (update ! i)
                   then deriv_sum iDir update (scratch tu) i v else D k' i v,
        tmp_advance update (Suc nB) body (c * dDt) (deriv_sum iDir update (scratch tu)) tb)"
    unfolding ih substep_vars [OF Suc.prems [of nB, simplified]] A F ..
  finally show ?case .
qed

lemma deref_assign_same: "deref p (assign p x b) = x"
  by (cases p) simp_all

lemma deref_assign_other: "p \<noteq> q \<Longrightarrow> deref p (assign q x b) = deref p b"
  by (cases q; cases p; simp)

text \<open>Assignments through distinct pointers, one after the other.\<close>

lemma assigns_frame:
  assumes "\<And>v. v < m \<Longrightarrow> p v \<noteq> q"
  shows "deref q (fold (\<lambda>v b. assign (p v) (g v (deref (p v) b)) b) [0..<m] b0) = deref q b0"
  using assms
proof (induction m)
  case 0
  show ?case by simp
next
  case (Suc m)
  have "q \<noteq> p m" using Suc.prems [of m] by auto
  moreover have "deref q (fold (\<lambda>v b. assign (p v) (g v (deref (p v) b)) b) [0..<m] b0) = deref q b0"
    by (rule Suc.IH) (use Suc.prems in auto)
  ultimately show ?case by (simp add: deref_assign_other)
qed

lemma assigns_deref:
  assumes d: "\<And>v w. v < m \<Longrightarrow> w < m \<Longrightarrow> v \<noteq> w \<Longrightarrow> p v \<noteq> p w"
    and v: "v < m"
  shows "deref (p v) (fold (\<lambda>v b. assign (p v) (g v (deref (p v) b)) b) [0..<m] b0)
       = g v (deref (p v) b0)"
  using d v
proof (induction m)
  case 0
  then show ?case by simp
next
  case (Suc m)
  show ?case
  proof (cases "v = m")
    case True
    have "deref (p m) (fold (\<lambda>v b. assign (p v) (g v (deref (p v) b)) b) [0..<m] b0) = deref (p m) b0"
      by (rule assigns_frame) (use Suc.prems(1) [of _ m] in auto)
    then show ?thesis using True by (simp add: deref_assign_same)
  next
    case False
    then have vm: "v < m" using Suc.prems(2) by simp
    have ne: "p v \<noteq> p m" using Suc.prems(1) [of v m] vm by simp
    have "deref (p v) (fold (\<lambda>v b. assign (p v) (g v (deref (p v) b)) b) [0..<m] b0)
        = g v (deref (p v) b0)"
      by (rule Suc.IH) (use Suc.prems(1) vm in auto)
    then show ?thesis using ne by (simp add: deref_assign_other)
  qed
qed

text \<open>A loop that rewrites one element of a list.\<close>

lemma fold_list_update:
  "fold (\<lambda>v xs. xs[i := h v (xs ! i)]) [0..<m] xs = xs[i := fold h [0..<m] (xs ! i)]"
proof (induction m)
  case 0
  show ?case by simp
next
  case (Suc m)
  show ?case
    by (cases "i < length xs") (simp_all add: Suc list_update_beyond)
qed

text \<open>A loop over the elements of a list that rewrites each one from its own value.\<close>

lemma fold_each:
  "length (fold (\<lambda>i xs. xs[i := G i (xs ! i)]) [0..<n] xs) = length xs
   \<and> (\<forall>j. j < length xs \<longrightarrow>
          fold (\<lambda>i xs. xs[i := G i (xs ! i)]) [0..<n] xs ! j = (if j < n then G j (xs ! j) else xs ! j))"
proof (induction n)
  case 0
  show ?case by simp
next
  case (Suc n)
  let ?r = "fold (\<lambda>i xs. xs[i := G i (xs ! i)]) [0..<n] xs"
  have ih: "length ?r = length xs"
    "\<And>j. j < length xs \<Longrightarrow> ?r ! j = (if j < n then G j (xs ! j) else xs ! j)"
    using Suc by simp_all
  have s: "fold (\<lambda>i xs. xs[i := G i (xs ! i)]) [0..<Suc n] xs = ?r[n := G n (?r ! n)]"
    by simp
  have "length (?r[n := G n (?r ! n)]) = length xs" using ih(1) by simp
  moreover have "?r[n := G n (?r ! n)] ! j = (if j < Suc n then G j (xs ! j) else xs ! j)"
    if j: "j < length xs" for j
  proof (cases "j = n")
    case True
    then show ?thesis using j ih by simp
  next
    case False
    then show ?thesis using j ih by (simp add: less_Suc_eq)
  qed
  ultimately show ?case unfolding s by blast
qed

text \<open>The fourth loop.\<close>

lemma fourth_vars:
  "fold (\<lambda>iVar daDeriv'.
           if iaType (update ! iBody) ! iVar ! 0 = 0 \<or> iaType (update ! iBody) ! iVar ! 0 = 3
              \<or> iaType (update ! iBody) ! iVar ! 0 = 10
           then daDeriv'
           else daDeriv'(3 := (daDeriv' 3)(iBody := (daDeriv' 3 iBody)(iVar :=
                  fold (\<lambda>iEqn s. s + real_of_int iDir * daDerivProc (tu ! iBody) iVar iEqn)
                    [0..<iNumEqns (update ! iBody) ! iVar] 0))))
          [0..<m] D
     = (\<lambda>k i v. if k = 3 \<and> i = iBody \<and> v < m \<and> \<not> value_kind update i v
                  then deriv_sum iDir update (scratch tu) i v else D k i v)"
proof (induction m)
  case 0
  show ?case by simp
next
  case (Suc m)
  have S: "fold (\<lambda>iEqn s. s + real_of_int iDir * daDerivProc (tu ! iBody) m iEqn)
                   [0..<iNumEqns (update ! iBody) ! m] 0 = deriv_sum iDir update (scratch tu) iBody m"
    by (simp add: fold_sum_upt deriv_sum_def scratch_def)
  show ?case
    apply (simp only: upt_Suc_append [OF le0] fold_append comp_apply Suc fold.simps id_apply S)
    apply (intro ext)
    apply (auto simp add: value_kind_def less_Suc_eq)
    done
qed

lemma fourth_effect:
  "RungeKutta4Step_fourth iDir nB update tu D
     = (\<lambda>k i v. if k = 3 \<and> i < nB \<and> v < iNumVars (update ! i) \<and> \<not> value_kind update i v
                  then deriv_sum iDir update (scratch tu) i v else D k i v)"
proof (induction nB)
  case 0
  show ?case by (simp add: RungeKutta4Step_fourth_def)
next
  case (Suc nB)
  have "RungeKutta4Step_fourth iDir (Suc nB) update tu D
      = fold (\<lambda>iVar daDeriv'.
           if iaType (update ! nB) ! iVar ! 0 = 0 \<or> iaType (update ! nB) ! iVar ! 0 = 3
              \<or> iaType (update ! nB) ! iVar ! 0 = 10
           then daDeriv'
           else daDeriv'(3 := (daDeriv' 3)(nB := (daDeriv' 3 nB)(iVar :=
                  fold (\<lambda>iEqn s. s + real_of_int iDir * daDerivProc (tu ! nB) iVar iEqn)
                    [0..<iNumEqns (update ! nB) ! iVar] 0))))
          [0..<iNumVars (update ! nB)] (RungeKutta4Step_fourth iDir nB update tu D)"
    by (simp add: RungeKutta4Step_fourth_def)
  also have "\<dots> = (\<lambda>k i v. if k = 3 \<and> i < Suc nB \<and> v < iNumVars (update ! i) \<and> \<not> value_kind update i v
                  then deriv_sum iDir update (scratch tu) i v else D k i v)"
    unfolding Suc fourth_vars by (intro ext) (auto simp add: less_Suc_eq)
  finally show ?case .
qed

text \<open>The last loop, for one body.\<close>

lemma update_vars:
  assumes i: "i < length u"
  shows "fold (\<lambda>iVar (body, update).
           let update = update[i := (update ! i)\<lparr>UPDATE.daDeriv :=
                 (UPDATE.daDeriv (update ! i))(iVar := W iVar)\<rparr>]
           in if iaType (update ! i) ! iVar ! 0 = 0 \<or> iaType (update ! i) ! iVar ! 0 = 3
                 \<or> iaType (update ! i) ! iVar ! 0 = 10
              then (body[i := assign (pdVar (update ! i) ! iVar) (V iVar) (body ! i)], update)
              else (body[i := assign (pdVar (update ! i) ! iVar)
                                    (deref (pdVar (update ! i) ! iVar) (body ! i)
                                       + UPDATE.daDeriv (update ! i) iVar * dDt)
                                    (body ! i)],
                    update))
          [0..<m] (b, u)
     = (b[i := fold (\<lambda>v x. assign (pdVar (u ! i) ! v)
                              (if value_kind u i v then V v
                               else deref (pdVar (u ! i) ! v) x + W v * dDt) x)
                 [0..<m] (b ! i)],
        u[i := (u ! i)\<lparr>UPDATE.daDeriv :=
                 (\<lambda>v. if v < m then W v else UPDATE.daDeriv (u ! i) v)\<rparr>])"
proof (induction m)
  case 0
  show ?case by simp
next
  case (Suc m)
  have F: "(\<lambda>v. if v < m then W v else UPDATE.daDeriv (u ! i) v)(m := W m)
         = (\<lambda>v. if v < Suc m then W v else UPDATE.daDeriv (u ! i) v)"
    by (intro ext) (simp add: less_Suc_eq)
  show ?case
  proof (cases "i < length b")
    case True
    show ?thesis
      apply (simp only: upt_Suc_append [OF le0] fold_append comp_apply Suc fold.simps id_apply)
      apply (simp add: Let_def i True F value_kind_def)
      done
  next
    case False
    then show ?thesis
      apply (simp only: upt_Suc_append [OF le0] fold_append comp_apply Suc fold.simps id_apply)
      apply (simp add: Let_def i F value_kind_def list_update_beyond)
      done
  qed
qed

lemma update_Suc:
  assumes st: "RungeKutta4Step_update dDt nB D (body, update) = (b', u')"
  shows "RungeKutta4Step_update dDt (Suc nB) D (body, update)
      = fold (\<lambda>iVar (body, update).
           let update = update[nB := (update ! nB)\<lparr>UPDATE.daDeriv :=
                 (UPDATE.daDeriv (update ! nB))(iVar :=
                    1 / 6 * (D 0 nB iVar + 2 * D 1 nB iVar + 2 * D 2 nB iVar + D 3 nB iVar))\<rparr>]
           in if iaType (update ! nB) ! iVar ! 0 = 0 \<or> iaType (update ! nB) ! iVar ! 0 = 3
                 \<or> iaType (update ! nB) ! iVar ! 0 = 10
              then (body[nB := assign (pdVar (update ! nB) ! iVar) (D 0 nB iVar) (body ! nB)], update)
              else (body[nB := assign (pdVar (update ! nB) ! iVar)
                                    (deref (pdVar (update ! nB) ! iVar) (body ! nB)
                                       + UPDATE.daDeriv (update ! nB) iVar * dDt)
                                    (body ! nB)],
                    update))
          [0..<iNumVars (u' ! nB)] (b', u')"
proof -
  have "RungeKutta4Step_update dDt (Suc nB) D (body, update)
      = (\<lambda>(body, update). fold (\<lambda>iVar (body, update).
           let update = update[nB := (update ! nB)\<lparr>UPDATE.daDeriv :=
                 (UPDATE.daDeriv (update ! nB))(iVar :=
                    1 / 6 * (D 0 nB iVar + 2 * D 1 nB iVar + 2 * D 2 nB iVar + D 3 nB iVar))\<rparr>]
           in if iaType (update ! nB) ! iVar ! 0 = 0 \<or> iaType (update ! nB) ! iVar ! 0 = 3
                 \<or> iaType (update ! nB) ! iVar ! 0 = 10
              then (body[nB := assign (pdVar (update ! nB) ! iVar) (D 0 nB iVar) (body ! nB)], update)
              else (body[nB := assign (pdVar (update ! nB) ! iVar)
                                    (deref (pdVar (update ! nB) ! iVar) (body ! nB)
                                       + UPDATE.daDeriv (update ! nB) iVar * dDt)
                                    (body ! nB)],
                    update))
          [0..<iNumVars (update ! nB)] (body, update))
        (RungeKutta4Step_update dDt nB D (body, update))"
    by (simp only: RungeKutta4Step_update_def upt_Suc_append [OF le0] fold_append comp_apply
      fold.simps id_apply)
  then show ?thesis by (simp only: st split_conv)
qed

lemma rewritten_daDeriv:
  "rewritten u u' \<Longrightarrow> rewritten u (u'[i := (u' ! i)\<lparr>UPDATE.daDeriv := x\<rparr>])"
  by (cases "i < length u'")
     (auto simp add: rewritten_def same_meta_def nth_list_update list_update_beyond)

lemma value_kind_rewritten: "rewritten u u' \<Longrightarrow> value_kind u' i v = value_kind u i v"
  by (simp add: rewritten_def same_meta_def value_kind_def)

text \<open>The last loop: what it leaves in the body array.\<close>

lemma update_effect:
  assumes n: "nB \<le> length update"
  shows "fst (RungeKutta4Step_update dDt nB D (body, update))
       = fold (\<lambda>i xs. xs[i :=
            fold (\<lambda>v x. assign (pdVar (update ! i) ! v)
                     (if value_kind update i v then D 0 i v
                      else deref (pdVar (update ! i) ! v) x
                           + 1 / 6 * (D 0 i v + 2 * D 1 i v + 2 * D 2 i v + D 3 i v) * dDt) x)
              [0..<iNumVars (update ! i)] (xs ! i)]) [0..<nB] body
       \<and> rewritten update (snd (RungeKutta4Step_update dDt nB D (body, update)))"
  using n
proof (induction nB)
  case 0
  show ?case by (simp add: RungeKutta4Step_update_def rewritten_refl)
next
  case (Suc nB)
  let ?G = "\<lambda>i xs. xs[i :=
            fold (\<lambda>v x. assign (pdVar (update ! i) ! v)
                     (if value_kind update i v then D 0 i v
                      else deref (pdVar (update ! i) ! v) x
                           + 1 / 6 * (D 0 i v + 2 * D 1 i v + 2 * D 2 i v + D 3 i v) * dDt) x)
              [0..<iNumVars (update ! i)] (xs ! i)]"
  obtain b' u' where st: "RungeKutta4Step_update dDt nB D (body, update) = (b', u')"
    by (cases "RungeKutta4Step_update dDt nB D (body, update)")
  have ih: "b' = fold ?G [0..<nB] body" "rewritten update u'"
    using Suc st by simp_all
  have l: "nB < length u'" using ih(2) Suc.prems by (simp add: rewritten_def)
  have t: "iNumVars (u' ! nB) = iNumVars (update ! nB)" "pdVar (u' ! nB) = pdVar (update ! nB)"
    using rewritten_nth [OF ih(2)] by simp_all
  have s0: "RungeKutta4Step_update dDt (Suc nB) D (body, update)
      = (b'[nB := fold (\<lambda>v x. assign (pdVar (u' ! nB) ! v)
                              (if value_kind u' nB v then D 0 nB v
                               else deref (pdVar (u' ! nB) ! v) x
                                    + 1 / 6 * (D 0 nB v + 2 * D 1 nB v + 2 * D 2 nB v + D 3 nB v) * dDt) x)
                 [0..<iNumVars (u' ! nB)] (b' ! nB)],
        u'[nB := (u' ! nB)\<lparr>UPDATE.daDeriv :=
                 (\<lambda>v. if v < iNumVars (u' ! nB)
                       then 1 / 6 * (D 0 nB v + 2 * D 1 nB v + 2 * D 2 nB v + D 3 nB v)
                       else UPDATE.daDeriv (u' ! nB) v)\<rparr>])"
    unfolding update_Suc [OF st]
    by (rule update_vars [OF l,
          where W = "\<lambda>v. 1 / 6 * (D 0 nB v + 2 * D 1 nB v + 2 * D 2 nB v + D 3 nB v)"
            and V = "\<lambda>v. D 0 nB v"])
  have s: "RungeKutta4Step_update dDt (Suc nB) D (body, update)
      = (?G nB b', u'[nB := (u' ! nB)\<lparr>UPDATE.daDeriv :=
                 (\<lambda>v. if v < iNumVars (u' ! nB)
                       then 1 / 6 * (D 0 nB v + 2 * D 1 nB v + 2 * D 2 nB v + D 3 nB v)
                       else UPDATE.daDeriv (u' ! nB) v)\<rparr>])"
    unfolding s0 by (simp only: t value_kind_rewritten [OF ih(2)])
  have g: "fold ?G [0..<Suc nB] body = ?G nB (fold ?G [0..<nB] body)"
    by (simp only: upt_Suc_append [OF le0] fold_append comp_apply fold.simps id_apply)
  show ?case
    unfolding s g fst_conv snd_conv ih(1) [symmetric]
    by (intro conjI refl rewritten_daDeriv ih(2))
qed

text \<open>With one home per variable, every variable holds what the loop assigned to it.\<close>

lemma update_deref:
  assumes n: "nB \<le> length update" "nB \<le> length body"
    and i: "i < nB" and v: "v < iNumVars (update ! i)"
    and d: "\<And>v w. v < iNumVars (update ! i) \<Longrightarrow> w < iNumVars (update ! i) \<Longrightarrow> v \<noteq> w
              \<Longrightarrow> pdVar (update ! i) ! v \<noteq> pdVar (update ! i) ! w"
  shows "deref (pdVar (update ! i) ! v) (fst (RungeKutta4Step_update dDt nB D (body, update)) ! i)
       = (if value_kind update i v then D 0 i v
          else deref (pdVar (update ! i) ! v) (body ! i)
               + 1 / 6 * (D 0 i v + 2 * D 1 i v + 2 * D 2 i v + D 3 i v) * dDt)"
proof -
  define g where "g = (\<lambda>i v x. if value_kind update i v then D 0 i v
                     else x + 1 / 6 * (D 0 i v + 2 * D 1 i v + 2 * D 2 i v + D 3 i v) * dDt)"
  define G where "G = (\<lambda>i b. fold (\<lambda>v x. assign (pdVar (update ! i) ! v)
                                (g i v (deref (pdVar (update ! i) ! v) x)) x)
                      [0..<iNumVars (update ! i)] b)"
  have e: "(\<lambda>i xs. xs[i :=
            fold (\<lambda>v x. assign (pdVar (update ! i) ! v)
                     (if value_kind update i v then D 0 i v
                      else deref (pdVar (update ! i) ! v) x
                           + 1 / 6 * (D 0 i v + 2 * D 1 i v + 2 * D 2 i v + D 3 i v) * dDt) x)
              [0..<iNumVars (update ! i)] (xs ! i)])
         = (\<lambda>i xs. xs[i := G i (xs ! i)])"
    unfolding G_def g_def by (rule refl)
  have a: "fst (RungeKutta4Step_update dDt nB D (body, update))
      = fold (\<lambda>i xs. xs[i := G i (xs ! i)]) [0..<nB] body"
    using update_effect [OF n(1), of dDt D body] unfolding e by (rule conjunct1)
  have il: "i < length body" using i n(2) by simp
  have b: "fold (\<lambda>i xs. xs[i := G i (xs ! i)]) [0..<nB] body ! i = G i (body ! i)"
    using fold_each [of G nB body, THEN conjunct2, rule_format, OF il] i by simp
  have c: "deref (pdVar (update ! i) ! v) (G i (body ! i))
      = g i v (deref (pdVar (update ! i) ! v) (body ! i))"
    unfolding G_def
    by (rule assigns_deref [where p = "\<lambda>v. pdVar (update ! i) ! v" and g = "g i"
          and m = "iNumVars (update ! i)"]) (use d v in auto)
  show ?thesis unfolding a b c by (simp add: g_def)
qed

lemma own_home_nth:
  assumes "own_home u" "v < iNumVars u" "w < iNumVars u" "v \<noteq> w"
  shows "pdVar u ! v \<noteq> pdVar u ! w"
proof -
  have l: "v < length (take (iNumVars u) (pdVar u))" "w < length (take (iNumVars u) (pdVar u))"
    using assms by (simp_all add: own_home_def)
  have d: "distinct (take (iNumVars u) (pdVar u))" using assms(1) by (simp add: own_home_def)
  have "(take (iNumVars u) (pdVar u) ! v = take (iNumVars u) (pdVar u) ! w) = (v = w)"
    by (rule nth_eq_iff_index_eq [OF d l])
  moreover have "take (iNumVars u) (pdVar u) ! v = pdVar u ! v"
    "take (iNumVars u) (pdVar u) ! w = pdVar u ! w"
    using assms(2,3) by simp_all
  ultimately show ?thesis using assms(4) by simp
qed

text \<open>Two update arrays with the same tables, entry by entry.\<close>

lemma nth_beyond_eq:
  "length xs = length ys \<Longrightarrow> length xs \<le> j \<Longrightarrow> xs ! j = ys ! j"
proof (induction xs arbitrary: ys j)
  case Nil
  then show ?case by simp
next
  case (Cons x xs)
  obtain y ys' where ys: "ys = y # ys'" using Cons.prems(1) by (cases ys) auto
  obtain k where j: "j = Suc k" using Cons.prems(2) by (cases j) auto
  have "xs ! k = ys' ! k" by (rule Cons.IH) (use Cons.prems ys j in auto)
  then show ?case by (simp add: ys j)
qed

lemma rewritten_list_all2:
  assumes "list_all2 same_meta u u'"
  shows "rewritten u u'"
proof -
  have l: "length u = length u'" using assms by (rule list_all2_lengthD)
  have "same_meta (u ! j) (u' ! j)" for j
  proof (cases "j < length u")
    case True
    show ?thesis using assms True by (rule list_all2_nthD)
  next
    case False
    then have "u ! j = u' ! j" using l by (intro nth_beyond_eq) auto
    then show ?thesis by (simp add: same_meta_def)
  qed
  then show ?thesis using l by (simp add: rewritten_def)
qed

text \<open>Rules to walk through a chain of bindings and of calls that may exit.\<close>

lemma LetD: "Let a f = r \<Longrightarrow> a = a' \<Longrightarrow> f a' = r"
  by simp

lemma Let_pairD: "Let a (case_prod f) = r \<Longrightarrow> a = (p, q) \<Longrightarrow> f p q = r"
  by simp

lemma case_Inr2E:
  assumes "(case x of Inl e \<Rightarrow> Inl e | Inr (a, b) \<Rightarrow> f a b) = Inr r"
  obtains a b where "x = Inr (a, b)" "f a b = Inr r"
  using assms by (auto split: sum.splits)

lemma case_Inr4E:
  assumes "(case x of Inl e \<Rightarrow> Inl e | Inr (a, b, c, d) \<Rightarrow> f a b c d) = Inr r"
  obtains a b c d where "x = Inr (a, b, c, d)" "f a b c d = Inr r"
  using assms by (auto split: sum.splits)

text \<open>The stages of a step that returns.\<close>

lemma RungeKutta4Step_stages:
  assumes s: "RungeKutta4Step K E fnUpdate body control update iDir
                = Inr (body', control', update', dDt)"
  shows "\<exists>dMin tu0 c0 b0 c1 D0 tb1 tu1 tb1' D1 tb2 tu2 tb2' D2 tb3 tu3 tb3' D3.
      fdGetTimeStep K E fnUpdate body (BodyCopy body) control (tmpUpdate (Evolve control))
        = Inr (dMin, tu0, c0, b0)
    \<and> dDt = (if bVarDt (Evolve c0) then
               AssignDt dMin (fdNextOutput (dTime (Evolve c0)) (dOutputTime (Io c0))
                                - dTime (Evolve c0)) (dEta (Evolve c0))
             else dTimeStep (Evolve c0))
    \<and> c1 = c0\<lparr>Evolve := (Evolve c0)\<lparr>dCurrentDt := dDt\<rparr>\<rparr>
    \<and> RungeKutta4Step_substep 0 0.5 iDir dDt (iNumBodies (Evolve c1)) b0 update tu0
         (EVOLVE.daDeriv (Evolve control), BodyCopy body) = (D0, tb1)
    \<and> fdGetUpdateInfo fnUpdate (PropertiesAuxiliary E tb1 c1) c1 tu0 = Inr (tu1, tb1')
    \<and> RungeKutta4Step_substep 1 0.5 iDir dDt (iNumBodies (Evolve c1)) b0 update tu1
         (D0, tb1') = (D1, tb2)
    \<and> fdGetUpdateInfo fnUpdate (PropertiesAuxiliary E tb2 c1) c1 tu1 = Inr (tu2, tb2')
    \<and> RungeKutta4Step_substep 2 1 iDir dDt (iNumBodies (Evolve c1)) b0 update tu2
         (D1, tb2') = (D2, tb3)
    \<and> fdGetUpdateInfo fnUpdate (PropertiesAuxiliary E tb3 c1) c1 tu2 = Inr (tu3, tb3')
    \<and> D3 = RungeKutta4Step_fourth iDir (iNumBodies (Evolve c1)) update tu3 D2
    \<and> RungeKutta4Step_update dDt (iNumBodies (Evolve c1)) D3 (b0, update) = (body', update')
    \<and> control' = c1\<lparr>Evolve := (Evolve c1)\<lparr>tmpBody := tb3', tmpUpdate := tu3,
                                              EVOLVE.daDeriv := D3\<rparr>\<rparr>"
proof -
  note h0 = s [unfolded RungeKutta4Step_def]
  note h1 = LetD [OF h0 refl]
  note h2 = LetD [OF h1 refl]
  show ?thesis
  proof (rule case_Inr4E [OF h2], goal_cases)
    case (1 dMin tu0 c0 b0)
    note gt = 1(1)
    define d where "d = (if bVarDt (Evolve c0) then
                   (let dTimeOut = fdNextOutput (dTime (Evolve c0)) (dOutputTime (Io c0))
                    in AssignDt dMin (dTimeOut - dTime (Evolve c0)) (dEta (Evolve c0)))
                 else dTimeStep (Evolve c0))"
    define c1 where "c1 = c0\<lparr>Evolve := (Evolve c0)\<lparr>dCurrentDt := d\<rparr>\<rparr>"
    note h3 = LetD [OF 1(2) d_def [symmetric]]
    note h4 = LetD [OF h3 c1_def [symmetric]]
    note h5 = LetD [OF h4 refl]
    obtain D0 tb1 where s0: "RungeKutta4Step_substep 0 0.5 iDir d (iNumBodies (Evolve c1)) b0 update tu0
         (EVOLVE.daDeriv (Evolve control), BodyCopy body) = (D0, tb1)"
      by (cases "RungeKutta4Step_substep 0 0.5 iDir d (iNumBodies (Evolve c1)) b0 update tu0
         (EVOLVE.daDeriv (Evolve control), BodyCopy body)")
    note h6 = Let_pairD [OF h5 s0]
    note h7 = LetD [OF h6 refl]
    show ?thesis
    proof (rule case_Inr2E [OF h7], goal_cases)
      case (1 tu1 tb1')
      note g1 = 1(1)
      obtain D1 tb2 where s1: "RungeKutta4Step_substep 1 0.5 iDir d (iNumBodies (Evolve c1)) b0 update tu1
           (D0, tb1') = (D1, tb2)"
        by (cases "RungeKutta4Step_substep 1 0.5 iDir d (iNumBodies (Evolve c1)) b0 update tu1
           (D0, tb1')")
      note k1 = Let_pairD [OF 1(2) s1]
      note k2 = LetD [OF k1 refl]
      show ?thesis
      proof (rule case_Inr2E [OF k2], goal_cases)
        case (1 tu2 tb2')
        note g2 = 1(1)
        obtain D2 tb3 where s2: "RungeKutta4Step_substep 2 1 iDir d (iNumBodies (Evolve c1)) b0 update tu2
             (D1, tb2') = (D2, tb3)"
          by (cases "RungeKutta4Step_substep 2 1 iDir d (iNumBodies (Evolve c1)) b0 update tu2
             (D1, tb2')")
        note m1 = Let_pairD [OF 1(2) s2]
        note m2 = LetD [OF m1 refl]
        show ?thesis
        proof (rule case_Inr2E [OF m2], goal_cases)
          case (1 tu3 tb3')
          note g3 = 1(1)
          define D3 where "D3 = RungeKutta4Step_fourth iDir (iNumBodies (Evolve c1)) update tu3 D2"
          note p1 = LetD [OF 1(2) D3_def [symmetric]]
          obtain B U where up: "RungeKutta4Step_update d (iNumBodies (Evolve c1)) D3 (b0, update) = (B, U)"
            by (cases "RungeKutta4Step_update d (iNumBodies (Evolve c1)) D3 (b0, update)")
          note p2 = Let_pairD [OF p1 up]
          have e: "B = body'" "U = update'" "d = dDt"
            "control' = c1\<lparr>Evolve := (Evolve c1)\<lparr>tmpBody := tb3', tmpUpdate := tu3,
                                              EVOLVE.daDeriv := D3\<rparr>\<rparr>"
            using p2 by simp_all
          have dd: "dDt = (if bVarDt (Evolve c0) then
               AssignDt dMin (fdNextOutput (dTime (Evolve c0)) (dOutputTime (Io c0))
                                - dTime (Evolve c0)) (dEta (Evolve c0))
             else dTimeStep (Evolve c0))"
            using e(3) by (auto simp add: d_def Let_def)
          show ?thesis
            using gt dd c1_def s0 g1 s1 g2 s2 g3 D3_def up e unfolding e(3) e(1) e(2)
            by blast
        qed
      qed
    qed
  qed
qed

lemma Let_returns: "\<exists>r. f a = Inr r \<Longrightarrow> \<exists>r. Let a f = Inr r"
  by simp

lemma Let_pair_returns: "(\<And>p q. \<exists>r. f p q = Inr r) \<Longrightarrow> \<exists>r. Let a (case_prod f) = Inr r"
  by (cases a) simp

lemma case_Inr2_returns:
  assumes "\<exists>x. a = Inr x" and "\<And>p q. \<exists>y. f p q = Inr y"
  shows "\<exists>y. (case a of Inl e \<Rightarrow> Inl e | Inr (p, q) \<Rightarrow> f p q) = Inr y"
  using assms by (auto split: sum.splits)

lemma case_Inr4_returns:
  assumes "\<exists>x. a = Inr x" and "\<And>p q r s. \<exists>y. f p q r s = Inr y"
  shows "\<exists>y. (case a of Inl e \<Rightarrow> Inl e | Inr (p, q, r, s) \<Rightarrow> f p q r s) = Inr y"
  using assms by (auto split: sum.splits)

lemma RungeKutta4Step_returns:
  assumes n: "never_exits fnUpdate"
  shows "\<exists>r. RungeKutta4Step K E fnUpdate body control update iDir = Inr r"
  unfolding RungeKutta4Step_def
  by (intro Let_returns Let_pair_returns case_Inr2_returns case_Inr4_returns
        fdGetTimeStep_returns [OF n] fdGetUpdateInfo_returns [OF n]) blast

lemma case_Inr4_exits:
  "a = Inl e \<Longrightarrow> (case a of Inl e \<Rightarrow> Inl e | Inr (p, q, r, s) \<Rightarrow> f p q r s) = Inl e"
  by simp

lemma RungeKutta4Step_exits:
  assumes "fdGetTimeStep K E fnUpdate body (BodyCopy body) control (tmpUpdate (Evolve control)) = Inl e"
  shows "RungeKutta4Step K E fnUpdate body control update iDir = Inl e"
  unfolding RungeKutta4Step_def Let_def [of "BodyCopy body"] Let_def [of "EVOLVE.daDeriv (Evolve control)"]
  by (rule case_Inr4_exits) (rule assms)

text \<open>The example system.\<close>

lemma fdLuminosity_example_returns:
  "\<exists>x b. fdLuminosity S_example_hi body [0] = Inr (x, b) \<and> length b = length body"
  by (auto simp add: fdLuminosity_def fdLuminosityFunctionBaraffe_def
        fdLuminosityFunctionProximaCen_def S_example_hi_def Let_def split: option.splits)

lemma never_exits_example: "never_exits fnUpdate_example"
  unfolding never_exits_def
proof (intro allI)
  fix iBody iVar iEqn :: nat and body
  obtain y b where "fdLuminosity S_example_hi body [0] = Inr (y, b)"
    using fdLuminosity_example_returns by blast
  then show "\<exists>x body'. fnUpdate_example iBody iVar iEqn body = Inr (x, body')"
    by (simp add: fnUpdate_example_def)
qed

lemma keeps_length_example: "keeps_length fnUpdate_example"
  unfolding keeps_length_def fnUpdate_example_def
proof (intro allI impI, goal_cases)
  case (1 iBody iVar iEqn body x body')
  obtain y b where "fdLuminosity S_example_hi body [0] = Inr (y, b)" "length b = length body"
    using fdLuminosity_example_returns by blast
  with 1 show ?case by (auto split: if_splits)
qed

lemma fdGetTimeStep_example:
  "\<exists>u. fdGetTimeStep K_example E_example fnUpdate_example [star_example, planet_example]
         [star_example, planet_example] control_example update_example
       = Inr (16, u, control_example,
              [star_example\<lparr>iStellarModel := STELLAR_MODEL_CONST\<rparr>, planet_example])
     \<and> scratch u 0 0 0 = 3.846 * 10 ^ 26 \<and> scratch u 0 (Suc 0) 0 = 0
     \<and> scratch u (Suc 0) (Suc 0) 0 = 6 * 10 ^ 6"
  by (simp add: fdGetTimeStep_def Let_def control_example_def update_example_def upt_0_2
     fdGetTimeStep_iVar_def fdGetTimeStep_iEqn_def call_fnUpdate_def set_daDerivProc_def
     fnUpdate_example_def E_example_def io_example_def fdNextOutput_def int_of_double_def
     fdLuminosity_def fdLuminosityFunctionBaraffe_def S_example_hi_def scratch_def
     fdDSurfaceWaterMassDt_def star_example_def planet_example_def body_example_def dHUGE_def DBL_MAX_def)

lemma fdGetTimeStep_example_without:
  "\<exists>u c b. fdGetTimeStep K_example E_example fnUpdate_example [star_example, planet_example]
         [star_example, planet_example] control_example
         (update_example[1 := (update_example ! 1)\<lparr>iNumVars := 1\<rparr>]) = Inr (100, u, c, b)"
  by (simp add: fdGetTimeStep_def Let_def control_example_def update_example_def upt_0_2
     fdGetTimeStep_iVar_def fdGetTimeStep_iEqn_def call_fnUpdate_def set_daDerivProc_def
     fnUpdate_example_def E_example_def io_example_def fdNextOutput_def int_of_double_def
     fdLuminosity_def fdLuminosityFunctionBaraffe_def S_example_hi_def
     fdDSurfaceWaterMassDt_def star_example_def planet_example_def body_example_def dHUGE_def DBL_MAX_def)

subsection \<open>The timestep bound\<close>

text \<open>
  Claim C2. With variable timestepping enabled, every step that \<^verbatim>\<open>RungeKutta4Step\<close> takes
  has a timestep \<open>dt = AssignDt(dMin, t_next_output - t_now, \<eta>)\<close>, where \<open>dMin\<close> is the minimum
  characteristic time that \<^verbatim>\<open>fdGetTimeStep\<close> returned and \<open>t_next_output\<close> is the value of
  \<^verbatim>\<open>fdNextOutput\<close>, so \<open>dt \<le> \<eta> \<cdot> dMin\<close> and \<open>dt \<le> t_next_output - t_now\<close>; the step is the one
  recorded in \<^verbatim>\<open>dCurrentDt\<close>. The step is taken whenever no contributor exits.
  \<^verbatim>\<open>AssignDt(dMin, dNextOutput, dEta)\<close> returns \<open>min (dEta \<cdot> dMin) dNextOutput\<close>, for all
  inputs.
\<close>

theorem timestep_bound:
  assumes v: "bVarDt (Evolve control)"
  shows "(\<forall>body' control' update' dDt.
            RungeKutta4Step K E fnUpdate body control update iDir
              = Inr (body', control', update', dDt) \<longrightarrow>
            (\<exists>dMin tmpUpdate' control0 body0.
                fdGetTimeStep K E fnUpdate body (BodyCopy body) control (tmpUpdate (Evolve control))
                  = Inr (dMin, tmpUpdate', control0, body0)
              \<and> dDt = AssignDt dMin
                        (fdNextOutput (dTime (Evolve control)) (dOutputTime (Io control))
                           - dTime (Evolve control)) (dEta (Evolve control))
              \<and> dDt \<le> dEta (Evolve control) * dMin
              \<and> dDt \<le> fdNextOutput (dTime (Evolve control)) (dOutputTime (Io control))
                         - dTime (Evolve control)
              \<and> dCurrentDt (Evolve control') = dDt))
       \<and> (never_exits fnUpdate \<longrightarrow>
            (\<exists>r. RungeKutta4Step K E fnUpdate body control update iDir = Inr r))
       \<and> AssignDt dMin' dNextOutput dEta' = min (dEta' * dMin') dNextOutput"
proof (intro conjI allI impI)
  show A: "AssignDt a b c = min (c * a) b" for a b c
    by (simp add: AssignDt_def Let_def min_def)
  show "\<exists>r. RungeKutta4Step K E fnUpdate body control update iDir = Inr r"
    if "never_exits fnUpdate"
    using that by (rule RungeKutta4Step_returns)
  fix body' control' update' dDt
  assume s: "RungeKutta4Step K E fnUpdate body control update iDir
               = Inr (body', control', update', dDt)"
  from RungeKutta4Step_stages [OF s] obtain dMin tu0 c0 b0 c1 tb3' tu3 D3 where
    gt: "fdGetTimeStep K E fnUpdate body (BodyCopy body) control (tmpUpdate (Evolve control))
           = Inr (dMin, tu0, c0, b0)"
    and d: "dDt = (if bVarDt (Evolve c0) then
               AssignDt dMin (fdNextOutput (dTime (Evolve c0)) (dOutputTime (Io c0))
                                - dTime (Evolve c0)) (dEta (Evolve c0))
             else dTimeStep (Evolve c0))"
    and c1: "c1 = c0\<lparr>Evolve := (Evolve c0)\<lparr>dCurrentDt := dDt\<rparr>\<rparr>"
    and c': "control' = c1\<lparr>Evolve := (Evolve c1)\<lparr>tmpBody := tb3', tmpUpdate := tu3,
                                              EVOLVE.daDeriv := D3\<rparr>\<rparr>"
    by blast
  note k = kept_fields [OF fdGetTimeStep_effect(2) [OF gt]]
  have e: "dDt = AssignDt dMin
                        (fdNextOutput (dTime (Evolve control)) (dOutputTime (Io control))
                           - dTime (Evolve control)) (dEta (Evolve control))"
    using d v k by simp
  have r: "dCurrentDt (Evolve control') = dDt"
    unfolding c' c1 by simp
  show "\<exists>dMin tmpUpdate' control0 body0.
                fdGetTimeStep K E fnUpdate body (BodyCopy body) control (tmpUpdate (Evolve control))
                  = Inr (dMin, tmpUpdate', control0, body0)
              \<and> dDt = AssignDt dMin
                        (fdNextOutput (dTime (Evolve control)) (dOutputTime (Io control))
                           - dTime (Evolve control)) (dEta (Evolve control))
              \<and> dDt \<le> dEta (Evolve control) * dMin
              \<and> dDt \<le> fdNextOutput (dTime (Evolve control)) (dOutputTime (Io control))
                         - dTime (Evolve control)
              \<and> dCurrentDt (Evolve control') = dDt"
    using gt e r unfolding A by (intro exI conjI) (assumption, assumption, simp_all)
qed

theorem timestep_bound_witness:
  "bVarDt (Evolve control_example) \<and> never_exits fnUpdate_example
   \<and> (\<exists>u c b. fdGetTimeStep K_example E_example fnUpdate_example [star_example, planet_example]
         (BodyCopy [star_example, planet_example]) control_example
         (tmpUpdate (Evolve control_example)) = Inr (16, u, c, b))
   \<and> fdNextOutput (dTime (Evolve control_example)) (dOutputTime (Io control_example))
        - dTime (Evolve control_example) = 100
   \<and> (\<exists>b c u. RungeKutta4Step K_example E_example fnUpdate_example
        [star_example, planet_example] control_example update_example 1 = Inr (b, c, u, 0.16))"
proof -
  have v: "bVarDt (Evolve control_example)" by (simp add: control_example_def)
  have m: "\<exists>u c b. fdGetTimeStep K_example E_example fnUpdate_example [star_example, planet_example]
         (BodyCopy [star_example, planet_example]) control_example
         (tmpUpdate (Evolve control_example)) = Inr (16, u, c, b)"
    using fdGetTimeStep_example by (auto simp add: BodyCopy_def control_example_def)
  have t: "fdNextOutput (dTime (Evolve control_example)) (dOutputTime (Io control_example))
        - dTime (Evolve control_example) = 100"
    by (simp add: control_example_def io_example_def fdNextOutput_def int_of_double_def)
  have e: "dEta (Evolve control_example) = 0.01" by (simp add: control_example_def)
  note w = timestep_bound [OF v, of K_example E_example fnUpdate_example
      "[star_example, planet_example]" update_example 1]
  from w never_exits_example obtain b c u d where
    s: "RungeKutta4Step K_example E_example fnUpdate_example
        [star_example, planet_example] control_example update_example 1 = Inr (b, c, u, d)"
    by (metis prod_cases4)
  from w s m have "d = AssignDt 16 100 0.01"
    unfolding t e by auto
  then have "d = 0.16" by (simp add: AssignDt_def)
  with s v m t never_exits_example show ?thesis by blast
qed

subsection \<open>The kind VALUE in the timestep selection\<close>

lemma contribs_append:
  "contribs f (xs @ ys) b =
     (case contribs f xs b of
        Inl e \<Rightarrow> Inl e
      | Inr (vs, b1) \<Rightarrow>
          (case contribs f ys b1 of Inl e \<Rightarrow> Inl e | Inr (ws, b2) \<Rightarrow> Inr (vs @ ws, b2)))"
  by (induction xs arbitrary: b) (auto split: sum.splits)

text \<open>
  The loop that calls the contributors of a variable exits when one of them does; otherwise
  it leaves their values in the scratch row of the variable.
\<close>

lemma eval_loop_contribs:
  assumes i: "iBody < length u"
  shows "case contribs (fnUpdate iBody iVar) [0..<n] b of
           Inl e \<Rightarrow> for_loop (call_fnUpdate fnUpdate iBody iVar) [0..<n] (u, b) = Inl e
         | Inr (vs, b') \<Rightarrow> length vs = n
             \<and> (\<exists>u'. for_loop (call_fnUpdate fnUpdate iBody iVar) [0..<n] (u, b) = Inr (u', b')
                    \<and> rewritten u u' \<and> (\<forall>e<n. scratch u' iBody iVar e = vs ! e))"
proof (induction n)
  case 0
  show ?case by (simp add: rewritten_refl)
next
  case (Suc n)
  show ?case
  proof (cases "contribs (fnUpdate iBody iVar) [0..<n] b")
    case (Inl e)
    with Suc show ?thesis by (simp add: contribs_append for_loop_append)
  next
    case (Inr r)
    obtain vs b1 where r: "r = (vs, b1)" by (cases r)
    from Suc Inr r obtain u1 where l: "length vs = n"
      and f: "for_loop (call_fnUpdate fnUpdate iBody iVar) [0..<n] (u, b) = Inr (u1, b1)"
      and w: "rewritten u u1" and s: "\<forall>e<n. scratch u1 iBody iVar e = vs ! e"
      by auto
    have i1: "iBody < length u1" using w i by (simp add: rewritten_def)
    show ?thesis
    proof (cases "fnUpdate iBody iVar n b1")
      case (Inl e)
      then show ?thesis
        using Inr r f by (simp add: contribs_append for_loop_append call_fnUpdate_def)
    next
      case (Inr q)
      obtain x b2 where q: "q = (x, b2)" by (cases q)
      have c: "contribs (fnUpdate iBody iVar) [0..<Suc n] b = Inr (vs @ [x], b2)"
        using \<open>contribs (fnUpdate iBody iVar) [0..<n] b = Inr r\<close> r Inr q
        by (simp add: contribs_append)
      have g: "for_loop (call_fnUpdate fnUpdate iBody iVar) [0..<Suc n] (u, b)
                 = Inr (set_daDerivProc u1 iBody iVar n x, b2)"
        using f Inr q by (simp add: for_loop_append call_fnUpdate_def)
      have w': "rewritten u (set_daDerivProc u1 iBody iVar n x)"
        using w rewritten_set by (rule rewritten_trans)
      have s': "\<forall>e<Suc n. scratch (set_daDerivProc u1 iBody iVar n x) iBody iVar e = (vs @ [x]) ! e"
        using s l i1 by (auto simp add: scratch_set nth_append less_Suc_eq)
      show ?thesis
        unfolding c g using l w' s' by simp
    qed
  qed
qed

lemma sum_list_nth: "(\<Sum>e<length vs. vs ! e) = sum_list (vs :: real list)"
  by (simp add: sum_list_sum_nth atLeast0LessThan)

text \<open>The branch of \<^verbatim>\<open>fdGetTimeStep\<close> for a variable of kind 0.\<close>

lemma fdGetTimeStep_iVar_value:
  assumes i: "iBody < length update"
    and k: "iaType (update ! iBody) ! iVar ! 0 = 0"
  shows "case contribs (fnUpdate iBody iVar) [0..<iNumEqns (update ! iBody) ! iVar] body of
           Inl e \<Rightarrow> fdGetTimeStep_iVar K E fnUpdate integr pointee iBody iVar
                       (dMin, update, control, body) = Inl e
         | Inr (vs, body') \<Rightarrow>
             (\<exists>update'. fdGetTimeStep_iVar K E fnUpdate integr pointee iBody iVar
                    (dMin, update, control, body) =
                Inr (let x = deref (pdVar (update ! iBody) ! iVar) (pointee ! iBody);
                         v = sum_list vs
                     in if bFirstStep (Evolve control) then
                          (dTimeStep integr, update',
                           control\<lparr>Evolve := (Evolve control)\<lparr>bFirstStep := False\<rparr>\<rparr>, body')
                        else if x \<noteq> v then
                          (min dMin \<bar>x / ((x - v) / dTimeStep integr)\<bar>, update', control, body')
                        else (dMin, update', control, body')))"
proof (cases "contribs (fnUpdate iBody iVar) [0..<iNumEqns (update ! iBody) ! iVar] body")
  case (Inl e)
  with eval_loop_contribs [OF i, of fnUpdate iVar "iNumEqns (update ! iBody) ! iVar" body]
  show ?thesis by (simp add: fdGetTimeStep_iVar_def k Let_def)
next
  case (Inr r)
  obtain vs b' where r: "r = (vs, b')" by (cases r)
  define n where "n = iNumEqns (update ! iBody) ! iVar"
  from eval_loop_contribs [OF i, of fnUpdate iVar "iNumEqns (update ! iBody) ! iVar" body] Inr r
  obtain u' where l: "length vs = n"
    and f: "for_loop (call_fnUpdate fnUpdate iBody iVar) [0..<n] (update, body) = Inr (u', b')"
    and w: "rewritten update u'" and s: "\<forall>e<n. scratch u' iBody iVar e = vs ! e"
    unfolding n_def by auto
  have m: "iNumEqns (u' ! iBody) = iNumEqns (update ! iBody)"
    using w by (simp add: rewritten_def same_meta_def)
  have t: "fold (\<lambda>iEqn dVarTotal. dVarTotal + daDerivProc (u' ! iBody) iVar iEqn) [0..<n] 0
             = sum_list vs"
    unfolding fold_sum_upt using s l sum_list_nth [of vs] by (simp add: scratch_def)
  show ?thesis
    unfolding Inr r
    by (rule iffD2 [OF sum.case(2)], unfold split_conv, rule exI [of _ u'])
       (simp add: fdGetTimeStep_iVar_def k Let_def n_def [symmetric] f m t min_def)
qed

text \<open>
  Claim C6 says that a variable of kind VALUE (tag 0) never determines the minimum
  timescale that \<^verbatim>\<open>fdGetTimeStep\<close> returns. On the example system the selector returns 16,
  which is \<open>|x / ((x - v) / dTimeStep)|\<close> for the radius of the planet (kind 0, current
  value \<open>x = 6.4 \<cdot> 10\<^sup>6\<close>, contributor \<open>v = 6 \<cdot> 10\<^sup>6\<close>, \<^verbatim>\<open>dTimeStep\<close> 1); with the radius taken
  out of the matrix it returns 100.
\<close>

theorem value_kind_sets_timestep:
  "iaType (update_example ! 1) ! 1 ! 0 = 0
   \<and> (\<exists>u c b. fdGetTimeStep K_example E_example fnUpdate_example [star_example, planet_example]
         [star_example, planet_example] control_example update_example = Inr (16, u, c, b))
   \<and> (\<exists>u c b. fdGetTimeStep K_example E_example fnUpdate_example [star_example, planet_example]
         [star_example, planet_example] control_example
         (update_example[1 := (update_example ! 1)\<lparr>iNumVars := 1\<rparr>]) = Inr (100, u, c, b))"
proof -
  have "iaType (update_example ! 1) ! 1 ! 0 = 0" by (simp add: update_example_def)
  moreover have "\<exists>u c b. fdGetTimeStep K_example E_example fnUpdate_example
         [star_example, planet_example] [star_example, planet_example] control_example
         update_example = Inr (16, u, c, b)"
    using fdGetTimeStep_example by blast
  ultimately show ?thesis using fdGetTimeStep_example_without by blast
qed

text \<open>
  Claim C6, amended. A variable of kind VALUE takes part in the timestep selection. Its
  contributors are called one after the other; if one of them exits, so does
  \<^verbatim>\<open>fdGetTimeStep\<close>. Otherwise, for such a variable with current value \<open>x\<close> and with \<open>v\<close> the
  sum of the values of its contributors, \<^verbatim>\<open>fdGetTimeStep\<close> sets the running minimum to the
  seed \<^verbatim>\<open>dTimeStep\<close> on the first step; after the first step it lowers the running minimum
  to \<open>|x / ((x - v) / dTimeStep)|\<close> when \<open>v \<noteq> x\<close>, and leaves it only when \<open>v = x\<close>.
\<close>

theorem value_kind_in_timestep:
  assumes i: "iBody < length update"
    and k: "iaType (update ! iBody) ! iVar ! 0 = 0"
  shows "case contribs (fnUpdate iBody iVar) [0..<iNumEqns (update ! iBody) ! iVar] body of
           Inl e \<Rightarrow> fdGetTimeStep_iVar K E fnUpdate integr pointee iBody iVar
                       (dMin, update, control, body) = Inl e
         | Inr (vs, body') \<Rightarrow>
             (\<exists>dMin' update' control'.
                 fdGetTimeStep_iVar K E fnUpdate integr pointee iBody iVar
                    (dMin, update, control, body) = Inr (dMin', update', control', body')
               \<and> (let x = deref (pdVar (update ! iBody) ! iVar) (pointee ! iBody);
                       v = sum_list vs
                   in (bFirstStep (Evolve control) \<longrightarrow> dMin' = dTimeStep integr)
                    \<and> (\<not> bFirstStep (Evolve control) \<and> x \<noteq> v \<longrightarrow>
                          dMin' = min dMin \<bar>x / ((x - v) / dTimeStep integr)\<bar>)
                    \<and> (\<not> bFirstStep (Evolve control) \<and> x = v \<longrightarrow> dMin' = dMin)))"
  using fdGetTimeStep_iVar_value [OF i k, where fnUpdate = fnUpdate and body = body and K = K
      and E = E and integr = integr and pointee = pointee and dMin = dMin and control = control]
  by (auto simp add: Let_def split: sum.splits)

theorem value_kind_in_timestep_witness:
  "(1::nat) < length update_example
   \<and> iaType (update_example ! 1) ! 1 ! 0 = 0
   \<and> bFirstStep (Evolve control_example) = False
   \<and> deref (pdVar (update_example ! 1) ! 1) ([star_example, planet_example] ! 1) = 6.4 * 10 ^ 6
   \<and> contribs (fnUpdate_example 1 1) [0..<iNumEqns (update_example ! 1) ! 1]
        [star_example, planet_example] = Inr ([6 * 10 ^ 6], [star_example, planet_example])
   \<and> (\<exists>u c. fdGetTimeStep_iVar K_example E_example fnUpdate_example (Evolve control_example)
          [star_example, planet_example] 1 1
          (100, update_example, control_example, [star_example, planet_example])
        = Inr (16, u, c, [star_example, planet_example]))"
proof -
  have i: "(1::nat) < length update_example" by (simp add: update_example_def)
  have k: "iaType (update_example ! 1) ! 1 ! 0 = 0" by (simp add: update_example_def)
  have f: "bFirstStep (Evolve control_example) = False" by (simp add: control_example_def)
  have x: "deref (pdVar (update_example ! 1) ! 1) ([star_example, planet_example] ! 1) = 6.4 * 10 ^ 6"
    by (simp add: update_example_def planet_example_def body_example_def)
  have c: "contribs (fnUpdate_example 1 1) [0..<iNumEqns (update_example ! 1) ! 1]
        [star_example, planet_example] = Inr ([6 * 10 ^ 6], [star_example, planet_example])"
    by (simp add: update_example_def fnUpdate_example_def)
  have t: "dTimeStep (Evolve control_example) = 1" by (simp add: control_example_def)
  from value_kind_in_timestep [OF i k, where fnUpdate = fnUpdate_example
      and body = "[star_example, planet_example]" and K = K_example and E = E_example
      and integr = "Evolve control_example" and pointee = "[star_example, planet_example]"
      and dMin = 100 and control = control_example]
  have "\<exists>u c. fdGetTimeStep_iVar K_example E_example fnUpdate_example (Evolve control_example)
          [star_example, planet_example] 1 1
          (100, update_example, control_example, [star_example, planet_example])
        = Inr (16, u, c, [star_example, planet_example])"
    unfolding c x by (simp add: f t)
  with i k f x c show ?thesis by blast
qed

subsection \<open>One step of the integrator\<close>

text \<open>
  One step that returns, variable by variable. The scratch arrays \<open>tu0\<close>, \<open>tu1\<close>, \<open>tu2\<close> and
  \<open>tu3\<close> are \<^verbatim>\<open>evolve->tmpUpdate\<close> as \<^verbatim>\<open>fdGetTimeStep\<close> and the three calls of
  \<^verbatim>\<open>fdGetUpdateInfo\<close> leave it, \<open>b0\<close> is the body array as the contributors called by
  \<^verbatim>\<open>fdGetTimeStep\<close> leave it.
\<close>

lemma RungeKutta4Step_effect:
  assumes n: "iNumBodies (Evolve control) \<le> length body"
      "iNumBodies (Evolve control) \<le> length update"
    and r: "rewritten update (tmpUpdate (Evolve control))"
    and l: "keeps_length fnUpdate"
    and i: "iBody < iNumBodies (Evolve control)"
    and v: "iVar < iNumVars (update ! iBody)"
    and h: "own_home (update ! iBody)"
    and s: "RungeKutta4Step K E fnUpdate body control update iDir
              = Inr (body', control', update', dDt)"
  shows "\<exists>dMin tu0 c0 b0 tu1 tb1 tu2 tb2 tu3 tb3.
      fdGetTimeStep K E fnUpdate body (BodyCopy body) control (tmpUpdate (Evolve control))
        = Inr (dMin, tu0, c0, b0)
    \<and> (let nB = iNumBodies (Evolve control);
            c1 = c0\<lparr>Evolve := (Evolve c0)\<lparr>dCurrentDt := dDt\<rparr>\<rparr>;
            p = pdVar (update ! iBody) ! iVar;
            f0 = deriv_sum iDir update (scratch tu0);
            f1 = deriv_sum iDir update (scratch tu1);
            f2 = deriv_sum iDir update (scratch tu2);
            f3 = deriv_sum iDir update (scratch tu3)
        in fdGetUpdateInfo fnUpdate
             (PropertiesAuxiliary E (tmp_advance update nB b0 (0.5 * dDt) f0 (BodyCopy body)) c1)
             c1 tu0 = Inr (tu1, tb1)
         \<and> fdGetUpdateInfo fnUpdate
             (PropertiesAuxiliary E (tmp_advance update nB b0 (0.5 * dDt) f1 tb1) c1)
             c1 tu1 = Inr (tu2, tb2)
         \<and> fdGetUpdateInfo fnUpdate
             (PropertiesAuxiliary E (tmp_advance update nB b0 (1 * dDt) f2 tb2) c1)
             c1 tu2 = Inr (tu3, tb3)
         \<and> (\<not> value_kind update iBody iVar \<longrightarrow>
               deref p (body' ! iBody)
                 = deref p (b0 ! iBody)
                   + 1 / 6 * (f0 iBody iVar + 2 * f1 iBody iVar + 2 * f2 iBody iVar + f3 iBody iVar)
                     * dDt)
         \<and> (value_kind update iBody iVar \<longrightarrow>
               deref p (body' ! iBody) = f0 iBody iVar
               \<and> EVOLVE.daDeriv (Evolve control') 3 iBody iVar
                   = EVOLVE.daDeriv (Evolve control) 3 iBody iVar)
         \<and> (iaType (update ! iBody) ! iVar ! 0 = 10 \<longrightarrow>
               f0 iBody iVar
                 = deriv_sum iDir update (scratch (tmpUpdate (Evolve control))) iBody iVar)
         \<and> tmpUpdate (Evolve control') = tu3 \<and> tmpBody (Evolve control') = tb3)"
proof -
  define nB where "nB = iNumBodies (Evolve control)"
  from RungeKutta4Step_stages [OF s]
  obtain dMin tu0 c0 b0 c1 D0 tb1 tu1 tb1' D1 tb2 tu2 tb2' D2 tb3 tu3 tb3' D3 where
    gt: "fdGetTimeStep K E fnUpdate body (BodyCopy body) control (tmpUpdate (Evolve control))
        = Inr (dMin, tu0, c0, b0)"
    and c1: "c1 = c0\<lparr>Evolve := (Evolve c0)\<lparr>dCurrentDt := dDt\<rparr>\<rparr>"
    and s0: "RungeKutta4Step_substep 0 0.5 iDir dDt (iNumBodies (Evolve c1)) b0 update tu0
         (EVOLVE.daDeriv (Evolve control), BodyCopy body) = (D0, tb1)"
    and g1: "fdGetUpdateInfo fnUpdate (PropertiesAuxiliary E tb1 c1) c1 tu0 = Inr (tu1, tb1')"
    and s1: "RungeKutta4Step_substep 1 0.5 iDir dDt (iNumBodies (Evolve c1)) b0 update tu1
         (D0, tb1') = (D1, tb2)"
    and g2: "fdGetUpdateInfo fnUpdate (PropertiesAuxiliary E tb2 c1) c1 tu1 = Inr (tu2, tb2')"
    and s2: "RungeKutta4Step_substep 2 1 iDir dDt (iNumBodies (Evolve c1)) b0 update tu2
         (D1, tb2') = (D2, tb3)"
    and g3: "fdGetUpdateInfo fnUpdate (PropertiesAuxiliary E tb3 c1) c1 tu2 = Inr (tu3, tb3')"
    and d3: "D3 = RungeKutta4Step_fourth iDir (iNumBodies (Evolve c1)) update tu3 D2"
    and up: "RungeKutta4Step_update dDt (iNumBodies (Evolve c1)) D3 (b0, update) = (body', update')"
    and c': "control' = c1\<lparr>Evolve := (Evolve c1)\<lparr>tmpBody := tb3', tmpUpdate := tu3,
                                              EVOLVE.daDeriv := D3\<rparr>\<rparr>"
    by blast
  note e = fdGetTimeStep_effect [OF gt]
  have nb: "iNumBodies (Evolve c1) = nB"
    unfolding c1 nB_def using kept_fields [OF e(2)] by simp
  have lb: "length b0 = length body" using e(3) l by simp
  have w0: "rewritten update tu0" using r e(1) by (rule rewritten_trans)
  have w1: "rewritten update tu1"
    using w0 fdGetUpdateInfo_effect(1) [OF g1] by (rule rewritten_trans)
  have w2: "rewritten update tu2"
    using w1 fdGetUpdateInfo_effect(1) [OF g2] by (rule rewritten_trans)
  have p: "pdVar (tu ! j) = pdVar (update ! j)" if "rewritten update tu" for tu j
    using rewritten_nth [OF that, of j] by simp
  define f0 where "f0 = deriv_sum iDir update (scratch tu0)"
  define f1 where "f1 = deriv_sum iDir update (scratch tu1)"
  define f2 where "f2 = deriv_sum iDir update (scratch tu2)"
  define f3 where "f3 = deriv_sum iDir update (scratch tu3)"
  have iv: "iBody < nB \<and> iVar < iNumVars (update ! iBody)"
    using i v by (simp add: nB_def)
  have e0: "D0 = (\<lambda>k' i v. if k' = 0 \<and> i < nB \<and> v < iNumVars (update ! i)
                   then f0 i v else EVOLVE.daDeriv (Evolve control) k' i v)"
    and t1: "tb1 = tmp_advance update nB b0 (0.5 * dDt) f0 (BodyCopy body)"
    using s0 unfolding nb substep_effect [OF p [OF w0]] f0_def by simp_all
  have e1: "D1 = (\<lambda>k' i v. if k' = 1 \<and> i < nB \<and> v < iNumVars (update ! i)
                   then f1 i v else D0 k' i v)"
    and t2: "tb2 = tmp_advance update nB b0 (0.5 * dDt) f1 tb1'"
    using s1 unfolding nb substep_effect [OF p [OF w1]] f1_def by simp_all
  have e2: "D2 = (\<lambda>k' i v. if k' = 2 \<and> i < nB \<and> v < iNumVars (update ! i)
                   then f2 i v else D1 k' i v)"
    and t3: "tb3 = tmp_advance update nB b0 (1 * dDt) f2 tb2'"
    using s2 unfolding nb substep_effect [OF p [OF w2]] f2_def by simp_all
  have e3: "D3 = (\<lambda>k i v. if k = 3 \<and> i < nB \<and> v < iNumVars (update ! i) \<and> \<not> value_kind update i v
                  then f3 i v else D2 k i v)"
    unfolding d3 nb fourth_effect f3_def ..
  have D: "D3 0 iBody iVar = f0 iBody iVar" "D3 1 iBody iVar = f1 iBody iVar"
    "D3 2 iBody iVar = f2 iBody iVar"
    "\<not> value_kind update iBody iVar \<Longrightarrow> D3 3 iBody iVar = f3 iBody iVar"
    "value_kind update iBody iVar
       \<Longrightarrow> D3 3 iBody iVar = EVOLVE.daDeriv (Evolve control) 3 iBody iVar"
    using iv by (simp_all add: e0 e1 e2 e3)
  have b: "deref (pdVar (update ! iBody) ! iVar) (body' ! iBody)
       = (if value_kind update iBody iVar then D3 0 iBody iVar
          else deref (pdVar (update ! iBody) ! iVar) (b0 ! iBody)
               + 1 / 6 * (D3 0 iBody iVar + 2 * D3 1 iBody iVar + 2 * D3 2 iBody iVar
                          + D3 3 iBody iVar) * dDt)"
    using update_deref [of nB update b0 iBody iVar dDt D3, OF _ _ _ _ own_home_nth [OF h]]
      n lb iv up unfolding nb by (simp add: nB_def)
  have x: "f0 iBody iVar
             = deriv_sum iDir update (scratch (tmpUpdate (Evolve control))) iBody iVar"
    if k: "iaType (update ! iBody) ! iVar ! 0 = 10"
  proof -
    have "iaType (tmpUpdate (Evolve control) ! iBody) ! iVar ! 0 = 10"
      using k rewritten_nth [OF r, of iBody] by simp
    from e(4) [OF this] show ?thesis by (simp add: f0_def deriv_sum_def)
  qed
  have cd: "EVOLVE.daDeriv (Evolve control') = D3" "tmpUpdate (Evolve control') = tu3"
    "tmpBody (Evolve control') = tb3'"
    unfolding c' by simp_all
  show ?thesis
    apply (rule exI [of _ dMin], rule exI [of _ tu0], rule exI [of _ c0], rule exI [of _ b0])
    apply (rule exI [of _ tu1], rule exI [of _ tb1'], rule exI [of _ tu2], rule exI [of _ tb2'])
    apply (rule exI [of _ tu3], rule exI [of _ tb3'])
    apply (rule conjI [OF gt])
    unfolding Let_def nB_def [symmetric] c1 [symmetric] f0_def [symmetric] f1_def [symmetric]
      f2_def [symmetric] f3_def [symmetric]
    using g1 g2 g3 b D x cd unfolding t1 t2 t3 by simp
qed

lemma example_hyps:
  "iNumBodies (Evolve control_example) \<le> length [star_example, planet_example]"
  "iNumBodies (Evolve control_example) \<le> length update_example"
  "rewritten update_example (tmpUpdate (Evolve control_example))"
  "own_home (update_example ! 0)" "own_home (update_example ! Suc 0)"
  "list_all2 same_meta update_example (tmpUpdate (Evolve control_example))"
  by (simp_all add: control_example_def update_example_def rewritten_def same_meta_def
      own_home_def)

lemma RungeKutta4Step_example:
  assumes i: "iBody < 2" and v: "iVar < 2" and k: "value_kind update_example iBody iVar"
  shows "\<exists>b c u d. RungeKutta4Step K_example E_example fnUpdate_example
            [star_example, planet_example] control_example update_example iDir = Inr (b, c, u, d)
          \<and> (\<forall>tu0. (\<exists>dMin c0 b0.
                 fdGetTimeStep K_example E_example fnUpdate_example [star_example, planet_example]
                   [star_example, planet_example] control_example update_example
                   = Inr (dMin, tu0, c0, b0)) \<longrightarrow>
               deref (pdVar (update_example ! iBody) ! iVar) (b ! iBody)
                 = real_of_int iDir * scratch tu0 iBody iVar 0)"
proof -
  obtain q where "RungeKutta4Step K_example E_example fnUpdate_example
            [star_example, planet_example] control_example update_example iDir = Inr q"
    using RungeKutta4Step_returns [OF never_exits_example] by blast
  moreover obtain b c u d where "q = (b, c, u, d)" by (cases q)
  ultimately have s: "RungeKutta4Step K_example E_example fnUpdate_example
            [star_example, planet_example] control_example update_example iDir = Inr (b, c, u, d)"
    by simp
  have j: "iBody = 0 \<or> iBody = Suc 0" "iVar = 0 \<or> iVar = Suc 0" using i v by auto
  have i': "iBody < iNumBodies (Evolve control_example)"
    using i by (simp add: control_example_def)
  have v': "iVar < iNumVars (update_example ! iBody)"
    using j by (auto simp add: update_example_def)
  have h: "own_home (update_example ! iBody)" using j(1) example_hyps(4,5) by auto
  have q: "iNumEqns (update_example ! iBody) ! iVar = Suc 0"
    using j by (auto simp add: update_example_def)
  have t: "tmpUpdate (Evolve control_example) = update_example"
    by (simp add: control_example_def)
  from RungeKutta4Step_effect [OF example_hyps(1,2,3) keeps_length_example i' v' h s]
  obtain dMin tu0 c0 b0 where
    gt: "fdGetTimeStep K_example E_example fnUpdate_example [star_example, planet_example]
           [star_example, planet_example] control_example update_example
           = Inr (dMin, tu0, c0, b0)"
    and a: "deref (pdVar (update_example ! iBody) ! iVar) (b ! iBody)
              = deriv_sum iDir update_example (scratch tu0) iBody iVar"
    unfolding Let_def BodyCopy_def t using k by blast
  have "deref (pdVar (update_example ! iBody) ! iVar) (b ! iBody)
                 = real_of_int iDir * scratch tu0 iBody iVar 0"
    unfolding a deriv_sum_def q by simp
  with s gt show ?thesis by auto
qed

text \<open>
  Claim C3 says that a variable of kind VALUE or EXPLICIT is assigned the value \<open>f0\<close> that
  its contributors give at the start of the step. On the example system:

  \<^item> the temperature of the star has kind 10 (EXPLICIT), its contributor returns 5780 on the
    body array at the start of the step, and the scratch entry of \<^verbatim>\<open>evolve->tmpUpdate\<close>
    holds 0 on entry. After the step the temperature is 0: the branch of \<^verbatim>\<open>fdGetTimeStep\<close>
    for kind 10 does not call the contributors, and \<^verbatim>\<open>RungeKutta4Step\<close> assigns the sum of
    the scratch entries as they were on entry;

  \<^item> the radius of the planet has kind 0 (VALUE) and its contributor returns \<open>6 \<cdot> 10\<^sup>6\<close>. After
    a forward step (\<^verbatim>\<open>iDir\<close> = 1) the radius is \<open>6 \<cdot> 10\<^sup>6\<close>; after a backward step
    (\<^verbatim>\<open>iDir\<close> = -1) it is \<open>- 6 \<cdot> 10\<^sup>6\<close>: the assigned value carries the sign \<^verbatim>\<open>iDir\<close> of the
    direction of the integration.
\<close>

theorem RungeKutta4Step_assigned_value:
  "iaType (update_example ! 0) ! 1 ! 0 = 10
   \<and> fnUpdate_example 0 1 0 [star_example, planet_example]
       = Inr (5780, [star_example, planet_example])
   \<and> scratch (tmpUpdate (Evolve control_example)) 0 1 0 = 0
   \<and> (\<exists>b c u d. RungeKutta4Step K_example E_example fnUpdate_example
          [star_example, planet_example] control_example update_example 1 = Inr (b, c, u, d)
        \<and> dTemperature (b ! 0) = 0 \<and> dRadius (b ! 1) = 6 * 10 ^ 6)
   \<and> iaType (update_example ! 1) ! 1 ! 0 = 0
   \<and> fnUpdate_example 1 1 0 [star_example, planet_example]
       = Inr (6 * 10 ^ 6, [star_example, planet_example])
   \<and> (\<exists>b c u d. RungeKutta4Step K_example E_example fnUpdate_example
          [star_example, planet_example] control_example update_example (- 1) = Inr (b, c, u, d)
        \<and> dRadius (b ! 1) = - (6 * 10 ^ 6))"
proof -
  have k: "value_kind update_example 0 (Suc 0)" "value_kind update_example (Suc 0) (Suc 0)"
    "pdVar (update_example ! 0) ! Suc 0 = PTR_dTemperature"
    "pdVar (update_example ! Suc 0) ! Suc 0 = PTR_dRadius"
    by (simp_all add: value_kind_def update_example_def)
  obtain tu0 where g: "\<exists>dMin c0 b0.
       fdGetTimeStep K_example E_example fnUpdate_example [star_example, planet_example]
         [star_example, planet_example] control_example update_example
         = Inr (dMin, tu0, c0, b0)"
    and z: "scratch tu0 0 (Suc 0) 0 = 0" "scratch tu0 (Suc 0) (Suc 0) 0 = 6 * 10 ^ 6"
    using fdGetTimeStep_example by blast
  have f: "\<exists>b c u d. RungeKutta4Step K_example E_example fnUpdate_example
          [star_example, planet_example] control_example update_example 1 = Inr (b, c, u, d)
        \<and> dTemperature (b ! 0) = 0 \<and> dRadius (b ! 1) = 6 * 10 ^ 6"
  proof -
    from RungeKutta4Step_example [OF _ _ k(1), of 1] obtain b c u d where
      s: "RungeKutta4Step K_example E_example fnUpdate_example
          [star_example, planet_example] control_example update_example 1 = Inr (b, c, u, d)"
      and a: "deref (pdVar (update_example ! 0) ! Suc 0) (b ! 0)
                 = real_of_int 1 * scratch tu0 0 (Suc 0) 0"
      using g by auto
    from RungeKutta4Step_example [OF _ _ k(2), of 1] s g
    have a': "deref (pdVar (update_example ! Suc 0) ! Suc 0) (b ! Suc 0)
                 = real_of_int 1 * scratch tu0 (Suc 0) (Suc 0) 0"
      by auto
    from a a' have "dTemperature (b ! 0) = 0 \<and> dRadius (b ! 1) = 6 * 10 ^ 6"
      unfolding k z by simp
    with s show ?thesis by blast
  qed
  have r: "\<exists>b c u d. RungeKutta4Step K_example E_example fnUpdate_example
          [star_example, planet_example] control_example update_example (- 1) = Inr (b, c, u, d)
        \<and> dRadius (b ! 1) = - (6 * 10 ^ 6)"
  proof -
    from RungeKutta4Step_example [OF _ _ k(2), of "- 1"] obtain b c u d where
      s: "RungeKutta4Step K_example E_example fnUpdate_example
          [star_example, planet_example] control_example update_example (- 1) = Inr (b, c, u, d)"
      and a: "deref (pdVar (update_example ! Suc 0) ! Suc 0) (b ! Suc 0)
                 = real_of_int (- 1) * scratch tu0 (Suc 0) (Suc 0) 0"
      using g by auto
    from a have "dRadius (b ! 1) = - (6 * 10 ^ 6)"
      unfolding k z by simp
    with s show ?thesis by blast
  qed
  have "iaType (update_example ! 0) ! 1 ! 0 = 10" "iaType (update_example ! 1) ! 1 ! 0 = 0"
    "fnUpdate_example 0 1 0 [star_example, planet_example]
       = Inr (5780, [star_example, planet_example])"
    "fnUpdate_example 1 1 0 [star_example, planet_example]
       = Inr (6 * 10 ^ 6, [star_example, planet_example])"
    "scratch (tmpUpdate (Evolve control_example)) 0 1 0 = 0"
    by (simp_all add: update_example_def fnUpdate_example_def scratch_def control_example_def)
  with f r show ?thesis by blast
qed

end
